theory Spec2Isabelle
  imports Main "HOL-Library.Multiset"
begin

section \<open>JavaScript primitives used by report.ts\<close>

text \<open>
  The report engine (\<^verbatim>\<open>generateMarkdownReport\<close>, \<^verbatim>\<open>buildPDFDocument\<close> and their helpers)
  is written in TypeScript. Strings are modelled as lists of one-byte code units (\<open>string\<close>),
  the counts and indices that the engine computes with are natural numbers, and the result of
  \<^verbatim>\<open>parseInt\<close>, a double that can be \<^verbatim>\<open>NaN\<close>, has the type \<open>number\<close> below. A run-time
  \<^verbatim>\<open>TypeError\<close> is the value \<open>Inl TypeError\<close>.
\<close>

datatype error = TypeError

text \<open>\<^verbatim>\<open>\s\<close> and \<^verbatim>\<open>trim\<close>: tab, line feed, vertical tab, form feed, carriage return, space and
  no-break space (the white space that fits a one-byte code unit).\<close>

definition isWhiteSpace :: "char \<Rightarrow> bool" where
  "isWhiteSpace c = ((of_char c :: nat) \<in> {9, 10, 11, 12, 13, 32, 160})"

definition trim :: "string \<Rightarrow> string" where
  "trim s = rev (dropWhile isWhiteSpace (rev (dropWhile isWhiteSpace s)))"

text \<open>\<^verbatim>\<open>s.replace(/\s+/g, '')\<close> deletes every white-space character.\<close>

definition removeWhiteSpace :: "string \<Rightarrow> string" where
  "removeWhiteSpace s = filter (\<lambda>c. \<not> isWhiteSpace c) s"

text \<open>
  \<^verbatim>\<open>toLowerCase\<close> and \<^verbatim>\<open>toUpperCase\<close> on one-byte code units (Latin-1). The capital letters
  are \<open>A\<close> to \<open>Z\<close> and the code units 192 to 222 without the multiplication sign (215); the
  small letters are \<open>a\<close> to \<open>z\<close> and the code units 224 to 254 without the division sign
  (247); the sharp s (223) becomes \<open>SS\<close>. The upper-case forms of the micro sign (181) and of
  y with diaeresis (255) are not one-byte code units and cannot be written in a \<open>string\<close>:
  these two code units are kept, and a division name that holds one is outside the model.
\<close>

definition lowerChar :: "char \<Rightarrow> char" where
  "lowerChar c =
     (let n = (of_char c :: nat) in
      if (65 \<le> n \<and> n \<le> 90) \<or> (192 \<le> n \<and> n \<le> 222 \<and> n \<noteq> 215) then char_of (n + 32) else c)"

definition upperChar :: "char \<Rightarrow> string" where
  "upperChar c =
     (let n = (of_char c :: nat) in
      if (97 \<le> n \<and> n \<le> 122) \<or> (224 \<le> n \<and> n \<le> 254 \<and> n \<noteq> 247) then [char_of (n - 32)]
      else if n = 223 then ''SS''
      else [c])"

definition toLowerCase :: "string \<Rightarrow> string" where
  "toLowerCase s = map lowerChar s"

definition toUpperCase :: "string \<Rightarrow> string" where
  "toUpperCase s = concat (map upperChar s)"

text \<open>A number inside a template literal: the decimal digits of a natural number.\<close>

definition digitChar :: "nat \<Rightarrow> char" where
  "digitChar d = char_of (48 + d)"

function decimal :: "nat \<Rightarrow> string" where
  "decimal n = (if n < 10 then [digitChar n] else decimal (n div 10) @ [digitChar (n mod 10)])"
  by pat_completeness auto
termination
  by (relation "measure id") auto

declare decimal.simps [simp del]

text \<open>\<^verbatim>\<open>xs.join(sep)\<close>.\<close>

fun join :: "string \<Rightarrow> string list \<Rightarrow> string" where
  "join sep [] = []"
| "join sep [x] = x"
| "join sep (x # y # ys) = x @ sep @ join sep (y # ys)"

text \<open>
  \<^verbatim>\<open>s.split(sep)\<close> for a non-empty separator. \<open>splitFrom sep k s\<close> walks \<open>s\<close>; \<open>k\<close> counts the
  code units of a separator just matched that are still to be skipped. The result always has
  at least one segment.
\<close>

fun splitFrom :: "string \<Rightarrow> nat \<Rightarrow> string \<Rightarrow> string list" where
  "splitFrom sep k [] = [[]]"
| "splitFrom sep (Suc k) (c # cs) = splitFrom sep k cs"
| "splitFrom sep 0 (c # cs) =
     (if take (length sep) (c # cs) = sep then [] # splitFrom sep (length sep - 1) cs
      else (case splitFrom sep 0 cs of
              [] \<Rightarrow> [[c]]
            | seg # rest \<Rightarrow> (c # seg) # rest))"

definition split :: "string \<Rightarrow> string \<Rightarrow> string list" where
  "split sep s = splitFrom sep 0 s"

text \<open>
  A JavaScript number is a double. The doubles that the model carries are \<^verbatim>\<open>NaN\<close> and the
  integers of magnitude up to \<open>2^53\<close>, each of which is a double. Every other number is
  \<open>Beyond\<close>: the model does not carry its value.
\<close>

datatype number = NaN | Finite int | Beyond

text \<open>
  \<^verbatim>\<open>parseInt(s)\<close> without a radix: leading white space is skipped, a sign is read, a
  \<^verbatim>\<open>0x\<close> prefix selects radix 16, and the longest run of digits is converted; no digit gives
  \<^verbatim>\<open>NaN\<close>. A run of up to fifteen decimal or thirteen hexadecimal digits has a value of at
  most \<open>2^52\<close> and gives that integer exactly. A longer run is in general rounded to a
  double, or is infinite, and beyond twenty digits the implementation may choose the rounding;
  its value is not carried.
\<close>

definition digitValue :: "char \<Rightarrow> nat option" where
  "digitValue c =
     (let n = (of_char c :: nat) in
      if 48 \<le> n \<and> n \<le> 57 then Some (n - 48)
      else if 97 \<le> n \<and> n \<le> 122 then Some (n - 87)
      else if 65 \<le> n \<and> n \<le> 90 then Some (n - 55)
      else None)"

definition isDigitOf :: "nat \<Rightarrow> char \<Rightarrow> bool" where
  "isDigitOf radix c = (case digitValue c of None \<Rightarrow> False | Some d \<Rightarrow> d < radix)"

definition digitsValue :: "nat \<Rightarrow> string \<Rightarrow> nat" where
  "digitsValue radix z =
     foldl (\<lambda>acc c. acc * radix + (case digitValue c of None \<Rightarrow> 0 | Some d \<Rightarrow> d)) 0 z"

definition parseInt :: "string \<Rightarrow> number" where
  "parseInt s =
     (let s1 = dropWhile isWhiteSpace s;
          negative = (take 1 s1 = ''-'');
          s2 = (if take 1 s1 = ''-'' \<or> take 1 s1 = ''+'' then drop 1 s1 else s1);
          hex = (take 2 s2 = ''0x'' \<or> take 2 s2 = ''0X'');
          radix = (if hex then 16 else 10);
          s3 = (if hex then drop 2 s2 else s2);
          z = takeWhile (isDigitOf radix) s3
      in if z = [] then NaN
         else if length z \<le> (if hex then 13 else 15)
         then Finite ((if negative then - 1 else 1) * int (digitsValue radix z))
         else Beyond)"

text \<open>\<^verbatim>\<open>x - y\<close> on numbers. The difference of two integers of magnitude up to \<open>2^52\<close> has a
  magnitude of at most \<open>2^53\<close> and is exact; a difference with \<^verbatim>\<open>NaN\<close> is \<^verbatim>\<open>NaN\<close>; a
  difference with an operand that is not carried is not carried either.\<close>

fun subtract :: "number \<Rightarrow> number \<Rightarrow> number" where
  "subtract (Finite x) (Finite y) = Finite (x - y)"
| "subtract NaN y = NaN"
| "subtract x NaN = NaN"
| "subtract x y = Beyond"

text \<open>
  \<^verbatim>\<open>xs.sort(cmp)\<close> for a comparator that is consistent on \<open>xs\<close>.
  \<^verbatim>\<open>Array.prototype.sort\<close> is stable (ECMAScript 2019), so for a consistent comparator the
  result is the one stable ascending order, whatever the engine; it is computed here by
  insertion. \<open>sortBy\<close> is applied to the tiers of a bucket and to key lists whose numbers are
  all \<open>Finite\<close>, where every comparator result is \<open>Finite\<close>; the sort of any other key list
  is a parameter of the host (\<open>sortKeys\<close> below). The sort reads a comparator result of
  \<^verbatim>\<open>NaN\<close> as \<open>0\<close>; \<open>sortCompare\<close> does so with every result that is not \<open>Finite\<close>,
  none of which occurs where \<open>sortBy\<close> is applied.
\<close>

definition sortCompare :: "('a \<Rightarrow> 'a \<Rightarrow> number) \<Rightarrow> 'a \<Rightarrow> 'a \<Rightarrow> int" where
  "sortCompare cmp x y = (case cmp x y of Finite v \<Rightarrow> v | _ \<Rightarrow> 0)"

fun insertSorted :: "('a \<Rightarrow> 'a \<Rightarrow> number) \<Rightarrow> 'a \<Rightarrow> 'a list \<Rightarrow> 'a list" where
  "insertSorted cmp x [] = [x]"
| "insertSorted cmp x (y # ys) =
     (if sortCompare cmp x y \<le> 0 then x # y # ys else y # insertSorted cmp x ys)"

definition sortBy :: "('a \<Rightarrow> 'a \<Rightarrow> number) \<Rightarrow> 'a list \<Rightarrow> 'a list" where
  "sortBy cmp xs = foldr (insertSorted cmp) xs []"

text \<open>\<^verbatim>\<open>[...new Set(xs)]\<close>: the distinct elements in order of first occurrence.\<close>

definition setAdd :: "'a list \<Rightarrow> 'a \<Rightarrow> 'a list" where
  "setAdd s x = (if x \<in> set s then s else s @ [x])"

definition newSet :: "'a list \<Rightarrow> 'a list" where
  "newSet xs = foldl setAdd [] xs"

section \<open>Data model (types/index.ts)\<close>

datatype Tier = Tier1 | Tier2 | Tier3

fun tierNumber :: "Tier \<Rightarrow> int" where
  "tierNumber Tier1 = 1"
| "tierNumber Tier2 = 2"
| "tierNumber Tier3 = 3"

record Alternative =
  altName :: string
  altDescription :: string
  tradeoffs :: string

record Material =
  name :: string
  description :: string
  properties :: "string list"
  tier :: Tier
  reasoning :: string
  csiDivision :: string
  csiNumber :: string
  sustainabilityNotes :: "string option"
  alternatives :: "Alternative list option"
  codeCompliance :: "string option"

text \<open>The coordinates of a location are never read by the report engine and are left out.\<close>

record ProjectLocation =
  input :: string
  jurisdiction :: "string option"
  buildingCode :: "string option"

record ProjectBrief =
  briefText :: string
  intent :: "string option"

record Analysis =
  imageUrls :: "string list"
  materials :: "Material list"
  timestamp :: string
  includeSustainability :: bool
  includeAlternatives :: bool
  location :: "ProjectLocation option"
  brief :: "ProjectBrief option"

text \<open>An optional string is truthy when it is present and not empty.\<close>

fun truthy :: "string option \<Rightarrow> bool" where
  "truthy None = False"
| "truthy (Some s) = (s \<noteq> [])"

section \<open>The host\<close>

text \<open>
  The report depends on the host in three places. \<^verbatim>\<open>new Date(timestamp).toLocaleString()\<close>
  formats the time stamp with the host's locale and time zone; the PDF renderer decodes the
  first image; and \<^verbatim>\<open>Array.prototype.sort\<close> orders a list on which the comparator is not
  consistent in an implementation-defined way. All three are parameters. An implementation of
  the sort moves the elements of the array and neither drops nor adds one: it is a function
  from key lists to key lists that returns a permutation of its argument.
\<close>

typedef keySort = "{f :: string list \<Rightarrow> string list. \<forall>keys. mset (f keys) = mset keys}"
  morphisms applySort KeySort
  by (rule exI [of _ "\<lambda>keys. keys"]) simp

setup_lifting type_definition_keySort

record host =
  toLocaleString :: "string \<Rightarrow> string"
  imageLoads :: "string \<Rightarrow> bool"
  sortKeys :: keySort

section \<open>Grouping and ordering (generateMarkdownReport, first part)\<close>

text \<open>
  \<^verbatim>\<open>groupedByDivision\<close> is an object used as a dictionary. Its keys always contain
  \<^verbatim>\<open>" - "\<close>, so none is an array index or a name inherited from \<^verbatim>\<open>Object.prototype\<close>, and
  \<^verbatim>\<open>Object.keys\<close> lists them in insertion order: an association list in insertion order.
\<close>

definition divisionKey :: "Material \<Rightarrow> string" where
  "divisionKey m = csiNumber m @ '' - '' @ csiDivision m"

definition pushInto :: "(string \<times> 'a list) list \<Rightarrow> string \<Rightarrow> 'a \<Rightarrow> (string \<times> 'a list) list" where
  "pushInto g key v =
     (if key \<in> fst ` set g
      then map (\<lambda>(k, vs). if k = key then (k, vs @ [v]) else (k, vs)) g
      else g @ [(key, [v])])"

definition groupedByDivision :: "Material list \<Rightarrow> (string \<times> Material list) list" where
  "groupedByDivision ms = foldl (\<lambda>g m. pushInto g (divisionKey m) m) [] ms"

text \<open>\<^verbatim>\<open>parseInt(a.split(' - ')[0])\<close>; a missing first segment would be \<^verbatim>\<open>undefined\<close>, which
  parses to \<^verbatim>\<open>NaN\<close>. The comparator of the key sort is \<^verbatim>\<open>(a, b) => numA - numB\<close>.\<close>

definition leadingNumber :: "string \<Rightarrow> number" where
  "leadingNumber k = (case split '' - '' k of [] \<Rightarrow> NaN | seg # _ \<Rightarrow> parseInt seg)"

definition compareKeys :: "string \<Rightarrow> string \<Rightarrow> number" where
  "compareKeys a b = subtract (leadingNumber a) (leadingNumber b)"

text \<open>
  \<^verbatim>\<open>Object.keys(groupedByDivision).sort(...)\<close>. When the number of every key is \<open>Finite\<close>
  the comparator is consistent and the sorted list is the stable ascending one. When a key has
  the number \<^verbatim>\<open>NaN\<close> the comparator answers \<open>0\<close> for it against every key and is in general
  not consistent, and ECMAScript leaves the order to the implementation; the order of such a key
  list, and of one with a number that is not carried, is the host's.
\<close>

fun isFinite :: "number \<Rightarrow> bool" where
  "isFinite (Finite v) = True"
| "isFinite x = False"

definition numericKeys :: "string list \<Rightarrow> bool" where
  "numericKeys keys = list_all (\<lambda>k. isFinite (leadingNumber k)) keys"

definition divisionKeys :: "host \<Rightarrow> Material list \<Rightarrow> string list" where
  "divisionKeys h ms =
     (let keys = map fst (groupedByDivision ms) in
      if numericKeys keys then sortBy compareKeys keys else applySort (sortKeys h) keys)"

text \<open>\<^verbatim>\<open>groupedByDivision[key].sort((a, b) => a.tier - b.tier)\<close>.\<close>

definition compareTiers :: "Material \<Rightarrow> Material \<Rightarrow> number" where
  "compareTiers a b = Finite (tierNumber (tier a) - tierNumber (tier b))"

text \<open>The grouping after every bucket has been sorted by tier, in place.\<close>

definition sortedByTier :: "(string \<times> Material list) list \<Rightarrow> (string \<times> Material list) list" where
  "sortedByTier g = map (\<lambda>(k, ms). (k, sortBy compareTiers ms)) g"

section \<open>Derived entities: consultants and suppliers\<close>

record Consultant =
  consultantName :: string
  firm :: string
  specialty :: string
  consultantEmail :: string
  consultantPhone :: string
  consultantWebsite :: "string option"
  disciplines :: "string list"

datatype Rating = Local | National

record Supplier =
  supplierName :: string
  company :: string
  supplierLocation :: string
  materialTypes :: "string list"
  supplierEmail :: string
  supplierPhone :: string
  supplierWebsite :: "string option"
  rating :: Rating
  specialties :: "string list"

text \<open>
  The two taxonomy tables are object literals indexed with \<^verbatim>\<open>table[division]\<close>. Such a read
  finds the table's own entry, or else a member inherited from \<^verbatim>\<open>Object.prototype\<close>, or
  else \<^verbatim>\<open>undefined\<close>. An inherited member is truthy, so the \<^verbatim>\<open>|| [default]\<close> that follows
  the read keeps it; it is a function (or, for \<^verbatim>\<open>__proto__\<close>, the prototype object) and has
  neither \<^verbatim>\<open>forEach\<close> nor \<^verbatim>\<open>slice\<close>, so the call that follows raises a \<^verbatim>\<open>TypeError\<close>.
\<close>

datatype 'a property = Own 'a | Inherited | Undefined

definition objectPrototypeNames :: "string list" where
  "objectPrototypeNames =
     [''constructor'', ''__defineGetter__'', ''__defineSetter__'', ''hasOwnProperty'',
      ''__lookupGetter__'', ''__lookupSetter__'', ''isPrototypeOf'', ''propertyIsEnumerable'',
      ''toString'', ''valueOf'', ''__proto__'', ''toLocaleString'']"

definition getProperty :: "(string \<times> 'a) list \<Rightarrow> string \<Rightarrow> 'a property" where
  "getProperty table key =
     (case map_of table key of
        Some v \<Rightarrow> Own v
      | None \<Rightarrow> if key \<in> set objectPrototypeNames then Inherited else Undefined)"

definition andThen :: "error + 'a \<Rightarrow> ('a \<Rightarrow> error + 'b) \<Rightarrow> error + 'b" where
  "andThen r f = (case r of Inl e \<Rightarrow> Inl e | Inr v \<Rightarrow> f v)"

definition divisionToSpecialty :: "(string \<times> string list) list" where
  "divisionToSpecialty =
     [(''Concrete'', [''Structural Engineering'', ''Concrete Technology'', ''Materials Science'']),
      (''Masonry'', [''Masonry Engineering'', ''Structural Engineering'', ''Historic Preservation'']),
      (''Metals'', [''Structural Engineering'', ''Metallurgy'', ''Fabrication Engineering'']),
      (''Wood, Plastics, and Composites'', [''Structural Engineering'', ''Wood Technology'', ''Composite Materials'']),
      (''Thermal and Moisture Protection'', [''Building Envelope'', ''Moisture Control'', ''Energy Efficiency'']),
      (''Openings'', [''Fenestration Engineering'', ''Building Envelope'', ''Daylighting Design'']),
      (''Finishes'', [''Interior Design'', ''Acoustics'', ''Fire Safety Engineering'']),
      (''Specialties'', [''Specialty Engineering'', ''Custom Fabrication'', ''Product Development'']),
      (''Special Construction'', [''Specialty Engineering'', ''Innovation Consulting'', ''R&D'']),
      (''Fire Suppression'', [''Fire Protection Engineering'', ''Life Safety'', ''Code Compliance'']),
      (''Plumbing'', [''Plumbing Engineering'', ''Mechanical Engineering'', ''Water Systems'']),
      (''HVAC'', [''Mechanical Engineering'', ''Energy Efficiency'', ''Indoor Air Quality'']),
      (''Electrical'', [''Electrical Engineering'', ''Lighting Design'', ''Power Systems'']),
      (''Exterior Improvements'', [''Landscape Architecture'', ''Site Engineering'', ''Hardscape Design''])]"

text \<open>\<^verbatim>\<open>divisionToSpecialty[div] || ['General Consulting']\<close>, then \<^verbatim>\<open>.forEach\<close>.\<close>

definition specialtiesOf :: "string \<Rightarrow> error + string list" where
  "specialtiesOf division =
     (case getProperty divisionToSpecialty division of
        Own divSpecialties \<Rightarrow> Inr divSpecialties
      | Inherited \<Rightarrow> Inl TypeError
      | Undefined \<Rightarrow> Inr [''General Consulting''])"

fun collectSpecialties :: "string list \<Rightarrow> string list \<Rightarrow> error + string list" where
  "collectSpecialties specialtySet [] = Inr specialtySet"
| "collectSpecialties specialtySet (division # divisions) =
     andThen (specialtiesOf division)
       (\<lambda>divSpecialties. collectSpecialties (foldl setAdd specialtySet divSpecialties) divisions)"

definition handle :: "string \<Rightarrow> string" where
  "handle s = removeWhiteSpace (toLowerCase s)"

definition tier1Consultant :: "nat \<Rightarrow> string \<Rightarrow> Consultant" where
  "tier1Consultant index spec =
     \<lparr> consultantName = ''Dr. '' @ [''Sarah'', ''Michael'', ''Jennifer''] ! (index mod 3) @ '' ''
          @ [''Chen'', ''Rodriguez'', ''Thompson''] ! (index mod 3),
       firm = spec @ '' Associates'',
       specialty = spec,
       consultantEmail = ''contact@'' @ handle spec @ ''associates.com'',
       consultantPhone = ''+1 (555) '' @ decimal (200 + index) @ ''0-'' @ decimal (1000 + index) @ ''00'',
       consultantWebsite = Some (''www.'' @ handle spec @ ''associates.com''),
       disciplines = [spec] \<rparr>"

definition tier2Consultant :: "nat \<Rightarrow> string \<Rightarrow> Consultant" where
  "tier2Consultant index spec =
     \<lparr> consultantName = [''James'', ''Patricia'', ''Robert'', ''Linda''] ! (index mod 4) @ '' ''
          @ [''Anderson'', ''Martinez'', ''Wilson'', ''Garcia''] ! (index mod 4),
       firm = spec @ '' Custom Solutions'',
       specialty = spec @ '' & Custom Fabrication'',
       consultantEmail = ''info@'' @ handle spec @ ''custom.com'',
       consultantPhone = ''+1 (555) '' @ decimal (300 + index) @ ''0-'' @ decimal (2000 + index) @ ''00'',
       consultantWebsite = Some (''www.'' @ handle spec @ ''custom.com''),
       disciplines = [spec, ''Custom Fabrication''] \<rparr>"

definition tier3Consultant :: "nat \<Rightarrow> string \<Rightarrow> Consultant" where
  "tier3Consultant index spec =
     \<lparr> consultantName = ''Prof. '' @ [''David'', ''Elizabeth'', ''Christopher'', ''Maria'', ''Daniel''] ! (index mod 5)
          @ '' '' @ [''Lee'', ''Brown'', ''Davis'', ''Miller'', ''Taylor''] ! (index mod 5),
       firm = spec @ '' Innovation Lab'',
       specialty = spec @ '' R&D & Advanced Materials'',
       consultantEmail = ''research@'' @ handle spec @ ''innovation.com'',
       consultantPhone = ''+1 (555) '' @ decimal (400 + index) @ ''0-'' @ decimal (3000 + index) @ ''00'',
       consultantWebsite = Some (''www.'' @ handle spec @ ''innovation.com''),
       disciplines = [spec, ''Materials R&D'', ''Innovation Consulting''] \<rparr>"

text \<open>\<^verbatim>\<open>xs.slice(0, Math.min(n, xs.length)).forEach((x, index) => ...)\<close> pushes one entry per
  element, with its index.\<close>

definition firstIndexed :: "nat \<Rightarrow> 'a list \<Rightarrow> (nat \<times> 'a) list" where
  "firstIndexed n xs = enumerate 0 (take (min n (length xs)) xs)"

definition getConsultantsForDivisions :: "string list \<Rightarrow> Tier \<Rightarrow> error + Consultant list" where
  "getConsultantsForDivisions divisions t =
     andThen (collectSpecialties [] divisions)
       (\<lambda>specialtyArray. Inr
          ((if t = Tier1 then map (\<lambda>(index, spec). tier1Consultant index spec) (firstIndexed 3 specialtyArray) else [])
           @ (if t = Tier2 then map (\<lambda>(index, spec). tier2Consultant index spec) (firstIndexed 4 specialtyArray) else [])
           @ (if t = Tier3 then map (\<lambda>(index, spec). tier3Consultant index spec) (firstIndexed 5 specialtyArray) else [])))"

definition divisionToSupplierType :: "(string \<times> string list) list" where
  "divisionToSupplierType =
     [(''Concrete'', [''Ready-Mix Concrete'', ''Precast Concrete'', ''Concrete Products'']),
      (''Masonry'', [''Brick & Block'', ''Stone Suppliers'', ''Masonry Products'']),
      (''Metals'', [''Steel Fabricators'', ''Metal Suppliers'', ''Architectural Metals'']),
      (''Wood, Plastics, and Composites'', [''Lumber Suppliers'', ''Composite Materials'', ''Engineered Wood'']),
      (''Thermal and Moisture Protection'', [''Roofing Materials'', ''Insulation'', ''Waterproofing'']),
      (''Openings'', [''Windows & Doors'', ''Glazing Systems'', ''Hardware'']),
      (''Finishes'', [''Flooring'', ''Wall Finishes'', ''Ceiling Systems'']),
      (''Specialties'', [''Custom Fabrication'', ''Specialty Products'', ''Architectural Elements''])]"

text \<open>\<^verbatim>\<open>divisionToSupplierType[division] || ['General Building Materials']\<close>, then
  \<^verbatim>\<open>.slice\<close> or \<^verbatim>\<open>[0]\<close>.\<close>

definition supplierTypesOf :: "string \<Rightarrow> error + string list" where
  "supplierTypesOf division =
     (case getProperty divisionToSupplierType division of
        Own supplierTypes \<Rightarrow> Inr supplierTypes
      | Inherited \<Rightarrow> Inl TypeError
      | Undefined \<Rightarrow> Inr [''General Building Materials''])"

text \<open>The region label: the first comma-separated part of the jurisdiction, trimmed, or
  \<^verbatim>\<open>'Local Area'\<close>.\<close>

definition regionOf :: "ProjectLocation \<Rightarrow> string" where
  "regionOf loc =
     (if truthy (jurisdiction loc)
      then (case jurisdiction loc of
              None \<Rightarrow> ''Local Area''
            | Some j \<Rightarrow>
                (case split '','' j of
                   [] \<Rightarrow> ''Local Area''
                 | seg # _ \<Rightarrow> if trim seg = [] then ''Local Area'' else trim seg))
      else ''Local Area'')"

definition localSupplier :: "string \<Rightarrow> nat \<Rightarrow> string \<Rightarrow> nat \<Rightarrow> string \<Rightarrow> Supplier" where
  "localSupplier region index division typeIndex supplierType =
     \<lparr> supplierName = [''John'', ''Sarah'', ''Michael'', ''Emily''] ! ((index + typeIndex) mod 4) @ '' ''
          @ [''Smith'', ''Johnson'', ''Williams'', ''Brown''] ! ((index + typeIndex) mod 4),
       company = region @ '' '' @ supplierType,
       supplierLocation = region,
       materialTypes = [division],
       supplierEmail = ''sales@'' @ handle supplierType @ handle region @ ''.com'',
       supplierPhone = ''+1 ('' @ decimal (555 + index) @ '') '' @ decimal (200 + typeIndex) @ ''0-''
          @ decimal (1000 + index) @ ''00'',
       supplierWebsite = Some (''www.'' @ handle supplierType @ handle region @ ''.com''),
       rating = Local,
       specialties = [supplierType, division] \<rparr>"

fun localSuppliers :: "string \<Rightarrow> (nat \<times> string) list \<Rightarrow> error + Supplier list" where
  "localSuppliers region [] = Inr []"
| "localSuppliers region ((index, division) # rest) =
     andThen (supplierTypesOf division)
       (\<lambda>supplierTypes.
          andThen (localSuppliers region rest)
            (\<lambda>more. Inr (map (\<lambda>(typeIndex, supplierType).
                              localSupplier region index division typeIndex supplierType)
                            (enumerate 0 (take 2 supplierTypes)) @ more)))"

definition nationalSupplier :: "nat \<Rightarrow> string \<Rightarrow> string \<Rightarrow> Supplier" where
  "nationalSupplier index division supplierType0 =
     \<lparr> supplierName = [''David'', ''Jennifer'', ''Robert''] ! (index mod 3) @ '' ''
          @ [''Anderson'', ''Martinez'', ''Taylor''] ! (index mod 3),
       company = ''National '' @ supplierType0 @ '' Solutions'',
       supplierLocation = ''National Distribution'',
       materialTypes = [division],
       supplierEmail = ''info@national'' @ handle supplierType0 @ ''.com'',
       supplierPhone = ''+1 (800) '' @ decimal (555 + index) @ ''00-'' @ decimal (1000 + index) @ ''00'',
       supplierWebsite = Some (''www.national'' @ handle supplierType0 @ ''.com''),
       rating = National,
       specialties = [supplierType0, ''Premium Products'', ''Custom Solutions''] \<rparr>"

text \<open>\<^verbatim>\<open>supplierTypes[0]\<close> of an empty list would be \<^verbatim>\<open>undefined\<close>, and its
  \<^verbatim>\<open>toLowerCase\<close> a \<^verbatim>\<open>TypeError\<close>.\<close>

fun nationalSuppliers :: "(nat \<times> string) list \<Rightarrow> error + Supplier list" where
  "nationalSuppliers [] = Inr []"
| "nationalSuppliers ((index, division) # rest) =
     andThen (supplierTypesOf division)
       (\<lambda>supplierTypes.
          (case supplierTypes of
             [] \<Rightarrow> Inl TypeError
           | supplierType0 # _ \<Rightarrow>
               andThen (nationalSuppliers rest)
                 (\<lambda>more. Inr (nationalSupplier index division supplierType0 # more))))"

definition getSuppliersForMaterials :: "Material list \<Rightarrow> ProjectLocation \<Rightarrow> Tier \<Rightarrow> error + Supplier list" where
  "getSuppliersForMaterials ms loc t =
     (let types = newSet (map csiDivision ms);
          region = regionOf loc
      in andThen (localSuppliers region (enumerate 0 types))
           (\<lambda>locals.
              if t = Tier2 \<or> length types > 3
              then andThen (nationalSuppliers (enumerate 0 (take 3 types)))
                     (\<lambda>nationals. Inr (locals @ nationals))
              else Inr locals))"

section \<open>Markdown renderer\<close>

subsection \<open>generateMaterialSection, generateConsultantEntry, generateSupplierEntry\<close>

text \<open>Each function builds its string by appending chunks; the chunks are kept as a list and
  the string is their concatenation.\<close>

definition alternativeChunks :: "Alternative list \<Rightarrow> string list" where
  "alternativeChunks alts =
     concat (map (\<lambda>(index, alt).
                    [''  '' @ decimal (index + 1) @ ''. **'' @ altName alt @ ''**\<newline>'',
                     ''     - Description: '' @ altDescription alt @ ''\<newline>'',
                     ''     - Tradeoffs: '' @ tradeoffs alt @ ''\<newline>''])
                 (enumerate 0 alts))"

definition materialSectionChunks :: "Material \<Rightarrow> bool \<Rightarrow> bool \<Rightarrow> bool \<Rightarrow> string list" where
  "materialSectionChunks m includeSus includeAlt includeCode =
     [''##### '' @ name m @ ''\<newline>'',
      ''- **CSI Division:** '' @ csiNumber m @ '' - '' @ csiDivision m @ ''\<newline>'',
      ''- **Description:** '' @ description m @ ''\<newline>'',
      ''- **Properties:**\<newline>'']
     @ map (\<lambda>prop. ''  - '' @ prop @ ''\<newline>'') (properties m)
     @ [''- **Feasibility Notes:** '' @ reasoning m @ ''\<newline>'']
     @ (case sustainabilityNotes m of
          None \<Rightarrow> []
        | Some notes \<Rightarrow>
            if includeSus \<and> notes \<noteq> [] then [''- **Sustainability Notes:** '' @ notes @ ''\<newline>''] else [])
     @ (case codeCompliance m of
          None \<Rightarrow> []
        | Some compliance \<Rightarrow>
            if includeCode \<and> compliance \<noteq> [] then [''- **Code Compliance:** '' @ compliance @ ''\<newline>''] else [])
     @ (case alternatives m of
          None \<Rightarrow> []
        | Some alts \<Rightarrow>
            if includeAlt \<and> length alts > 0
            then ''- **Alternative Materials:**\<newline>'' # alternativeChunks alts
            else [])
     @ [''\<newline>'']"

definition generateMaterialSection :: "Material \<Rightarrow> bool \<Rightarrow> bool \<Rightarrow> bool \<Rightarrow> string" where
  "generateMaterialSection m includeSus includeAlt includeCode =
     concat (materialSectionChunks m includeSus includeAlt includeCode)"

definition websiteLine :: "string option \<Rightarrow> string" where
  "websiteLine w =
     (case w of None \<Rightarrow> [] | Some site \<Rightarrow> if site \<noteq> [] then ''- **Website:** '' @ site @ ''\<newline>'' else [])"

definition generateConsultantEntry :: "Consultant \<Rightarrow> string" where
  "generateConsultantEntry c =
     ''#### '' @ consultantName c @ ''\<newline>''
     @ ''- **Firm:** '' @ firm c @ ''\<newline>''
     @ ''- **Specialty:** '' @ specialty c @ ''\<newline>''
     @ ''- **Email:** '' @ consultantEmail c @ ''\<newline>''
     @ ''- **Phone:** '' @ consultantPhone c @ ''\<newline>''
     @ websiteLine (consultantWebsite c)
     @ ''- **Disciplines:** '' @ join '', '' (disciplines c) @ ''\<newline>''
     @ ''\<newline>''"

definition generateSupplierEntry :: "Supplier \<Rightarrow> string" where
  "generateSupplierEntry supplier =
     ''#### '' @ supplierName supplier @ ''\<newline>''
     @ ''- **Company:** '' @ company supplier @ ''\<newline>''
     @ ''- **Location:** '' @ supplierLocation supplier @ '' ''
       @ (if rating supplier = Local then ''(Local)'' else ''(National)'') @ ''\<newline>''
     @ ''- **Material Types:** '' @ join '', '' (materialTypes supplier) @ ''\<newline>''
     @ ''- **Specialties:** '' @ join '', '' (specialties supplier) @ ''\<newline>''
     @ ''- **Email:** '' @ supplierEmail supplier @ ''\<newline>''
     @ ''- **Phone:** '' @ supplierPhone supplier @ ''\<newline>''
     @ websiteLine (supplierWebsite supplier)
     @ ''\<newline>''"

subsection \<open>generateMarkdownReport\<close>

text \<open>
  Every \<^verbatim>\<open>report += ...\<close> of the source appends one piece. A piece is a literal or template
  string (\<open>Lit\<close>), a division or tier heading, or the string returned by one of the three
  section functions; \<open>pieceText\<close> gives the string appended, and the report is the concatenation
  of the pieces in order.
\<close>

datatype piece =
    Lit string
  | DivisionHeading string string
  | TierHeading Tier
  | MaterialSection Material bool bool bool
  | ConsultantEntry Consultant
  | SupplierEntry Supplier

fun tierHeadingText :: "Tier \<Rightarrow> string" where
  "tierHeadingText Tier1 = ''#### Tier 1: Readily Available\<newline>\<newline>''"
| "tierHeadingText Tier2 = ''#### Tier 2: Requires Customization\<newline>\<newline>''"
| "tierHeadingText Tier3 = ''#### Tier 3: Custom Development Required\<newline>\<newline>''"

fun pieceText :: "piece \<Rightarrow> string" where
  "pieceText (Lit s) = s"
| "pieceText (DivisionHeading csiNum csiName) =
     ''### Division '' @ csiNum @ '' - '' @ toUpperCase csiName @ ''\<newline>\<newline>''"
| "pieceText (TierHeading t) = tierHeadingText t"
| "pieceText (MaterialSection m includeSus includeAlt includeCode) =
     generateMaterialSection m includeSus includeAlt includeCode"
| "pieceText (ConsultantEntry c) = generateConsultantEntry c"
| "pieceText (SupplierEntry supplier) = generateSupplierEntry supplier"

definition ofTier :: "Tier \<Rightarrow> Material list \<Rightarrow> Material list" where
  "ofTier t ms = filter (\<lambda>m. tier m = t) ms"

definition optionalLine :: "string \<Rightarrow> string option \<Rightarrow> piece list" where
  "optionalLine label v =
     (case v of None \<Rightarrow> [] | Some s \<Rightarrow> if s \<noteq> [] then [Lit (label @ s @ ''\<newline>'')] else [])"

definition reportHeader :: "host \<Rightarrow> Analysis \<Rightarrow> piece list" where
  "reportHeader h a =
     [Lit ''# Material Feasibility Analysis Report\<newline>\<newline>'',
      Lit (''**Generated:** '' @ toLocaleString h (timestamp a) @ ''\<newline>'')]
     @ (if length (imageUrls a) > 1
        then [Lit (''**Images Analyzed:** '' @ decimal (length (imageUrls a)) @ ''\<newline>'')]
        else [])
     @ [Lit ''\<newline>'']"

definition briefSection :: "Analysis \<Rightarrow> piece list" where
  "briefSection a =
     (case brief a of
        None \<Rightarrow> []
      | Some b \<Rightarrow>
          [Lit ''## Project Brief\<newline>\<newline>'']
          @ (case intent b of
               None \<Rightarrow> []
             | Some i \<Rightarrow>
                 if i \<noteq> []
                 then [Lit (''**Project Intent & Constraints:**\<newline>'' @ i @ ''\<newline>\<newline>'')]
                 else [])
          @ (if briefText b \<noteq> [] \<and> length (briefText b) < 500
             then [Lit (''**Brief Summary:**\<newline>'' @ briefText b @ ''\<newline>\<newline>'')]
             else [])
          @ [Lit ''---\<newline>\<newline>''])"

definition locationSection :: "Analysis \<Rightarrow> piece list" where
  "locationSection a =
     (case location a of
        None \<Rightarrow> []
      | Some loc \<Rightarrow>
          [Lit (''**Project Location:** '' @ input loc @ ''\<newline>'')]
          @ optionalLine ''**Jurisdiction:** '' (jurisdiction loc)
          @ optionalLine ''**Building Code:** '' (buildingCode loc)
          @ [Lit ''\<newline>''])"

definition projectSummary :: "Analysis \<Rightarrow> piece list" where
  "projectSummary a =
     [Lit ''## Project Summary\<newline>\<newline>'',
      Lit (''- **Total materials identified:** '' @ decimal (length (materials a)) @ ''\<newline>''),
      Lit (''- **Tier 1 (Readily Available):** '' @ decimal (length (ofTier Tier1 (materials a)))
           @ '' materials\<newline>''),
      Lit (''- **Tier 2 (Requires Customization):** '' @ decimal (length (ofTier Tier2 (materials a)))
           @ '' materials\<newline>''),
      Lit (''- **Tier 3 (Custom Development):** '' @ decimal (length (ofTier Tier3 (materials a)))
           @ '' materials\<newline>\<newline>''),
      Lit ''---\<newline>\<newline>'',
      Lit ''## Materials Analysis by CSI MasterFormat Division\<newline>\<newline>'']"

text \<open>One tier of one division: the heading and the material sections, when there is one.\<close>

definition tierBlock :: "bool \<Rightarrow> bool \<Rightarrow> bool \<Rightarrow> Material list \<Rightarrow> Tier \<Rightarrow> piece list" where
  "tierBlock includeSus includeAlt hasLocation divisionMaterials t =
     (let divTier = ofTier t divisionMaterials in
      if length divTier > 0
      then TierHeading t # map (\<lambda>m. MaterialSection m includeSus includeAlt hasLocation) divTier
      else [])"

text \<open>
  The body of \<^verbatim>\<open>divisionKeys.forEach\<close>. \<^verbatim>\<open>const [csiNumber, csiName] = divisionKey.split(' - ')\<close>
  leaves \<^verbatim>\<open>csiName\<close> undefined when the key has one segment, and \<^verbatim>\<open>csiName.toUpperCase()\<close>
  then raises; so does \<^verbatim>\<open>divisionMaterials.filter\<close> when the key has no bucket.
\<close>

definition divisionSection ::
  "(string \<times> Material list) list \<Rightarrow> bool \<Rightarrow> bool \<Rightarrow> bool \<Rightarrow> string \<Rightarrow> error + piece list" where
  "divisionSection g includeSus includeAlt hasLocation key =
     (case map_of g key of
        None \<Rightarrow> Inl TypeError
      | Some divisionMaterials \<Rightarrow>
          (case split '' - '' key of
             csiNum # csiName # _ \<Rightarrow>
               Inr (DivisionHeading csiNum csiName
                    # tierBlock includeSus includeAlt hasLocation divisionMaterials Tier1
                    @ tierBlock includeSus includeAlt hasLocation divisionMaterials Tier2
                    @ tierBlock includeSus includeAlt hasLocation divisionMaterials Tier3
                    @ [Lit ''\<newline>''])
           | _ \<Rightarrow> Inl TypeError))"

fun divisionSections ::
  "(string \<times> Material list) list \<Rightarrow> bool \<Rightarrow> bool \<Rightarrow> bool \<Rightarrow> string list \<Rightarrow> error + piece list" where
  "divisionSections g includeSus includeAlt hasLocation [] = Inr []"
| "divisionSections g includeSus includeAlt hasLocation (key # keys) =
     andThen (divisionSection g includeSus includeAlt hasLocation key)
       (\<lambda>ps. andThen (divisionSections g includeSus includeAlt hasLocation keys)
          (\<lambda>qs. Inr (ps @ qs)))"

definition materialsAnalysis :: "host \<Rightarrow> Analysis \<Rightarrow> error + piece list" where
  "materialsAnalysis h a =
     divisionSections (sortedByTier (groupedByDivision (materials a)))
       (includeSustainability a) (includeAlternatives a) (location a \<noteq> None)
       (divisionKeys h (materials a))"

definition namesByDivision :: "Material list \<Rightarrow> (string \<times> string list) list" where
  "namesByDivision ms = foldl (\<lambda>g m. pushInto g (divisionKey m) (name m)) [] ms"

definition tierSummary :: "string \<Rightarrow> Material list \<Rightarrow> piece list" where
  "tierSummary title tierN =
     (if length tierN > 0
      then Lit (title @ '' ('' @ decimal (length tierN) @ '' materials)\<newline>'')
           # map (\<lambda>(key, names). Lit (''- '' @ key @ '': '' @ join '', '' names @ ''\<newline>''))
               (namesByDivision tierN)
           @ [Lit ''\<newline>'']
      else [])"

definition summaryByTier :: "Analysis \<Rightarrow> piece list" where
  "summaryByTier a =
     [Lit ''---\<newline>\<newline>'', Lit ''## Summary by Tier\<newline>\<newline>'']
     @ tierSummary ''### Tier 1: Readily Available'' (ofTier Tier1 (materials a))
     @ tierSummary ''### Tier 2: Requires Customization'' (ofTier Tier2 (materials a))
     @ tierSummary ''### Tier 3: Custom Development'' (ofTier Tier3 (materials a))"

definition complianceSummary :: "Analysis \<Rightarrow> piece list" where
  "complianceSummary a =
     (case location a of
        None \<Rightarrow> []
      | Some loc \<Rightarrow>
          [Lit ''---\<newline>\<newline>'',
           Lit ''## Building Code Compliance Summary\<newline>\<newline>'',
           Lit (''**Project Location:** '' @ input loc @ ''\<newline>'')]
          @ optionalLine ''**Jurisdiction:** '' (jurisdiction loc)
          @ optionalLine ''**Applicable Codes:** '' (buildingCode loc)
          @ [Lit ''\<newline>'',
             Lit ''### Code Compliance by Material\<newline>\<newline>'',
             Lit ''Materials are subject to local building codes and may require:\<newline>'',
             Lit ''- Product approvals (ICC-ES reports, FM approvals, UL listings)\<newline>'',
             Lit ''- Fire testing and ratings per ASTM standards\<newline>'',
             Lit ''- Structural engineering stamps and calculations\<newline>'',
             Lit ''- Special inspection requirements\<newline>'',
             Lit ''- Local amendments and jurisdictional variations\<newline>\<newline>'',
             Lit ''**Important:** Review all materials with local building officials and code consultants before specifying. Code requirements vary by jurisdiction and project type.\<newline>\<newline>''])"

definition recommendations :: "Analysis \<Rightarrow> piece list" where
  "recommendations a =
     [Lit ''---\<newline>\<newline>'',
      Lit ''## Recommendations\<newline>\<newline>'',
      Lit ''**Next Steps:**\<newline>'',
      Lit ''- Tier 1 materials can proceed to specification immediately\<newline>'',
      Lit ''- Tier 2 materials require consultation with manufacturers/fabricators\<newline>'',
      Lit ''- Tier 3 materials need R&D phase or alternative solutions\<newline>'']
     @ (if location a \<noteq> None
        then [Lit ''- Submit materials list to local building department for preliminary review\<newline>'',
              Lit ''- Engage code consultant for jurisdiction-specific requirements\<newline>'']
        else [])
     @ [Lit ''\<newline>'']
     @ (if includeAlternatives a
        then [Lit ''**Alternative Materials:**\<newline>'',
              Lit ''Consider the suggested alternatives for cost, schedule, or performance optimization.\<newline>\<newline>'']
        else [])"

definition consultantsFor :: "string \<Rightarrow> Tier \<Rightarrow> Material list \<Rightarrow> error + piece list" where
  "consultantsFor heading t tierN =
     (if length tierN > 0
      then andThen (getConsultantsForDivisions (newSet (map csiDivision tierN)) t)
             (\<lambda>consultants. Inr (Lit heading # map ConsultantEntry consultants @ [Lit ''\<newline>'']))
      else Inr [])"

definition consultantsAppendix :: "Analysis \<Rightarrow> error + piece list" where
  "consultantsAppendix a =
     andThen (consultantsFor ''### Green Consultants (Tier 1 Materials)\<newline>\<newline>'' Tier1 (ofTier Tier1 (materials a)))
       (\<lambda>green. andThen (consultantsFor ''### Yellow Consultants (Tier 2 Materials)\<newline>\<newline>'' Tier2 (ofTier Tier2 (materials a)))
          (\<lambda>yellow. andThen (consultantsFor ''### Red Consultants (Tier 3 Materials)\<newline>\<newline>'' Tier3 (ofTier Tier3 (materials a)))
             (\<lambda>red. Inr
                ([Lit ''---\<newline>\<newline>'',
                  Lit ''## Appendix: Elite Consultants by Tier\<newline>\<newline>'',
                  Lit ''The following consultants are recommended for the disciplines governing the identified materials in this analysis.\<newline>\<newline>'']
                 @ green @ yellow @ red))))"

definition suppliersFor :: "string \<Rightarrow> Tier \<Rightarrow> ProjectLocation \<Rightarrow> Material list \<Rightarrow> error + piece list" where
  "suppliersFor heading t loc tierN =
     (if length tierN > 0
      then andThen (getSuppliersForMaterials tierN loc t)
             (\<lambda>suppliers. Inr
                (Lit heading
                 # (if length suppliers > 0 then map SupplierEntry suppliers
                    else [Lit ''*No local suppliers found. Consider national suppliers listed below.\<newline>\<newline>''])
                 @ [Lit ''\<newline>'']))
      else Inr [])"

text \<open>\<^verbatim>\<open>allSuppliers\<close>: both lists are generated a second time.\<close>

definition suppliersOrNone :: "Tier \<Rightarrow> ProjectLocation \<Rightarrow> Material list \<Rightarrow> error + Supplier list" where
  "suppliersOrNone t loc tierN = (if length tierN > 0 then getSuppliersForMaterials tierN loc t else Inr [])"

definition nationalBlock :: "Supplier list \<Rightarrow> piece list" where
  "nationalBlock allSuppliers =
     (let nationalOnes = filter (\<lambda>s. rating s = National) allSuppliers in
      if length nationalOnes > 0
      then [Lit ''### National Suppliers (High-Quality Options)\<newline>\<newline>'',
            Lit ''The following national suppliers offer high-quality products and may provide better options when local suppliers are limited:\<newline>\<newline>'']
           @ map SupplierEntry nationalOnes
           @ [Lit ''\<newline>'']
      else [])"

definition suppliersAppendix :: "Analysis \<Rightarrow> error + piece list" where
  "suppliersAppendix a =
     (case location a of
        None \<Rightarrow> Inr []
      | Some loc \<Rightarrow>
          if length (ofTier Tier1 (materials a)) > 0 \<or> length (ofTier Tier2 (materials a)) > 0
          then
            andThen (suppliersFor ''### Green Suppliers (Tier 1 Materials)\<newline>\<newline>'' Tier1 loc (ofTier Tier1 (materials a)))
              (\<lambda>green. andThen (suppliersFor ''### Yellow Suppliers (Tier 2 Materials)\<newline>\<newline>'' Tier2 loc (ofTier Tier2 (materials a)))
                 (\<lambda>yellow. andThen (suppliersOrNone Tier1 loc (ofTier Tier1 (materials a)))
                    (\<lambda>all1. andThen (suppliersOrNone Tier2 loc (ofTier Tier2 (materials a)))
                       (\<lambda>all2. Inr
                          ([Lit ''---\<newline>\<newline>'',
                            Lit ''## Appendix: Material Suppliers by Tier\<newline>\<newline>'',
                            Lit ''The following suppliers are recommended for Tier 1 and Tier 2 materials. Suppliers are prioritized by proximity to the project location, with national suppliers listed when local options are limited.\<newline>\<newline>'']
                           @ green @ yellow @ nationalBlock (all1 @ all2))))))
          else Inr [])"

definition markdownPieces :: "host \<Rightarrow> Analysis \<Rightarrow> error + piece list" where
  "markdownPieces h a =
     andThen (materialsAnalysis h a)
       (\<lambda>body. andThen (consultantsAppendix a)
          (\<lambda>consultants. andThen (suppliersAppendix a)
             (\<lambda>suppliers. Inr
                (reportHeader h a @ briefSection a @ locationSection a @ projectSummary a
                 @ body @ summaryByTier a @ complianceSummary a @ recommendations a
                 @ consultants @ suppliers
                 @ [Lit ''**Report generated by SpecMate**\<newline>'']))))"

definition generateMarkdownReport :: "host \<Rightarrow> Analysis \<Rightarrow> error + string" where
  "generateMarkdownReport h a =
     andThen (markdownPieces h a) (\<lambda>ps. Inr (concat (map pieceText ps)))"

section \<open>Paginated renderer (buildPDFDocument)\<close>

text \<open>
  The document is recorded as the sequence of content-writing calls in program order: the
  helpers \<^verbatim>\<open>addText\<close>, \<^verbatim>\<open>addLabelValue\<close>, \<^verbatim>\<open>addBullet\<close> and \<^verbatim>\<open>addSpacing\<close> with their
  arguments, a direct \<^verbatim>\<open>doc.text\<close>, a text that is first wrapped with
  \<^verbatim>\<open>splitTextToSize\<close> and then written line by line, and \<^verbatim>\<open>doc.addImage\<close>. The layout
  state (cursor position, page breaks, fonts, the scaled image size and the page footers, which
  all depend on jsPDF's font metrics) is not part of the record.
\<close>

type_synonym color = "nat \<times> nat \<times> nat"

datatype pdfOp =
    DocText string
  | WrappedText string color
  | AddText string nat bool color
  | AddLabelValue string string
  | AddBullet string
  | AddSpacing nat
  | AddImage string string

definition black :: color where "black = (0, 0, 0)"
definition grey :: color where "grey = (128, 128, 128)"

fun tierColors :: "Tier \<Rightarrow> color" where
  "tierColors Tier1 = (34, 139, 34)"
| "tierColors Tier2 = (255, 193, 7)"
| "tierColors Tier3 = (220, 53, 69)"

definition alternativeOps :: "Alternative list \<Rightarrow> pdfOp list" where
  "alternativeOps alts =
     concat (map (\<lambda>(index, alt).
                    [AddSpacing 2,
                     DocText (decimal (index + 1) @ ''. '' @ altName alt),
                     AddLabelValue ''Description: '' (altDescription alt),
                     AddSpacing 1,
                     AddLabelValue ''Tradeoffs: '' (tradeoffs alt),
                     AddSpacing 2])
                 (enumerate 0 alts))"

text \<open>\<^verbatim>\<open>addMaterialCard(material, tier)\<close>; the two flags and the location are those of the
  analysis being rendered.\<close>

definition addMaterialCard :: "bool \<Rightarrow> bool \<Rightarrow> bool \<Rightarrow> Material \<Rightarrow> Tier \<Rightarrow> pdfOp list" where
  "addMaterialCard includeSus includeAlt hasLocation m t =
     [WrappedText (name m) (tierColors t),
      AddSpacing 2,
      AddLabelValue ''CSI Division: '' (csiNumber m @ '' - '' @ csiDivision m),
      AddSpacing 2,
      AddLabelValue ''Description: '' (description m),
      AddSpacing 2,
      DocText ''Properties:'']
     @ map AddBullet (properties m)
     @ [AddSpacing 2,
        AddLabelValue ''Feasibility Notes: '' (reasoning m),
        AddSpacing 2]
     @ (case sustainabilityNotes m of
          None \<Rightarrow> []
        | Some notes \<Rightarrow>
            if includeSus \<and> notes \<noteq> []
            then [AddLabelValue ''Sustainability Notes: '' notes, AddSpacing 2] else [])
     @ (case codeCompliance m of
          None \<Rightarrow> []
        | Some compliance \<Rightarrow>
            if hasLocation \<and> compliance \<noteq> []
            then [AddLabelValue ''Code Compliance: '' compliance, AddSpacing 2] else [])
     @ (case alternatives m of
          None \<Rightarrow> []
        | Some alts \<Rightarrow>
            if includeAlt \<and> length alts > 0
            then DocText ''Alternative Materials:'' # alternativeOps alts
            else [])"

definition websiteOps :: "string option \<Rightarrow> pdfOp list" where
  "websiteOps w =
     (case w of None \<Rightarrow> [] | Some site \<Rightarrow> if site \<noteq> [] then [DocText ''Website:'', DocText site] else [])"

definition addConsultantCard :: "Consultant \<Rightarrow> pdfOp list" where
  "addConsultantCard c =
     [WrappedText (consultantName c) black,
      DocText ''Firm:'', WrappedText (firm c) black,
      DocText ''Specialty:'', WrappedText (specialty c) black,
      DocText ''Email:'', DocText (consultantEmail c),
      DocText ''Phone:'', DocText (consultantPhone c)]
     @ websiteOps (consultantWebsite c)
     @ [DocText ''Disciplines:'', WrappedText (join '', '' (disciplines c)) black]"

definition addSupplierCard :: "Supplier \<Rightarrow> pdfOp list" where
  "addSupplierCard supplier =
     [WrappedText (supplierName supplier) black,
      AddSpacing 2,
      AddLabelValue ''Company: '' (company supplier),
      AddLabelValue ''Location: ''
        (supplierLocation supplier @ '' '' @ (if rating supplier = Local then ''(Local)'' else ''(National)'')),
      AddLabelValue ''Material Types: '' (join '', '' (materialTypes supplier)),
      AddLabelValue ''Specialties: '' (join '', '' (specialties supplier)),
      AddLabelValue ''Email: '' (supplierEmail supplier),
      AddLabelValue ''Phone: '' (supplierPhone supplier)]
     @ (case supplierWebsite supplier of
          None \<Rightarrow> []
        | Some site \<Rightarrow> if site \<noteq> [] then [AddLabelValue ''Website: '' site] else [])
     @ [AddSpacing 3]"

text \<open>The document: single calls and the three kinds of card.\<close>

datatype pdfBlock =
    Op pdfOp
  | MaterialCard Material Tier bool bool bool
  | ConsultantCard Consultant
  | SupplierCard Supplier

fun blockOps :: "pdfBlock \<Rightarrow> pdfOp list" where
  "blockOps (Op x) = [x]"
| "blockOps (MaterialCard m t includeSus includeAlt hasLocation) =
     addMaterialCard includeSus includeAlt hasLocation m t"
| "blockOps (ConsultantCard c) = addConsultantCard c"
| "blockOps (SupplierCard supplier) = addSupplierCard supplier"

text \<open>\<^verbatim>\<open>xs.forEach((x, index) => { if (index > 0) addSpacing(5); card(x) })\<close>.\<close>

fun spaced :: "('a \<Rightarrow> pdfBlock) \<Rightarrow> 'a list \<Rightarrow> pdfBlock list" where
  "spaced mkCard [] = []"
| "spaced mkCard (x # xs) = mkCard x # concat (map (\<lambda>y. [Op (AddSpacing 5), mkCard y]) xs)"

definition startsWith :: "string \<Rightarrow> string \<Rightarrow> bool" where
  "startsWith s p = (take (length p) s = p)"

definition imageBlocks :: "host \<Rightarrow> Analysis \<Rightarrow> pdfBlock list" where
  "imageBlocks h a =
     (case imageUrls a of
        [] \<Rightarrow> []
      | url # _ \<Rightarrow>
          (if length (imageUrls a) > 1
           then [Op (AddText (''Analyzed '' @ decimal (length (imageUrls a)) @ '' images (showing first image)'')
                       9 False (100, 100, 100))]
           else [])
          @ (if imageLoads h url
             then [Op (AddImage url (if startsWith url ''data:image/png'' then ''PNG'' else ''JPEG''))]
             else [Op (AddText ''Image could not be included in PDF'' 9 False grey)]))"

definition optionalLabel :: "string \<Rightarrow> string option \<Rightarrow> pdfBlock list" where
  "optionalLabel label v =
     (case v of None \<Rightarrow> [] | Some s \<Rightarrow> if s \<noteq> [] then [Op (AddLabelValue label s)] else [])"

definition pdfLocation :: "Analysis \<Rightarrow> pdfBlock list" where
  "pdfLocation a =
     (case location a of
        None \<Rightarrow> []
      | Some loc \<Rightarrow>
          [Op (AddSpacing 5),
           Op (AddText ''Location'' 16 True black),
           Op (AddLabelValue ''Project Location: '' (input loc))]
          @ optionalLabel ''Jurisdiction: '' (jurisdiction loc)
          @ optionalLabel ''Building Code: '' (buildingCode loc)
          @ [Op (AddSpacing 3)])"

definition pdfDate :: "host \<Rightarrow> Analysis \<Rightarrow> pdfBlock list" where
  "pdfDate h a =
     [Op (AddSpacing 5),
      Op (AddText ''Date of Report'' 16 True black),
      Op (AddText (toLocaleString h (timestamp a)) 11 False black),
      Op (AddSpacing 3)]"

text \<open>\<^verbatim>\<open>s.replace(/\*\*/g, '')\<close>, \<^verbatim>\<open>s.includes(p)\<close> and \<^verbatim>\<open>s.replace(/^-\s*/, '')\<close>.\<close>

fun removeStars :: "string \<Rightarrow> string" where
  "removeStars (c # d # cs) =
     (if c = CHR ''*'' \<and> d = CHR ''*'' then removeStars cs else c # removeStars (d # cs))"
| "removeStars cs = cs"

fun includesText :: "string \<Rightarrow> string \<Rightarrow> bool" where
  "includesText [] p = (p = [])"
| "includesText (c # cs) p = (startsWith (c # cs) p \<or> includesText cs p)"

definition removeDash :: "string \<Rightarrow> string" where
  "removeDash s = (case s of [] \<Rightarrow> [] | c # cs \<Rightarrow> if c = CHR ''-'' then dropWhile isWhiteSpace cs else s)"

definition intentLine :: "string \<Rightarrow> pdfBlock" where
  "intentLine line =
     (if startsWith (trim line) ''**'' \<and> includesText line '':**''
      then (case split '':**'' line of
              [l, v] \<Rightarrow> Op (AddLabelValue (trim (removeStars l) @ '':'' @ '' '') (trim v))
            | _ \<Rightarrow> Op (AddText (removeStars line) 11 False black))
      else if startsWith (trim line) ''- '' then Op (AddBullet (removeDash line))
      else Op (AddText line 11 False black))"

definition pdfBrief :: "Analysis \<Rightarrow> pdfBlock list" where
  "pdfBrief a =
     [Op (AddSpacing 5), Op (AddText ''Notes from the Brief'' 16 True black)]
     @ (case brief a of
          None \<Rightarrow> [Op (AddText ''No brief notes provided.'' 11 False grey)]
        | Some b \<Rightarrow>
            (case intent b of
               None \<Rightarrow> [Op (AddText ''No brief notes provided.'' 11 False grey)]
             | Some i \<Rightarrow>
                 if i \<noteq> []
                 then map intentLine (filter (\<lambda>line. trim line \<noteq> []) (split ''\<newline>'' i))
                 else [Op (AddText ''No brief notes provided.'' 11 False grey)]))
     @ [Op (AddSpacing 3)]"

definition pdfTierSummary :: "string \<Rightarrow> Tier \<Rightarrow> Material list \<Rightarrow> pdfBlock list" where
  "pdfTierSummary title t tierN =
     [Op (AddSpacing 3),
      Op (AddText (title @ decimal (length tierN) @ '' materials'') 14 True (tierColors t)),
      (if length tierN > 0
       then Op (AddText (join '', '' (map name tierN)) 11 False black)
       else Op (AddText ''0 materials'' 11 False grey))]"

definition pdfSummary :: "Analysis \<Rightarrow> pdfBlock list" where
  "pdfSummary a =
     [Op (AddSpacing 10), Op (AddText ''Summary of Materials Analysis'' 20 True black)]
     @ pdfTierSummary ''Tier 1 (Green - Readily Available): '' Tier1 (ofTier Tier1 (materials a))
     @ pdfTierSummary ''Tier 2 (Yellow - Requires Customization): '' Tier2 (ofTier Tier2 (materials a))
     @ pdfTierSummary ''Tier 3 (Red - Custom Development): '' Tier3 (ofTier Tier3 (materials a))
     @ [Op (AddSpacing 5)]"

definition pdfCards :: "Analysis \<Rightarrow> string \<Rightarrow> Tier \<Rightarrow> pdfBlock list" where
  "pdfCards a heading t =
     (let tierN = ofTier t (materials a) in
      if length tierN > 0
      then [Op (AddSpacing 10), Op (AddText heading 20 True black), Op (AddSpacing 3)]
           @ spaced (\<lambda>m. MaterialCard m t (includeSustainability a) (includeAlternatives a) (location a \<noteq> None))
               tierN
      else [])"

definition pdfMaterialCards :: "Analysis \<Rightarrow> pdfBlock list" where
  "pdfMaterialCards a =
     pdfCards a ''Tier 1: Readily Available Materials'' Tier1
     @ pdfCards a ''Tier 2: Requires Customization'' Tier2
     @ pdfCards a ''Tier 3: Custom Development Required'' Tier3"

definition pdfConsultantsFor :: "string \<Rightarrow> Tier \<Rightarrow> Material list \<Rightarrow> error + pdfBlock list" where
  "pdfConsultantsFor heading t tierN =
     (if length tierN > 0
      then andThen (getConsultantsForDivisions (newSet (map csiDivision tierN)) t)
             (\<lambda>consultants. Inr
                ([Op (AddSpacing 10), Op (AddText heading 20 True (tierColors t)), Op (AddSpacing 3)]
                 @ spaced ConsultantCard consultants
                 @ [Op (AddSpacing 5)]))
      else Inr [])"

definition pdfConsultantsAppendix :: "Analysis \<Rightarrow> error + pdfBlock list" where
  "pdfConsultantsAppendix a =
     andThen (pdfConsultantsFor ''Green Consultants (Tier 1 Materials)'' Tier1 (ofTier Tier1 (materials a)))
       (\<lambda>green. andThen (pdfConsultantsFor ''Yellow Consultants (Tier 2 Materials)'' Tier2 (ofTier Tier2 (materials a)))
          (\<lambda>yellow. andThen (pdfConsultantsFor ''Red Consultants (Tier 3 Materials)'' Tier3 (ofTier Tier3 (materials a)))
             (\<lambda>red. Inr
                ([Op (AddSpacing 10),
                  Op (AddText ''Appendix: Elite Consultants by Tier'' 24 True black),
                  Op (AddSpacing 3),
                  Op (AddText ''The following consultants are recommended for the disciplines governing the identified materials in this analysis.'' 11 False black),
                  Op (AddSpacing 5)]
                 @ green @ yellow @ red))))"

definition pdfSuppliersFor :: "string \<Rightarrow> Tier \<Rightarrow> ProjectLocation \<Rightarrow> Material list \<Rightarrow> error + pdfBlock list" where
  "pdfSuppliersFor heading t loc tierN =
     (if length tierN > 0
      then andThen (getSuppliersForMaterials tierN loc t)
             (\<lambda>suppliers. Inr
                ([Op (AddSpacing 10), Op (AddText heading 20 True (tierColors t)), Op (AddSpacing 3)]
                 @ (if length suppliers > 0 then spaced SupplierCard suppliers
                    else [Op (AddText ''No local suppliers found. Consider national suppliers listed below.'' 11 False grey),
                          Op (AddSpacing 3)])
                 @ [Op (AddSpacing 5)]))
      else Inr [])"

definition pdfNationalBlock :: "Supplier list \<Rightarrow> pdfBlock list" where
  "pdfNationalBlock allSuppliers =
     (let nationalOnes = filter (\<lambda>s. rating s = National) allSuppliers in
      if length nationalOnes > 0
      then [Op (AddSpacing 10),
            Op (AddText ''National Suppliers (High-Quality Options)'' 20 True black),
            Op (AddSpacing 3),
            Op (AddText ''The following national suppliers offer high-quality products and may provide better options when local suppliers are limited:'' 11 False black),
            Op (AddSpacing 5)]
           @ spaced SupplierCard nationalOnes
           @ [Op (AddSpacing 5)]
      else [])"

definition pdfSuppliersAppendix :: "Analysis \<Rightarrow> error + pdfBlock list" where
  "pdfSuppliersAppendix a =
     (case location a of
        None \<Rightarrow> Inr []
      | Some loc \<Rightarrow>
          if length (ofTier Tier1 (materials a)) > 0 \<or> length (ofTier Tier2 (materials a)) > 0
          then
            andThen (pdfSuppliersFor ''Green Suppliers (Tier 1 Materials)'' Tier1 loc (ofTier Tier1 (materials a)))
              (\<lambda>green. andThen (pdfSuppliersFor ''Yellow Suppliers (Tier 2 Materials)'' Tier2 loc (ofTier Tier2 (materials a)))
                 (\<lambda>yellow. andThen (suppliersOrNone Tier1 loc (ofTier Tier1 (materials a)))
                    (\<lambda>all1. andThen (suppliersOrNone Tier2 loc (ofTier Tier2 (materials a)))
                       (\<lambda>all2. Inr
                          ([Op (AddSpacing 10),
                            Op (AddText ''Appendix: Material Suppliers by Tier'' 24 True black),
                            Op (AddSpacing 3),
                            Op (AddText ''The following suppliers are recommended for Tier 1 and Tier 2 materials. Suppliers are prioritized by proximity to the project location, with national suppliers listed when local options are limited.'' 11 False black),
                            Op (AddSpacing 5)]
                           @ green @ yellow @ pdfNationalBlock (all1 @ all2))))))
          else Inr [])"

definition buildPDFDocument :: "host \<Rightarrow> Analysis \<Rightarrow> error + pdfBlock list" where
  "buildPDFDocument h a =
     andThen (pdfConsultantsAppendix a)
       (\<lambda>consultants. andThen (pdfSuppliersAppendix a)
          (\<lambda>suppliers. Inr
             ([Op (DocText ''Material Feasibility Analysis Report'')]
              @ imageBlocks h a @ pdfLocation a @ pdfDate h a @ pdfBrief a @ pdfSummary a
              @ pdfMaterialCards a @ consultants @ suppliers)))"

section \<open>Observations on the rendered documents\<close>

text \<open>The materials whose sections occur in a list of pieces, in order.\<close>

fun pieceMaterial :: "piece \<Rightarrow> Material list" where
  "pieceMaterial (MaterialSection m includeSus includeAlt includeCode) = [m]"
| "pieceMaterial p = []"

definition renderedMaterials :: "piece list \<Rightarrow> Material list" where
  "renderedMaterials ps = concat (map pieceMaterial ps)"

text \<open>Tier 1 first, then tier 2, then tier 3, each tier in the order of the given list.\<close>

definition inTierOrder :: "Material list \<Rightarrow> Material list" where
  "inTierOrder ms = ofTier Tier1 ms @ ofTier Tier2 ms @ ofTier Tier3 ms"

text \<open>The materials of one division key, in input order.\<close>

definition bucketOf :: "Material list \<Rightarrow> string \<Rightarrow> Material list" where
  "bucketOf ms key = filter (\<lambda>m. divisionKey m = key) ms"




text \<open>The material sections of a list of pieces with the three flags each was rendered
  with; the cards of a document with their tier and flags; the supplier entries of either.\<close>

fun pieceSection :: "piece \<Rightarrow> (Material \<times> bool \<times> bool \<times> bool) list" where
  "pieceSection (MaterialSection m includeSus includeAlt includeCode) = [(m, includeSus, includeAlt, includeCode)]"
| "pieceSection p = []"

definition sectionsOf :: "piece list \<Rightarrow> (Material \<times> bool \<times> bool \<times> bool) list" where
  "sectionsOf ps = concat (map pieceSection ps)"

fun blockCard :: "pdfBlock \<Rightarrow> (Material \<times> Tier \<times> bool \<times> bool \<times> bool) list" where
  "blockCard (MaterialCard m t includeSus includeAlt hasLocation) = [(m, t, includeSus, includeAlt, hasLocation)]"
| "blockCard b = []"

definition cardsOf :: "pdfBlock list \<Rightarrow> (Material \<times> Tier \<times> bool \<times> bool \<times> bool) list" where
  "cardsOf bs = concat (map blockCard bs)"

fun pieceSupplier :: "piece \<Rightarrow> Supplier list" where
  "pieceSupplier (SupplierEntry supplier) = [supplier]"
| "pieceSupplier p = []"

definition supplierEntries :: "piece list \<Rightarrow> Supplier list" where
  "supplierEntries ps = concat (map pieceSupplier ps)"

fun blockSupplier :: "pdfBlock \<Rightarrow> Supplier list" where
  "blockSupplier (SupplierCard supplier) = [supplier]"
| "blockSupplier b = []"

definition supplierCards :: "pdfBlock list \<Rightarrow> Supplier list" where
  "supplierCards bs = concat (map blockSupplier bs)"

fun pieceConsultant :: "piece \<Rightarrow> Consultant list" where
  "pieceConsultant (ConsultantEntry c) = [c]"
| "pieceConsultant p = []"

definition consultantEntries :: "piece list \<Rightarrow> Consultant list" where
  "consultantEntries ps = concat (map pieceConsultant ps)"

fun blockConsultant :: "pdfBlock \<Rightarrow> Consultant list" where
  "blockConsultant (ConsultantCard c) = [c]"
| "blockConsultant b = []"

definition consultantCards :: "pdfBlock list \<Rightarrow> Consultant list" where
  "consultantCards bs = concat (map blockConsultant bs)"

text \<open>A piece that is neither a heading of the materials body nor a material section.\<close>

fun isPlain :: "piece \<Rightarrow> bool" where
  "isPlain (Lit s) = True"
| "isPlain (ConsultantEntry c) = True"
| "isPlain (SupplierEntry supplier) = True"
| "isPlain p = False"

text \<open>
  The (division, tier, material name) triples of the two documents, in order. In the markdown
  the tier of a material section is the tier heading it stands under, and its division is the
  one printed in its \<^verbatim>\<open>CSI Division\<close> line; in the PDF a card is drawn for a tier (its
  colour) and prints the same \<^verbatim>\<open>CSI Division\<close> value.
\<close>

type_synonym triple = "string \<times> Tier \<times> string"

fun mdTriplesFrom :: "Tier option \<Rightarrow> piece list \<Rightarrow> triple list" where
  "mdTriplesFrom cur [] = []"
| "mdTriplesFrom cur (TierHeading t # ps) = mdTriplesFrom (Some t) ps"
| "mdTriplesFrom cur (DivisionHeading csiNum csiName # ps) = mdTriplesFrom None ps"
| "mdTriplesFrom cur (MaterialSection m includeSus includeAlt includeCode # ps) =
     (case cur of None \<Rightarrow> [] | Some t \<Rightarrow> [(csiNumber m @ '' - '' @ csiDivision m, t, name m)])
     @ mdTriplesFrom cur ps"
| "mdTriplesFrom cur (p # ps) = mdTriplesFrom cur ps"

definition mdTriples :: "piece list \<Rightarrow> triple list" where
  "mdTriples ps = mdTriplesFrom None ps"

fun blockTriple :: "pdfBlock \<Rightarrow> triple list" where
  "blockTriple (MaterialCard m t includeSus includeAlt hasLocation) =
     [(csiNumber m @ '' - '' @ csiDivision m, t, name m)]"
| "blockTriple b = []"

definition pdfTriples :: "pdfBlock list \<Rightarrow> triple list" where
  "pdfTriples bs = concat (map blockTriple bs)"

definition tripleOf :: "Material \<Rightarrow> triple" where
  "tripleOf m = (divisionKey m, tier m, name m)"

text \<open>The second-level headings (\<^verbatim>\<open>## ...\<close>) among the literal pieces of a report.\<close>

definition isHeading2 :: "string \<Rightarrow> bool" where
  "isHeading2 s = (take 3 s = ''## '')"

fun pieceHeading :: "piece \<Rightarrow> string list" where
  "pieceHeading (Lit s) = (if isHeading2 s then [s] else [])"
| "pieceHeading p = []"

definition mdHeadings :: "piece list \<Rightarrow> string list" where
  "mdHeadings ps = concat (map pieceHeading ps)"

fun isLiteral :: "piece \<Rightarrow> bool" where
  "isLiteral (Lit s) = True"
| "isLiteral p = False"

text \<open>An analysis has a material of tier 1 or tier 2.\<close>

definition hasTier12 :: "Analysis \<Rightarrow> bool" where
  "hasTier12 a = (ofTier Tier1 (materials a) \<noteq> [] \<or> ofTier Tier2 (materials a) \<noteq> [])"

text \<open>The texts written in bold with \<^verbatim>\<open>addText\<close>: the headings of the PDF.\<close>

fun blockHeading :: "pdfBlock \<Rightarrow> string list" where
  "blockHeading (Op (AddText s fontSize True c)) = [s]"
| "blockHeading b = []"

definition pdfHeadings :: "pdfBlock list \<Rightarrow> string list" where
  "pdfHeadings bs = concat (map blockHeading bs)"

text \<open>Sample data for the concrete instances.\<close>

definition sampleMaterial :: "string \<Rightarrow> string \<Rightarrow> string \<Rightarrow> Tier \<Rightarrow> Material" where
  "sampleMaterial nm num dv t =
     \<lparr> name = nm, description = ''A sample material'', properties = [''Durable''], tier = t,
       reasoning = ''Sample reasoning'', csiDivision = dv, csiNumber = num,
       sustainabilityNotes = Some ''Recyclable'',
       alternatives = Some [\<lparr> altName = ''Other'', altDescription = ''Another product'', tradeoffs = ''Cheaper'' \<rparr>],
       codeCompliance = Some ''Class A'' \<rparr>"



definition fourMaterials :: "Material list" where
  "fourMaterials =
     [sampleMaterial ''Slab'' ''03'' ''Concrete'' Tier1,
      sampleMaterial ''Roof Membrane'' ''07'' ''Thermal and Moisture Protection'' Tier2,
      sampleMaterial ''Insulation'' ''07'' ''Thermal and Moisture Protection'' Tier1,
      sampleMaterial ''Sprinkler'' ''21'' ''Fire Suppression'' Tier1]"

definition unsortedMaterials :: "Material list" where
  "unsortedMaterials =
     [sampleMaterial ''Sprinkler'' ''21'' ''Fire Suppression'' Tier1,
      sampleMaterial ''Roof Membrane'' ''07'' ''Thermal and Moisture Protection'' Tier2,
      sampleMaterial ''Slab'' ''03'' ''Concrete'' Tier1,
      sampleMaterial ''Insulation'' ''07'' ''Thermal & Moisture'' Tier1]"


text \<open>A division name is plain when it is not the name of a member that every object
  inherits from \<^verbatim>\<open>Object.prototype\<close>.\<close>

definition plainDivision :: "string \<Rightarrow> bool" where
  "plainDivision d = (d \<notin> set objectPrototypeNames)"

definition plainDivisions :: "Material list \<Rightarrow> bool" where
  "plainDivisions ms = list_all (\<lambda>m. plainDivision (csiDivision m)) ms"

definition tier2Openings :: "Material list" where
  "tier2Openings = [sampleMaterial ''Curved Glass Unit'' ''08'' ''Openings'' Tier2]"

definition sampleLocation :: ProjectLocation where
  "sampleLocation = \<lparr> input = ''350 5th Ave, New York'', jurisdiction = Some ''New York, NY, USA'', buildingCode = Some ''IBC 2021'' \<rparr>"

text \<open>The order of the markdown body: division by division in the order of the sorted keys,
  tiers 1, 2, 3 inside a division.\<close>

definition divisionOrder :: "host \<Rightarrow> Material list \<Rightarrow> Material list" where
  "divisionOrder h ms = concat (map (\<lambda>k. inTierOrder (bucketOf ms k)) (divisionKeys h ms))"



text \<open>Two implementations of the sort of a key list on which the comparator is not consistent:
  one leaves the list as it is, one reverses it.\<close>

lift_definition keepOrder :: keySort is "\<lambda>keys. keys"
  by simp

lift_definition reverseOrder :: keySort is rev
  by simp

definition sampleHost :: host where
  "sampleHost =
     \<lparr> toLocaleString = (\<lambda>ts. ''1/15/2025, 9:30:00 AM''), imageLoads = (\<lambda>url. True), sortKeys = keepOrder \<rparr>"

definition twoDivisions :: Analysis where
  "twoDivisions =
     \<lparr> imageUrls = [''data:image/png;base64,AAAA''],
       materials = [sampleMaterial ''Slab'' ''03'' ''Concrete'' Tier2,
                    sampleMaterial ''Roof Membrane'' ''07'' ''Thermal and Moisture Protection'' Tier1],
       timestamp = ''2025-01-15T09:30:00.000Z'',
       includeSustainability = False,
       includeAlternatives = False,
       location = Some sampleLocation,
       brief = None \<rparr>"

definition briefBoth :: Analysis where
  "briefBoth =
     \<lparr> imageUrls = [], materials = [], timestamp = ''2025-01-15T09:30:00.000Z'',
       includeSustainability = False, includeAlternatives = False, location = None,
       brief = Some \<lparr> briefText = ''Lakeside pavilion'', intent = Some ''Low-carbon timber'' \<rparr> \<rparr>"

text \<open>The headings of each rendering of an analysis, and two more sample analyses.\<close>

definition markdownHeadings :: "host \<Rightarrow> Analysis \<Rightarrow> error + string list" where
  "markdownHeadings h a = andThen (markdownPieces h a) (\<lambda>md. Inr (mdHeadings md))"

definition pdfDocumentHeadings :: "host \<Rightarrow> Analysis \<Rightarrow> error + string list" where
  "pdfDocumentHeadings h a = andThen (buildPDFDocument h a) (\<lambda>pdf. Inr (pdfHeadings pdf))"


definition oneMaterial :: Analysis where
  "oneMaterial =
     \<lparr> imageUrls = [''data:image/png;base64,AAAA''],
       materials = [sampleMaterial ''Roof Membrane'' ''07'' ''Thermal and Moisture Protection'' Tier1],
       timestamp = ''2025-01-15T09:30:00.000Z'',
       includeSustainability = False,
       includeAlternatives = False,
       location = Some sampleLocation,
       brief = None \<rparr>"

definition tier3Only :: Analysis where
  "tier3Only =
     \<lparr> imageUrls = [''data:image/png;base64,AAAA''],
       materials = [sampleMaterial ''Photochromic Glass Panel'' ''08'' ''Openings'' Tier3],
       timestamp = ''2025-01-15T09:30:00.000Z'',
       includeSustainability = False,
       includeAlternatives = False,
       location = Some sampleLocation,
       brief = None \<rparr>"

text \<open>Two more hosts: one with another locale and time zone, one that formats the time stamp
  as the sample host does and differs from it in the image decoding and in the sort.\<close>

definition berlinHost :: host where
  "berlinHost =
     \<lparr> toLocaleString = (\<lambda>ts. ''15.1.2025, 10:30:00''), imageLoads = (\<lambda>url. True), sortKeys = keepOrder \<rparr>"

definition offlineHost :: host where
  "offlineHost =
     \<lparr> toLocaleString = (\<lambda>ts. ''1/15/2025, 9:30:00 AM''), imageLoads = (\<lambda>url. False), sortKeys = reverseOrder \<rparr>"

text \<open>A second material list with the division names of \<open>tier2Openings\<close>, and a second
  location with the jurisdiction of \<open>sampleLocation\<close>.\<close>

definition otherOpenings :: "Material list" where
  "otherOpenings = [sampleMaterial ''Skylight'' ''08'' ''Openings'' Tier1]"

definition otherLocation :: ProjectLocation where
  "otherLocation = \<lparr> input = ''1 Main St'', jurisdiction = Some ''New York, NY, USA'', buildingCode = None \<rparr>"

text \<open>An analysis with one material whose division name is a property that every object
  inherits.\<close>

definition inheritedDivision :: Analysis where
  "inheritedDivision =
     \<lparr> imageUrls = [''data:image/png;base64,AAAA''],
       materials = [sampleMaterial ''Toilet Partition'' ''10'' ''constructor'' Tier1],
       timestamp = ''2025-01-15T09:30:00.000Z'',
       includeSustainability = False,
       includeAlternatives = False,
       location = None,
       brief = None \<rparr>"

section \<open>Auxiliary lemmas\<close>

lemma mset_insertSorted: "mset (insertSorted cmp x ys) = add_mset x (mset ys)"
  by (induction ys) simp_all

lemma mset_sortBy: "mset (sortBy cmp xs) = mset xs"
  by (induction xs) (simp_all add: sortBy_def mset_insertSorted)


lemma distinct_sortBy: "distinct (sortBy cmp xs) = distinct xs"
  using mset_sortBy [of cmp xs] by (metis distinct_count_atmost_1 set_mset_mset)

lemma filter_tier_insertSorted:
  "filter (\<lambda>m. tier m = t) (insertSorted compareTiers x ys) = filter (\<lambda>m. tier m = t) (x # ys)"
proof (induction ys)
  case Nil
  then show ?case by simp
next
  case (Cons y ys)
  show ?case
  proof (cases "sortCompare compareTiers x y \<le> 0")
    case True
    then show ?thesis by simp
  next
    case False
    then have "tier x \<noteq> tier y"
      by (auto simp: sortCompare_def compareTiers_def)
    with False Cons show ?thesis by auto
  qed
qed

lemma ofTier_sortBy: "ofTier t (sortBy compareTiers ms) = ofTier t ms"
  by (induction ms) (simp_all add: sortBy_def ofTier_def filter_tier_insertSorted)

lemma set_foldl_setAdd: "set (foldl setAdd s xs) = set s \<union> set xs"
  by (induction xs arbitrary: s) (auto simp: setAdd_def)

lemma distinct_foldl_setAdd: "distinct s \<Longrightarrow> distinct (foldl setAdd s xs)"
  by (induction xs arbitrary: s) (auto simp: setAdd_def)

lemma set_newSet: "set (newSet xs) = set xs"
  by (simp add: newSet_def set_foldl_setAdd)

lemma distinct_newSet: "distinct (newSet xs)"
  by (simp add: newSet_def distinct_foldl_setAdd)

lemma fst_pushInto: "map fst (pushInto g k v) = setAdd (map fst g) k"
  by (auto simp: pushInto_def setAdd_def case_prod_unfold intro!: map_idI)

lemma fst_grouping:
  "map fst (foldl (\<lambda>g m. pushInto g (kf m) (vf m)) g0 ms) = foldl setAdd (map fst g0) (map kf ms)"
  by (induction ms arbitrary: g0) (simp_all add: fst_pushInto)

lemma map_of_pushInto:
  "distinct (map fst g) \<Longrightarrow>
   map_of (pushInto g k v) k' =
     (if k' = k then Some ((case map_of g k of None \<Rightarrow> [] | Some vs \<Rightarrow> vs) @ [v]) else map_of g k')"
proof (induction g)
  case Nil
  then show ?case by (simp add: pushInto_def)
next
  case (Cons p g)
  obtain k0 vs0 where p: "p = (k0, vs0)" by (cases p)
  from Cons.prems have d: "distinct (map fst g)" and nin: "k0 \<notin> fst ` set g" by (auto simp: p)
  show ?case
  proof (cases "k0 = k")
    case True
    with nin have "map (\<lambda>(k', vs). if k' = k then (k', vs @ [v]) else (k', vs)) g = g"
      by (force intro!: map_idI)
    with True show ?thesis by (simp add: pushInto_def p)
  next
    case False
    with Cons.IH [OF d] show ?thesis
      by (auto simp: pushInto_def p split: if_splits)
  qed
qed


lemma distinct_fst_pushInto: "distinct (map fst g) \<Longrightarrow> distinct (map fst (pushInto g k v))"
  by (simp add: fst_pushInto setAdd_def)

lemma map_of_grouping:
  "distinct (map fst g0) \<Longrightarrow>
   map_of (foldl (\<lambda>g m. pushInto g (kf m) (vf m)) g0 ms) k =
     (if k \<in> kf ` set ms \<or> k \<in> fst ` set g0
      then Some ((case map_of g0 k of None \<Rightarrow> [] | Some vs \<Rightarrow> vs) @ map vf (filter (\<lambda>m. kf m = k) ms))
      else None)"
proof (induction ms arbitrary: g0)
  case Nil
  then show ?case
    by (auto simp: map_of_eq_None_iff split: option.splits)
next
  case (Cons m ms)
  have d: "distinct (map fst (pushInto g0 (kf m) (vf m)))"
    using Cons.prems by (rule distinct_fst_pushInto)
  have keys: "fst ` set (pushInto g0 (kf m) (vf m)) = insert (kf m) (fst ` set g0)"
    using fst_pushInto [of g0 "kf m" "vf m"]
    by (metis (no_types, lifting) Un_insert_right append_Nil2 insert_absorb list.set_map
        list.simps(15) set_append setAdd_def)
  show ?case
    using Cons.IH [OF d] Cons.prems
    by (auto simp: keys map_of_pushInto map_of_eq_None_iff split: option.splits)
qed

lemma map_of_groupedByDivision:
  "map_of (groupedByDivision ms) k =
     (if k \<in> divisionKey ` set ms then Some (filter (\<lambda>m. divisionKey m = k) ms) else None)"
  using map_of_grouping [of "[]" divisionKey "\<lambda>m. m" ms k]
  by (simp add: groupedByDivision_def)

lemma keys_groupedByDivision: "map fst (groupedByDivision ms) = newSet (map divisionKey ms)"
  using fst_grouping [of divisionKey "\<lambda>m. m" "[]" ms]
  by (simp add: groupedByDivision_def newSet_def)

lemma map_of_sortedByTier: "map_of (sortedByTier g) k = map_option (sortBy compareTiers) (map_of g k)"
  by (induction g) (auto simp: sortedByTier_def)

lemma splitFrom_nonempty: "splitFrom sep k s \<noteq> []"
  by (induction sep k s rule: splitFrom.induct) (auto split: list.splits)

lemma splitFrom_two:
  "sep \<noteq> [] \<Longrightarrow> \<exists>x y rest. splitFrom sep 0 (a @ sep @ b) = x # y # rest"
proof (induction a)
  case Nil
  obtain c cs where sep: "sep = c # cs" using Nil by (cases sep) auto
  obtain y rest where "splitFrom sep (length sep - 1) (cs @ b) = y # rest"
    using splitFrom_nonempty [of sep "length sep - 1" "cs @ b"] by (cases "splitFrom sep (length sep - 1) (cs @ b)") auto
  then show ?case by (simp add: sep)
next
  case (Cons c a)
  from Cons obtain x y rest where r: "splitFrom sep 0 (a @ sep @ b) = x # y # rest" by blast
  obtain y' rest' where "splitFrom sep (length sep - 1) (a @ sep @ b) = y' # rest'"
    using splitFrom_nonempty [of sep "length sep - 1" "a @ sep @ b"]
    by (cases "splitFrom sep (length sep - 1) (a @ sep @ b)") auto
  with r show ?case by simp
qed

lemma split_divisionKey: "\<exists>x y rest. split '' - '' (divisionKey m) = x # y # rest"
  using splitFrom_two [of "'' - ''" "csiNumber m" "csiDivision m"]
  by (simp add: split_def divisionKey_def)


lemma renderedMaterials_append [simp]:
  "renderedMaterials (ps @ qs) = renderedMaterials ps @ renderedMaterials qs"
  by (simp add: renderedMaterials_def)

lemma renderedMaterials_tierBlock:
  "renderedMaterials (tierBlock s al h b t) = ofTier t b"
  by (simp add: renderedMaterials_def tierBlock_def Let_def comp_def)

lemma divisionSection_ok:
  assumes "key \<in> divisionKey ` set ms"
  shows "\<exists>csiNum csiName.
           divisionSection (sortedByTier (groupedByDivision ms)) s al h key =
             Inr (DivisionHeading csiNum csiName
                  # tierBlock s al h (sortBy compareTiers (bucketOf ms key)) Tier1
                  @ tierBlock s al h (sortBy compareTiers (bucketOf ms key)) Tier2
                  @ tierBlock s al h (sortBy compareTiers (bucketOf ms key)) Tier3
                  @ [Lit ''\<newline>''])"
proof -
  from assms obtain m where "key = divisionKey m" by blast
  then obtain x y rest where sp: "split '' - '' key = x # y # rest"
    using split_divisionKey [of m] by auto
  have "map_of (sortedByTier (groupedByDivision ms)) key = Some (sortBy compareTiers (bucketOf ms key))"
    using assms by (simp add: map_of_sortedByTier map_of_groupedByDivision bucketOf_def)
  with sp show ?thesis by (simp add: divisionSection_def)
qed

lemma divisionSection_materials:
  assumes "key \<in> divisionKey ` set ms"
  shows "\<exists>ps. divisionSection (sortedByTier (groupedByDivision ms)) s al h key = Inr ps
           \<and> renderedMaterials ps = inTierOrder (bucketOf ms key)"
proof -
  from divisionSection_ok [OF assms, of s al h] obtain csiNum csiName where
    "divisionSection (sortedByTier (groupedByDivision ms)) s al h key =
             Inr (DivisionHeading csiNum csiName
                  # tierBlock s al h (sortBy compareTiers (bucketOf ms key)) Tier1
                  @ tierBlock s al h (sortBy compareTiers (bucketOf ms key)) Tier2
                  @ tierBlock s al h (sortBy compareTiers (bucketOf ms key)) Tier3
                  @ [Lit ''\<newline>''])" by blast
  moreover have "renderedMaterials (DivisionHeading csiNum csiName
                  # tierBlock s al h (sortBy compareTiers (bucketOf ms key)) Tier1
                  @ tierBlock s al h (sortBy compareTiers (bucketOf ms key)) Tier2
                  @ tierBlock s al h (sortBy compareTiers (bucketOf ms key)) Tier3
                  @ [Lit ''\<newline>'']) = inTierOrder (bucketOf ms key)"
    using renderedMaterials_tierBlock
    by (simp add: renderedMaterials_def inTierOrder_def ofTier_sortBy tierBlock_def Let_def comp_def)
  ultimately show ?thesis by simp
qed

lemma divisionSections_materials:
  assumes "set keys \<subseteq> divisionKey ` set ms"
  shows "\<exists>body. divisionSections (sortedByTier (groupedByDivision ms)) s al h keys = Inr body
           \<and> renderedMaterials body = concat (map (\<lambda>k. inTierOrder (bucketOf ms k)) keys)"
  using assms
proof (induction keys)
  case Nil
  then show ?case by (simp add: renderedMaterials_def)
next
  case (Cons key keys)
  then obtain body where b: "divisionSections (sortedByTier (groupedByDivision ms)) s al h keys = Inr body"
     "renderedMaterials body = concat (map (\<lambda>k. inTierOrder (bucketOf ms k)) keys)" by auto
  from Cons.prems have "key \<in> divisionKey ` set ms" by simp
  from divisionSection_materials [OF this, of s al h] obtain ps where
    p: "divisionSection (sortedByTier (groupedByDivision ms)) s al h key = Inr ps"
       "renderedMaterials ps = inTierOrder (bucketOf ms key)" by blast
  show ?case by (simp add: p b andThen_def)
qed

lemma mset_applySort: "mset (applySort e keys) = mset keys"
  using applySort [of e] by simp

lemma mset_divisionKeys: "mset (divisionKeys h ms) = mset (newSet (map divisionKey ms))"
  by (simp add: divisionKeys_def Let_def mset_sortBy mset_applySort keys_groupedByDivision)

lemma set_divisionKeys: "set (divisionKeys h ms) = divisionKey ` set ms"
  using mset_divisionKeys [of h ms] by (metis set_mset_mset set_newSet list.set_map)

lemma distinct_divisionKeys: "distinct (divisionKeys h ms)"
  using mset_divisionKeys [of h ms] distinct_newSet [of "map divisionKey ms"]
  by (metis distinct_count_atmost_1 set_mset_mset)

lemma mset_inTierOrder: "mset (inTierOrder ms) = mset ms"
proof (induction ms)
  case Nil
  then show ?case by (simp add: inTierOrder_def ofTier_def)
next
  case (Cons m ms)
  then show ?case by (cases "tier m") (auto simp: inTierOrder_def ofTier_def)
qed

lemma concat_single:
  "distinct keys \<Longrightarrow> x \<in> set keys \<Longrightarrow> concat (map (\<lambda>k. if x = k then [m] else []) keys) = [m]"
proof (induction keys)
  case Nil
  then show ?case by simp
next
  case (Cons k ks)
  show ?case
  proof (cases "x = k")
    case True
    with Cons.prems have "x \<notin> set ks" by auto
    then have "concat (map (\<lambda>k. if x = k then [m] else []) ks) = []"
      by (induction ks) auto
    with True show ?thesis by simp
  next
    case False
    with Cons show ?thesis by auto
  qed
qed

lemma mset_buckets:
  "distinct keys \<Longrightarrow> divisionKey ` set ms \<subseteq> set keys \<Longrightarrow>
   mset (concat (map (\<lambda>k. bucketOf ms k) keys)) = mset ms"
proof (induction ms)
  case Nil
  have "concat (map (bucketOf []) keys) = []"
    by (induction keys) (simp_all add: bucketOf_def)
  then show ?case by simp
next
  case (Cons m ms)
  have "mset (concat (map (bucketOf (m # ms)) keys)) =
        mset (concat (map (bucketOf ms) keys)) + mset (concat (map (\<lambda>k. if divisionKey m = k then [m] else []) keys))"
    by (induction keys) (auto simp: bucketOf_def)
  moreover have "concat (map (\<lambda>k. if divisionKey m = k then [m] else []) keys) = [m]"
    using Cons.prems by (intro concat_single) auto
  ultimately show ?case using Cons by simp
qed

lemma mset_concat_inTierOrder:
  "mset (concat (map (\<lambda>k. inTierOrder (bucketOf ms k)) keys)) = mset (concat (map (\<lambda>k. bucketOf ms k) keys))"
  by (induction keys) (simp_all add: mset_inTierOrder)

lemma materialsAnalysis_partition:
  "\<exists>body. materialsAnalysis h a = Inr body
     \<and> renderedMaterials body = concat (map (\<lambda>k. inTierOrder (bucketOf (materials a) k)) (divisionKeys h (materials a)))
     \<and> mset (renderedMaterials body) = mset (materials a)"
proof -
  have "set (divisionKeys h (materials a)) \<subseteq> divisionKey ` set (materials a)"
    by (simp add: set_divisionKeys)
  from divisionSections_materials [OF this] obtain body where
    b: "materialsAnalysis h a = Inr body"
       "renderedMaterials body = concat (map (\<lambda>k. inTierOrder (bucketOf (materials a) k)) (divisionKeys h (materials a)))"
    unfolding materialsAnalysis_def by blast
  have "mset (renderedMaterials body) = mset (materials a)"
    by (simp add: b mset_concat_inTierOrder mset_buckets distinct_divisionKeys set_divisionKeys)
  with b show ?thesis by blast
qed









lemma divisionKeys_numeric:
  "numericKeys (newSet (map divisionKey ms)) \<Longrightarrow>
   divisionKeys h ms = sortBy compareKeys (newSet (map divisionKey ms))"
  by (simp add: divisionKeys_def keys_groupedByDivision)









lemma inherited_not_supplier_keys:
  "list_all (\<lambda>n. map_of divisionToSupplierType n = None) objectPrototypeNames"
  by code_simp

lemma inherited_not_specialty_keys:
  "list_all (\<lambda>n. map_of divisionToSpecialty n = None) objectPrototypeNames"
  by code_simp

lemma supplierTypesOf_inherited:
  "\<not> plainDivision d \<Longrightarrow> supplierTypesOf d = Inl TypeError"
  using inherited_not_supplier_keys
  by (simp add: supplierTypesOf_def getProperty_def plainDivision_def list_all_iff)

lemma specialtiesOf_inherited:
  "\<not> plainDivision d \<Longrightarrow> specialtiesOf d = Inl TypeError"
  using inherited_not_specialty_keys
  by (simp add: specialtiesOf_def getProperty_def plainDivision_def list_all_iff)

lemma specialtiesOf_plain:
  "plainDivision d \<Longrightarrow> \<exists>ss. specialtiesOf d = Inr ss"
  by (simp add: specialtiesOf_def getProperty_def plainDivision_def split: option.splits)

lemma localSuppliers_rating:
  "localSuppliers region xs = Inr sups \<Longrightarrow> list_all (\<lambda>s. rating s = Local) sups"
proof (induction xs arbitrary: sups)
  case Nil
  then show ?case by simp
next
  case (Cons p xs)
  obtain index division where p: "p = (index, division)" by (cases p)
  from Cons.prems obtain supplierTypes more where
    m: "localSuppliers region xs = Inr more"
       "sups = map (\<lambda>(typeIndex, supplierType). localSupplier region index division typeIndex supplierType)
                 (enumerate 0 (take 2 supplierTypes)) @ more"
    by (auto simp: p andThen_def split: sum.splits)
  from Cons.IH [OF m(1)] show ?case
    by (auto simp: m(2) list_all_iff localSupplier_def)
qed

lemma nationalSuppliers_shape:
  "nationalSuppliers xs = Inr sups \<Longrightarrow>
     length sups = length xs
     \<and> list_all (\<lambda>s. rating s = National \<and> supplierLocation s = ''National Distribution''
                     \<and> take 8 (supplierPhone s) = ''+1 (800)'') sups"
proof (induction xs arbitrary: sups)
  case Nil
  then show ?case by simp
next
  case (Cons p xs)
  obtain index division where p: "p = (index, division)" by (cases p)
  from Cons.prems obtain supplierType0 more where
    m: "nationalSuppliers xs = Inr more" "sups = nationalSupplier index division supplierType0 # more"
    by (auto simp: p andThen_def split: sum.splits list.splits)
  from Cons.IH [OF m(1)] show ?case
    by (simp add: m(2) nationalSupplier_def)
qed

lemma getSuppliers_unfold:
  "getSuppliersForMaterials ms loc t =
     (case localSuppliers (regionOf loc) (enumerate 0 (newSet (map csiDivision ms))) of
        Inl e \<Rightarrow> Inl e
      | Inr locals \<Rightarrow>
          if t = Tier2 \<or> length (newSet (map csiDivision ms)) > 3
          then (case nationalSuppliers (enumerate 0 (take 3 (newSet (map csiDivision ms)))) of
                  Inl e \<Rightarrow> Inl e
                | Inr nationals \<Rightarrow> Inr (locals @ nationals))
          else Inr locals)"
  by (simp add: getSuppliersForMaterials_def Let_def andThen_def split: sum.splits)

lemma newSet_Nil_iff: "newSet xs = [] \<longleftrightarrow> xs = []"
  using set_newSet [of xs] by (metis set_empty)

lemma getSuppliers_parts:
  assumes "getSuppliersForMaterials ms loc t = Inr sups"
  shows "\<exists>locals nationals. sups = locals @ nationals
           \<and> list_all (\<lambda>s. rating s = Local) locals
           \<and> list_all (\<lambda>s. rating s = National \<and> supplierLocation s = ''National Distribution''
                               \<and> take 8 (supplierPhone s) = ''+1 (800)'') nationals
           \<and> length nationals = (if t = Tier2 \<or> length (newSet (map csiDivision ms)) > 3
                                  then min (length (newSet (map csiDivision ms))) 3 else 0)"
proof (cases "localSuppliers (regionOf loc) (enumerate 0 (newSet (map csiDivision ms)))")
  case (Inl e)
  with assms show ?thesis by (simp add: getSuppliers_unfold)
next
  case (Inr locals)
  note l = this
  have lr: "list_all (\<lambda>s. rating s = Local) locals"
    using l by (rule localSuppliers_rating)
  show ?thesis
  proof (cases "t = Tier2 \<or> length (newSet (map csiDivision ms)) > 3")
    case False
    with assms l have "sups = locals @ []" by (simp add: getSuppliers_unfold)
    with lr False show ?thesis by (intro exI [of _ locals] exI [of _ "[]"]) simp
  next
    case True
    show ?thesis
    proof (cases "nationalSuppliers (enumerate 0 (take 3 (newSet (map csiDivision ms))))")
      case (Inl e)
      with assms l True show ?thesis by (simp add: getSuppliers_unfold)
    next
      case (Inr nationals)
      with assms l True have s: "sups = locals @ nationals" by (simp add: getSuppliers_unfold)
      from nationalSuppliers_shape [OF Inr] lr s True show ?thesis
        by (intro exI [of _ locals] exI [of _ nationals]) simp
    qed
  qed
qed


lemma national_filter:
  assumes s: "sups = locals @ nationals"
    and lr: "list_all (\<lambda>s. rating s = Local) locals"
    and nr: "list_all (\<lambda>s. rating s = National) nationals"
  shows "filter (\<lambda>s. rating s = National) sups = nationals"
proof -
  have "filter (\<lambda>s. rating s = National) locals = []"
    using lr by (induction locals) auto
  moreover have "filter (\<lambda>s. rating s = National) nationals = nationals"
    using nr by (induction nationals) auto
  ultimately show ?thesis by (simp add: s)
qed

lemma national_nonempty:
  assumes len: "length nationals = (if t = Tier2 \<or> length (newSet (map csiDivision ms)) > 3 then min (length (newSet (map csiDivision ms))) 3 else 0)"
  shows "nationals \<noteq> [] \<longleftrightarrow> ms \<noteq> [] \<and> (t = Tier2 \<or> length (newSet (map csiDivision ms)) > 3)"
proof -
  have "nationals \<noteq> [] \<longleftrightarrow> length nationals > 0" by simp
  also have "\<dots> \<longleftrightarrow> (t = Tier2 \<or> length (newSet (map csiDivision ms)) > 3) \<and> length (newSet (map csiDivision ms)) > 0"
    unfolding len by auto
  also have "length (newSet (map csiDivision ms)) > 0 \<longleftrightarrow> ms \<noteq> []"
    using newSet_Nil_iff [of "map csiDivision ms"] by simp
  finally show ?thesis by auto
qed

lemma supplierTypesOf_plain:
  "plainDivision d \<Longrightarrow> \<exists>ts. supplierTypesOf d = Inr ts \<and> ts \<noteq> []"
  by (auto simp: supplierTypesOf_def getProperty_def plainDivision_def divisionToSupplierType_def
      split: option.splits if_splits)

lemma localSuppliers_plain:
  "list_all (\<lambda>p. plainDivision (snd p)) xs \<Longrightarrow> \<exists>sups. localSuppliers region xs = Inr sups"
proof (induction xs)
  case Nil
  then show ?case by simp
next
  case (Cons p xs)
  obtain index division where p: "p = (index, division)" by (cases p)
  from Cons.prems obtain ts where "supplierTypesOf division = Inr ts"
    using supplierTypesOf_plain [of division] by (auto simp: p)
  moreover from Cons obtain more where "localSuppliers region xs = Inr more" by auto
  ultimately show ?case by (simp add: p andThen_def)
qed

lemma nationalSuppliers_plain:
  "list_all (\<lambda>p. plainDivision (snd p)) xs \<Longrightarrow> \<exists>sups. nationalSuppliers xs = Inr sups"
proof (induction xs)
  case Nil
  then show ?case by simp
next
  case (Cons p xs)
  obtain index division where p: "p = (index, division)" by (cases p)
  from Cons.prems obtain t ts where "supplierTypesOf division = Inr (t # ts)"
    using supplierTypesOf_plain [of division] by (auto simp: p neq_Nil_conv)
  moreover from Cons obtain more where "nationalSuppliers xs = Inr more" by auto
  ultimately show ?case by (simp add: p andThen_def)
qed

lemma list_all_enumerate:
  "list_all P xs \<Longrightarrow> list_all (\<lambda>p. P (snd p)) (enumerate n xs)"
  by (induction xs arbitrary: n) simp_all

lemma plain_newSet:
  "plainDivisions ms \<Longrightarrow> list_all plainDivision (newSet (map csiDivision ms))"
  by (auto simp: plainDivisions_def list_all_iff set_newSet)

lemma getSuppliers_plain:
  assumes "plainDivisions ms"
  shows "\<exists>sups. getSuppliersForMaterials ms loc t = Inr sups"
proof -
  let ?types = "newSet (map csiDivision ms)"
  have p: "list_all plainDivision ?types" using assms by (rule plain_newSet)
  then have "list_all plainDivision (take 3 ?types)"
    by (auto simp: list_all_iff dest: in_set_takeD)
  then obtain nationals where "nationalSuppliers (enumerate 0 (take 3 ?types)) = Inr nationals"
    using nationalSuppliers_plain list_all_enumerate by blast
  moreover obtain locals where "localSuppliers (regionOf loc) (enumerate 0 ?types) = Inr locals"
    using localSuppliers_plain list_all_enumerate p by blast
  ultimately show ?thesis by (simp add: getSuppliers_unfold)
qed

lemma collectSpecialties_plain:
  "list_all plainDivision ds \<Longrightarrow> \<exists>ss. collectSpecialties acc ds = Inr ss"
proof (induction ds arbitrary: acc)
  case Nil
  then show ?case by simp
next
  case (Cons d ds)
  then obtain ss where "specialtiesOf d = Inr ss"
    using specialtiesOf_plain [of d] by auto
  with Cons show ?case by (simp add: andThen_def)
qed

lemma collectSpecialties_inherited:
  "\<not> list_all plainDivision ds \<Longrightarrow> collectSpecialties acc ds = Inl TypeError"
proof (induction ds arbitrary: acc)
  case Nil
  then show ?case by simp
next
  case (Cons d ds)
  show ?case
  proof (cases "plainDivision d")
    case True
    then obtain ss where "specialtiesOf d = Inr ss"
      using specialtiesOf_plain [of d] by auto
    with Cons True show ?thesis by (simp add: andThen_def)
  next
    case False
    then show ?thesis by (simp add: andThen_def specialtiesOf_inherited)
  qed
qed

lemma getConsultants_plain:
  "list_all plainDivision ds \<Longrightarrow> \<exists>cs. getConsultantsForDivisions ds t = Inr cs"
  using collectSpecialties_plain [of ds "[]"]
  by (auto simp: getConsultantsForDivisions_def andThen_def)

lemma getConsultants_inherited:
  "\<not> list_all plainDivision ds \<Longrightarrow> getConsultantsForDivisions ds t = Inl TypeError"
  by (simp add: getConsultantsForDivisions_def andThen_def collectSpecialties_inherited)

lemma plain_optionalLine: "list_all isPlain (optionalLine label v)"
  by (simp add: optionalLine_def split: option.splits)

lemma plain_reportHeader: "list_all isPlain (reportHeader h a)"
  by (simp add: reportHeader_def)

lemma plain_briefSection: "list_all isPlain (briefSection a)"
  by (simp add: briefSection_def split: option.splits)

lemma plain_locationSection: "list_all isPlain (locationSection a)"
  by (simp add: locationSection_def plain_optionalLine split: option.splits)

lemma plain_projectSummary: "list_all isPlain (projectSummary a)"
  by (simp add: projectSummary_def)

lemma plain_tierSummary: "list_all isPlain (tierSummary title tierN)"
  by (auto simp: tierSummary_def list_all_iff)

lemma plain_summaryByTier: "list_all isPlain (summaryByTier a)"
  by (simp add: summaryByTier_def plain_tierSummary)

lemma plain_complianceSummary: "list_all isPlain (complianceSummary a)"
  by (simp add: complianceSummary_def plain_optionalLine split: option.splits)

lemma plain_recommendations: "list_all isPlain (recommendations a)"
  by (simp add: recommendations_def)

lemma plain_consultantsFor: "consultantsFor heading t tierN = Inr ps \<Longrightarrow> list_all isPlain ps"
  by (auto simp: consultantsFor_def andThen_def list_all_iff split: if_splits sum.splits)

lemma plain_consultantsAppendix: "consultantsAppendix a = Inr ps \<Longrightarrow> list_all isPlain ps"
  by (auto simp: consultantsAppendix_def andThen_def split: sum.splits dest!: plain_consultantsFor)

lemma plain_suppliersFor: "suppliersFor heading t loc tierN = Inr ps \<Longrightarrow> list_all isPlain ps"
  by (auto simp: suppliersFor_def andThen_def list_all_iff split: if_splits sum.splits)

lemma plain_nationalBlock: "list_all isPlain (nationalBlock sups)"
  by (auto simp: nationalBlock_def Let_def list_all_iff)

lemma plain_suppliersAppendix: "suppliersAppendix a = Inr ps \<Longrightarrow> list_all isPlain ps"
  by (auto simp: suppliersAppendix_def andThen_def plain_nationalBlock
      split: option.splits if_splits sum.splits dest!: plain_suppliersFor)

lemma markdown_structure:
  assumes "markdownPieces h a = Inr md"
  shows "\<exists>body consultants suppliers.
           materialsAnalysis h a = Inr body \<and> consultantsAppendix a = Inr consultants
           \<and> suppliersAppendix a = Inr suppliers
           \<and> md = (reportHeader h a @ briefSection a @ locationSection a @ projectSummary a)
                  @ body
                  @ (summaryByTier a @ complianceSummary a @ recommendations a
                     @ consultants @ suppliers @ [Lit ''**Report generated by SpecMate**\<newline>''])"
  using assms by (auto simp: markdownPieces_def andThen_def split: sum.splits)

lemma sectionsOf_plain: "list_all isPlain ps \<Longrightarrow> sectionsOf ps = []"
proof (induction ps)
  case Nil
  then show ?case by (simp add: sectionsOf_def)
next
  case (Cons p ps)
  then show ?case by (cases p) (simp_all add: sectionsOf_def)
qed

lemma mdTriplesFrom_plain: "list_all isPlain ps \<Longrightarrow> mdTriplesFrom cur ps = []"
proof (induction ps)
  case Nil
  then show ?case by simp
next
  case (Cons p ps)
  then show ?case by (cases p) simp_all
qed

lemma mdTriplesFrom_plain_append:
  "list_all isPlain ps \<Longrightarrow> mdTriplesFrom cur (ps @ qs) = mdTriplesFrom cur qs"
proof (induction ps)
  case Nil
  then show ?case by simp
next
  case (Cons p ps)
  then show ?case by (cases p) simp_all
qed


lemma sectionsOf_append [simp]: "sectionsOf (ps @ qs) = sectionsOf ps @ sectionsOf qs"
  by (simp add: sectionsOf_def)


lemma sectionsOf_tierBlock:
  "sectionsOf (tierBlock s al c b t) = map (\<lambda>m. (m, s, al, c)) (ofTier t b)"
  by (simp add: sectionsOf_def tierBlock_def Let_def comp_def)

lemma mdTriplesFrom_sections:
  "mdTriplesFrom (Some t) (map (\<lambda>m. MaterialSection m s al c) xs @ rest)
     = map (\<lambda>m. (divisionKey m, t, name m)) xs @ mdTriplesFrom (Some t) rest"
  by (induction xs) (simp_all add: divisionKey_def)

lemma tripleOf_ofTier: "map (\<lambda>m. (divisionKey m, t, name m)) (ofTier t b) = map tripleOf (ofTier t b)"
  by (simp add: ofTier_def tripleOf_def)

lemma mdTriplesFrom_tierBlock:
  "\<exists>cur'. mdTriplesFrom cur (tierBlock s al c b t @ rest)
     = map tripleOf (ofTier t b) @ mdTriplesFrom cur' rest"
proof (cases "ofTier t b = []")
  case True
  then show ?thesis by (auto simp: tierBlock_def)
next
  case False
  then have "mdTriplesFrom cur (tierBlock s al c b t @ rest)
     = map tripleOf (ofTier t b) @ mdTriplesFrom (Some t) rest"
    by (simp add: tierBlock_def Let_def mdTriplesFrom_sections tripleOf_ofTier)
  then show ?thesis by blast
qed

lemma divisionSections_structure:
  assumes "set keys \<subseteq> divisionKey ` set ms"
    and "divisionSections (sortedByTier (groupedByDivision ms)) s al c keys = Inr body"
    and "list_all isPlain rest"
  shows "sectionsOf body = map (\<lambda>m. (m, s, al, c)) (concat (map (\<lambda>k. inTierOrder (bucketOf ms k)) keys))
       \<and> mdTriplesFrom cur (body @ rest) = map tripleOf (concat (map (\<lambda>k. inTierOrder (bucketOf ms k)) keys))"
  using assms(1,2)
proof (induction keys arbitrary: body cur)
  case Nil
  then show ?case using assms(3) by (simp add: sectionsOf_def mdTriplesFrom_plain)
next
  case (Cons key keys)
  let ?b = "sortBy compareTiers (bucketOf ms key)"
  from Cons.prems have k: "key \<in> divisionKey ` set ms" by simp
  from divisionSection_ok [OF k, of s al c] obtain csiNum csiName where
    d: "divisionSection (sortedByTier (groupedByDivision ms)) s al c key =
             Inr (DivisionHeading csiNum csiName
                  # tierBlock s al c ?b Tier1 @ tierBlock s al c ?b Tier2 @ tierBlock s al c ?b Tier3
                  @ [Lit ''\<newline>''])" by blast
  with Cons.prems(2) obtain body' where
    b: "divisionSections (sortedByTier (groupedByDivision ms)) s al c keys = Inr body'"
       "body = (DivisionHeading csiNum csiName
                  # tierBlock s al c ?b Tier1 @ tierBlock s al c ?b Tier2 @ tierBlock s al c ?b Tier3
                  @ [Lit ''\<newline>'']) @ body'"
    by (auto simp: andThen_def split: sum.splits)
  from Cons.prems(1) have sub: "set keys \<subseteq> divisionKey ` set ms" by simp
  note IH = Cons.IH [OF sub b(1)]
  have sec: "sectionsOf body = map (\<lambda>m. (m, s, al, c)) (inTierOrder (bucketOf ms key)) @ sectionsOf body'"
  proof -
    have "sectionsOf [DivisionHeading csiNum csiName] = []" "sectionsOf [Lit ''\<newline>''] = []"
      by (simp_all add: sectionsOf_def)
    then have "sectionsOf (DivisionHeading csiNum csiName
                  # tierBlock s al c ?b Tier1 @ tierBlock s al c ?b Tier2 @ tierBlock s al c ?b Tier3
                  @ [Lit ''\<newline>''])
        = map (\<lambda>m. (m, s, al, c)) (inTierOrder (bucketOf ms key))"
      using sectionsOf_append [of "[DivisionHeading csiNum csiName]"]
      by (simp add: sectionsOf_tierBlock inTierOrder_def ofTier_sortBy)
    then show ?thesis by (simp only: b(2) sectionsOf_append)
  qed
  obtain c1 where t1: "mdTriplesFrom None (tierBlock s al c ?b Tier1 @ tierBlock s al c ?b Tier2 @ tierBlock s al c ?b Tier3 @ Lit ''\<newline>'' # body' @ rest)
       = map tripleOf (ofTier Tier1 ?b) @ mdTriplesFrom c1 (tierBlock s al c ?b Tier2 @ tierBlock s al c ?b Tier3 @ Lit ''\<newline>'' # body' @ rest)"
    using mdTriplesFrom_tierBlock by blast
  obtain c2 where t2: "mdTriplesFrom c1 (tierBlock s al c ?b Tier2 @ tierBlock s al c ?b Tier3 @ Lit ''\<newline>'' # body' @ rest)
       = map tripleOf (ofTier Tier2 ?b) @ mdTriplesFrom c2 (tierBlock s al c ?b Tier3 @ Lit ''\<newline>'' # body' @ rest)"
    using mdTriplesFrom_tierBlock by blast
  obtain c3 where t3: "mdTriplesFrom c2 (tierBlock s al c ?b Tier3 @ Lit ''\<newline>'' # body' @ rest)
       = map tripleOf (ofTier Tier3 ?b) @ mdTriplesFrom c3 (Lit ''\<newline>'' # body' @ rest)"
    using mdTriplesFrom_tierBlock by blast
  have "mdTriplesFrom cur (body @ rest)
        = map tripleOf (inTierOrder (bucketOf ms key)) @ mdTriplesFrom c3 (body' @ rest)"
    by (simp add: b(2) t1 t2 t3 inTierOrder_def ofTier_sortBy)
  with sec IH show ?case by simp
qed


lemma markdown_sections:
  assumes "markdownPieces h a = Inr md"
  shows "sectionsOf md
           = map (\<lambda>m. (m, includeSustainability a, includeAlternatives a, location a \<noteq> None))
               (divisionOrder h (materials a))"
    and "mdTriples md = map tripleOf (divisionOrder h (materials a))"
proof -
  from markdown_structure [OF assms] obtain body consultants suppliers where
    b: "materialsAnalysis h a = Inr body" and c: "consultantsAppendix a = Inr consultants"
    and s: "suppliersAppendix a = Inr suppliers"
    and md: "md = (reportHeader h a @ briefSection a @ locationSection a @ projectSummary a)
                  @ body
                  @ (summaryByTier a @ complianceSummary a @ recommendations a
                     @ consultants @ suppliers @ [Lit ''**Report generated by SpecMate**\<newline>''])"
    by blast
  let ?pre = "reportHeader h a @ briefSection a @ locationSection a @ projectSummary a"
  let ?post = "summaryByTier a @ complianceSummary a @ recommendations a
                     @ consultants @ suppliers @ [Lit ''**Report generated by SpecMate**\<newline>'']"
  have pre: "list_all isPlain ?pre"
    by (simp add: plain_reportHeader plain_briefSection plain_locationSection plain_projectSummary)
  have post: "list_all isPlain ?post"
    using plain_consultantsAppendix [OF c] plain_suppliersAppendix [OF s]
    by (simp add: plain_summaryByTier plain_complianceSummary plain_recommendations)
  have sub: "set (divisionKeys h (materials a)) \<subseteq> divisionKey ` set (materials a)"
    by (simp add: set_divisionKeys)
  note st = divisionSections_structure [OF sub b [unfolded materialsAnalysis_def] post]
  show "sectionsOf md
           = map (\<lambda>m. (m, includeSustainability a, includeAlternatives a, location a \<noteq> None))
               (divisionOrder h (materials a))"
  proof -
    have "sectionsOf md = sectionsOf ?pre @ sectionsOf body @ sectionsOf ?post"
      unfolding md by (simp only: sectionsOf_append)
    then show ?thesis
      by (simp only: sectionsOf_plain [OF pre] sectionsOf_plain [OF post] st divisionOrder_def append_Nil append_Nil2)
  qed
  show "mdTriples md = map tripleOf (divisionOrder h (materials a))"
    unfolding md mdTriples_def
    by (simp only: mdTriplesFrom_plain_append [OF pre] st divisionOrder_def)
qed

lemma cardsOf_append [simp]: "cardsOf (ps @ qs) = cardsOf ps @ cardsOf qs"
  by (simp add: cardsOf_def)

lemma cardsOf_Nil [simp]: "cardsOf [] = []"
  by (simp add: cardsOf_def)

lemma cardsOf_Cons [simp]: "cardsOf (b # bs) = blockCard b @ cardsOf bs"
  by (simp add: cardsOf_def)

lemma pdfTriples_cardsOf:
  "pdfTriples bs = map (\<lambda>(m, t, flags). (divisionKey m, t, name m)) (cardsOf bs)"
proof (induction bs)
  case Nil
  then show ?case by (simp add: pdfTriples_def cardsOf_def)
next
  case (Cons b bs)
  then show ?case by (cases b) (simp_all add: pdfTriples_def cardsOf_def divisionKey_def)
qed

lemma cardsOf_Ops: "cardsOf (map Op xs) = []"
  by (induction xs) (simp_all add: cardsOf_def)

lemma cardsOf_spaced_materials:
  "cardsOf (spaced (\<lambda>m. MaterialCard m t s al c) xs) = map (\<lambda>m. (m, t, s, al, c)) xs"
proof (cases xs)
  case Nil
  then show ?thesis by (simp add: cardsOf_def)
next
  case (Cons x ys)
  have "cardsOf (concat (map (\<lambda>y. [Op (AddSpacing 5), MaterialCard y t s al c]) ys)) = map (\<lambda>m. (m, t, s, al, c)) ys"
    by (induction ys) (simp_all add: cardsOf_def)
  then show ?thesis using Cons by (simp add: cardsOf_def)
qed

lemma cardsOf_spaced_consultants: "cardsOf (spaced ConsultantCard xs) = []"
proof (cases xs)
  case Nil
  then show ?thesis by (simp add: cardsOf_def)
next
  case (Cons x ys)
  have "cardsOf (concat (map (\<lambda>y. [Op (AddSpacing 5), ConsultantCard y]) ys)) = []"
    by (induction ys) (simp_all add: cardsOf_def)
  then show ?thesis using Cons by (simp add: cardsOf_def)
qed

lemma cardsOf_spaced_suppliers: "cardsOf (spaced SupplierCard xs) = []"
proof (cases xs)
  case Nil
  then show ?thesis by (simp add: cardsOf_def)
next
  case (Cons x ys)
  have "cardsOf (concat (map (\<lambda>y. [Op (AddSpacing 5), SupplierCard y]) ys)) = []"
    by (induction ys) (simp_all add: cardsOf_def)
  then show ?thesis using Cons by (simp add: cardsOf_def)
qed

lemma cardsOf_pdfCards:
  "cardsOf (pdfCards a heading t)
     = map (\<lambda>m. (m, t, includeSustainability a, includeAlternatives a, location a \<noteq> None)) (ofTier t (materials a))"
proof (cases "ofTier t (materials a) = []")
  case True
  then show ?thesis by (simp add: pdfCards_def cardsOf_def)
next
  case False
  with False show ?thesis
    by (simp add: pdfCards_def Let_def cardsOf_spaced_materials del: spaced.simps)
qed

lemma cardsOf_pdfMaterialCards:
  "cardsOf (pdfMaterialCards a)
     = map (\<lambda>m. (m, tier m, includeSustainability a, includeAlternatives a, location a \<noteq> None))
         (inTierOrder (materials a))"
  by (simp add: pdfMaterialCards_def cardsOf_pdfCards inTierOrder_def ofTier_def)


lemma cardsOf_map_none: "(\<And>x. blockCard (f x) = []) \<Longrightarrow> cardsOf (map f xs) = []"
  by (induction xs) simp_all

lemma blockCard_intentLine: "blockCard (intentLine l) = []"
  by (simp add: intentLine_def split: list.splits)

lemma cardsOf_optionalLabel: "cardsOf (optionalLabel label v) = []"
  by (simp add: optionalLabel_def split: option.splits)

lemma cardsOf_imageBlocks: "cardsOf (imageBlocks h a) = []"
  by (simp add: imageBlocks_def split: list.splits)

lemma cardsOf_pdfLocation: "cardsOf (pdfLocation a) = []"
  by (simp add: pdfLocation_def cardsOf_optionalLabel split: option.splits)

lemma cardsOf_pdfDate: "cardsOf (pdfDate h a) = []"
  by (simp add: pdfDate_def)

lemma cardsOf_pdfBrief: "cardsOf (pdfBrief a) = []"
  by (simp add: pdfBrief_def cardsOf_map_none blockCard_intentLine split: option.splits)

lemma cardsOf_pdfTierSummary: "cardsOf (pdfTierSummary title t tierN) = []"
  by (simp add: pdfTierSummary_def)

lemma cardsOf_pdfSummary: "cardsOf (pdfSummary a) = []"
  by (simp add: pdfSummary_def cardsOf_pdfTierSummary)

lemma cardsOf_pdfConsultantsFor: "pdfConsultantsFor heading t tierN = Inr bs \<Longrightarrow> cardsOf bs = []"
  by (auto simp: pdfConsultantsFor_def andThen_def cardsOf_spaced_consultants
      simp del: spaced.simps split: if_splits sum.splits)

lemma cardsOf_pdfConsultantsAppendix: "pdfConsultantsAppendix a = Inr bs \<Longrightarrow> cardsOf bs = []"
  by (auto simp: pdfConsultantsAppendix_def andThen_def split: sum.splits dest!: cardsOf_pdfConsultantsFor)

lemma cardsOf_pdfSuppliersFor: "pdfSuppliersFor heading t loc tierN = Inr bs \<Longrightarrow> cardsOf bs = []"
  by (auto simp: pdfSuppliersFor_def andThen_def cardsOf_spaced_suppliers
      simp del: spaced.simps split: if_splits sum.splits)

lemma cardsOf_pdfNationalBlock: "cardsOf (pdfNationalBlock sups) = []"
  by (simp add: pdfNationalBlock_def Let_def cardsOf_spaced_suppliers del: spaced.simps)

lemma cardsOf_pdfSuppliersAppendix: "pdfSuppliersAppendix a = Inr bs \<Longrightarrow> cardsOf bs = []"
  by (auto simp: pdfSuppliersAppendix_def andThen_def cardsOf_pdfNationalBlock
      split: option.splits if_splits sum.splits dest!: cardsOf_pdfSuppliersFor)

lemma pdf_structure:
  assumes "buildPDFDocument h a = Inr pdf"
  shows "\<exists>consultants suppliers.
           pdfConsultantsAppendix a = Inr consultants \<and> pdfSuppliersAppendix a = Inr suppliers
           \<and> pdf = [Op (DocText ''Material Feasibility Analysis Report'')]
                  @ imageBlocks h a @ pdfLocation a @ pdfDate h a @ pdfBrief a @ pdfSummary a
                  @ pdfMaterialCards a @ consultants @ suppliers"
  using assms by (auto simp: buildPDFDocument_def andThen_def split: sum.splits)

lemma pdf_cards:
  assumes "buildPDFDocument h a = Inr pdf"
  shows "cardsOf pdf
           = map (\<lambda>m. (m, tier m, includeSustainability a, includeAlternatives a, location a \<noteq> None))
               (inTierOrder (materials a))"
    and "pdfTriples pdf = map tripleOf (inTierOrder (materials a))"
proof -
  from pdf_structure [OF assms] obtain consultants suppliers where
    c: "pdfConsultantsAppendix a = Inr consultants" and s: "pdfSuppliersAppendix a = Inr suppliers"
    and pdf: "pdf = [Op (DocText ''Material Feasibility Analysis Report'')]
                  @ imageBlocks h a @ pdfLocation a @ pdfDate h a @ pdfBrief a @ pdfSummary a
                  @ pdfMaterialCards a @ consultants @ suppliers"
    by blast
  show cards: "cardsOf pdf
           = map (\<lambda>m. (m, tier m, includeSustainability a, includeAlternatives a, location a \<noteq> None))
               (inTierOrder (materials a))"
    unfolding pdf
    by (simp add: cardsOf_imageBlocks cardsOf_pdfLocation cardsOf_pdfDate cardsOf_pdfBrief cardsOf_pdfSummary
        cardsOf_pdfMaterialCards cardsOf_pdfConsultantsAppendix [OF c] cardsOf_pdfSuppliersAppendix [OF s])
  show "pdfTriples pdf = map tripleOf (inTierOrder (materials a))"
    by (simp add: pdfTriples_cardsOf cards tripleOf_def comp_def)
qed

lemma plainDivisions_ofTier: "plainDivisions ms \<Longrightarrow> plainDivisions (ofTier t ms)"
  by (simp add: plainDivisions_def ofTier_def list_all_iff)

lemma consultantsFor_plain:
  "plainDivisions ms \<Longrightarrow> \<exists>ps. consultantsFor heading t (ofTier t' ms) = Inr ps"
  using getConsultants_plain [OF plain_newSet [OF plainDivisions_ofTier], of ms t' t]
  by (auto simp: consultantsFor_def andThen_def)

lemma consultantsAppendix_plain:
  assumes "plainDivisions (materials a)"
  shows "\<exists>ps. consultantsAppendix a = Inr ps"
proof -
  obtain g y r where
    "consultantsFor ''### Green Consultants (Tier 1 Materials)\<newline>\<newline>'' Tier1 (ofTier Tier1 (materials a)) = Inr g"
    "consultantsFor ''### Yellow Consultants (Tier 2 Materials)\<newline>\<newline>'' Tier2 (ofTier Tier2 (materials a)) = Inr y"
    "consultantsFor ''### Red Consultants (Tier 3 Materials)\<newline>\<newline>'' Tier3 (ofTier Tier3 (materials a)) = Inr r"
    using consultantsFor_plain [OF assms] by metis
  then show ?thesis by (simp add: consultantsAppendix_def andThen_def)
qed

lemma suppliersFor_plain:
  "plainDivisions ms \<Longrightarrow> \<exists>ps. suppliersFor heading t loc (ofTier t' ms) = Inr ps"
  using getSuppliers_plain [OF plainDivisions_ofTier, of ms t' loc t]
  by (auto simp: suppliersFor_def andThen_def)

lemma suppliersOrNone_plain:
  "plainDivisions ms \<Longrightarrow> \<exists>ps. suppliersOrNone t loc (ofTier t' ms) = Inr ps"
  using getSuppliers_plain [OF plainDivisions_ofTier, of ms t' loc t]
  by (auto simp: suppliersOrNone_def)

lemma suppliersAppendix_plain:
  assumes "plainDivisions (materials a)"
  shows "\<exists>ps. suppliersAppendix a = Inr ps"
proof (cases "location a")
  case None
  then show ?thesis by (simp add: suppliersAppendix_def)
next
  case (Some loc)
  obtain g y a1 a2 where
    "suppliersFor ''### Green Suppliers (Tier 1 Materials)\<newline>\<newline>'' Tier1 loc (ofTier Tier1 (materials a)) = Inr g"
    "suppliersFor ''### Yellow Suppliers (Tier 2 Materials)\<newline>\<newline>'' Tier2 loc (ofTier Tier2 (materials a)) = Inr y"
    "suppliersOrNone Tier1 loc (ofTier Tier1 (materials a)) = Inr a1"
    "suppliersOrNone Tier2 loc (ofTier Tier2 (materials a)) = Inr a2"
    using suppliersFor_plain [OF assms] suppliersOrNone_plain [OF assms] by metis
  with Some show ?thesis by (simp add: suppliersAppendix_def andThen_def)
qed

lemma markdown_returns:
  assumes "plainDivisions (materials a)"
  shows "\<exists>md. markdownPieces h a = Inr md"
proof -
  obtain body where "materialsAnalysis h a = Inr body"
    using materialsAnalysis_partition [of h a] by blast
  moreover obtain c where "consultantsAppendix a = Inr c"
    using consultantsAppendix_plain [OF assms] by blast
  moreover obtain s where "suppliersAppendix a = Inr s"
    using suppliersAppendix_plain [OF assms] by blast
  ultimately show ?thesis by (simp add: markdownPieces_def andThen_def)
qed

lemma pdfConsultantsFor_plain:
  "plainDivisions ms \<Longrightarrow> \<exists>ps. pdfConsultantsFor heading t (ofTier t' ms) = Inr ps"
  using getConsultants_plain [OF plain_newSet [OF plainDivisions_ofTier], of ms t' t]
  by (auto simp: pdfConsultantsFor_def andThen_def)

lemma pdfConsultantsAppendix_plain:
  assumes "plainDivisions (materials a)"
  shows "\<exists>ps. pdfConsultantsAppendix a = Inr ps"
proof -
  obtain g y r where
    "pdfConsultantsFor ''Green Consultants (Tier 1 Materials)'' Tier1 (ofTier Tier1 (materials a)) = Inr g"
    "pdfConsultantsFor ''Yellow Consultants (Tier 2 Materials)'' Tier2 (ofTier Tier2 (materials a)) = Inr y"
    "pdfConsultantsFor ''Red Consultants (Tier 3 Materials)'' Tier3 (ofTier Tier3 (materials a)) = Inr r"
    using pdfConsultantsFor_plain [OF assms] by metis
  then show ?thesis by (simp add: pdfConsultantsAppendix_def andThen_def)
qed

lemma pdfSuppliersFor_plain:
  "plainDivisions ms \<Longrightarrow> \<exists>ps. pdfSuppliersFor heading t loc (ofTier t' ms) = Inr ps"
  using getSuppliers_plain [OF plainDivisions_ofTier, of ms t' loc t]
  by (auto simp: pdfSuppliersFor_def andThen_def)

lemma pdfSuppliersAppendix_plain:
  assumes "plainDivisions (materials a)"
  shows "\<exists>ps. pdfSuppliersAppendix a = Inr ps"
proof (cases "location a")
  case None
  then show ?thesis by (simp add: pdfSuppliersAppendix_def)
next
  case (Some loc)
  obtain g y a1 a2 where
    "pdfSuppliersFor ''Green Suppliers (Tier 1 Materials)'' Tier1 loc (ofTier Tier1 (materials a)) = Inr g"
    "pdfSuppliersFor ''Yellow Suppliers (Tier 2 Materials)'' Tier2 loc (ofTier Tier2 (materials a)) = Inr y"
    "suppliersOrNone Tier1 loc (ofTier Tier1 (materials a)) = Inr a1"
    "suppliersOrNone Tier2 loc (ofTier Tier2 (materials a)) = Inr a2"
    using pdfSuppliersFor_plain [OF assms] suppliersOrNone_plain [OF assms] by metis
  with Some show ?thesis by (simp add: pdfSuppliersAppendix_def andThen_def)
qed

lemma pdf_returns:
  assumes "plainDivisions (materials a)"
  shows "\<exists>pdf. buildPDFDocument h a = Inr pdf"
proof -
  obtain c where "pdfConsultantsAppendix a = Inr c"
    using pdfConsultantsAppendix_plain [OF assms] by blast
  moreover obtain s where "pdfSuppliersAppendix a = Inr s"
    using pdfSuppliersAppendix_plain [OF assms] by blast
  ultimately show ?thesis by (simp add: buildPDFDocument_def andThen_def)
qed





lemma twoDivisions_plain: "plainDivisions (materials twoDivisions)"
  by code_simp


lemma chunks_without_alternatives:
  "''- **Alternative Materials:**\<newline>'' \<notin> set (materialSectionChunks m s False c)"
  by (auto simp: materialSectionChunks_def split: option.splits)

lemma section_ignores_alternatives:
  "generateMaterialSection m s False c = generateMaterialSection (m\<lparr>alternatives := x\<rparr>) s False c"
  by (simp add: generateMaterialSection_def materialSectionChunks_def split: option.splits)

lemma chunks_without_sustainability:
  "(''- **Sustainability Notes:** '' @ notes @ ''\<newline>'') \<notin> set (materialSectionChunks m False al c)"
  by (auto simp: materialSectionChunks_def alternativeChunks_def split: option.splits)

lemma section_ignores_sustainability:
  "generateMaterialSection m False al c = generateMaterialSection (m\<lparr>sustainabilityNotes := x\<rparr>) False al c"
  by (simp add: generateMaterialSection_def materialSectionChunks_def split: option.splits)

lemma card_without_alternatives:
  "DocText ''Alternative Materials:'' \<notin> set (addMaterialCard s False hl m t)"
  by (auto simp: addMaterialCard_def split: option.splits)

lemma card_ignores_alternatives:
  "addMaterialCard s False hl m t = addMaterialCard s False hl (m\<lparr>alternatives := x\<rparr>) t"
  by (simp add: addMaterialCard_def split: option.splits)

lemma card_without_sustainability:
  "AddLabelValue ''Sustainability Notes: '' notes \<notin> set (addMaterialCard False al hl m t)"
  by (auto simp: addMaterialCard_def alternativeOps_def split: option.splits)

lemma card_ignores_sustainability:
  "addMaterialCard False al hl m t = addMaterialCard False al hl (m\<lparr>sustainabilityNotes := x\<rparr>) t"
  by (simp add: addMaterialCard_def split: option.splits)

lemma twoDivisions_names:
  "map name (divisionOrder h (materials twoDivisions)) = [''Slab'', ''Roof Membrane'']"
  "map name (inTierOrder (materials twoDivisions)) = [''Roof Membrane'', ''Slab'']"
  by code_simp+

lemma mdHeadings_Nil [simp]: "mdHeadings [] = []"
  by (simp add: mdHeadings_def)

lemma mdHeadings_Cons [simp]: "mdHeadings (p # ps) = pieceHeading p @ mdHeadings ps"
  by (simp add: mdHeadings_def)

lemma mdHeadings_append [simp]: "mdHeadings (ps @ qs) = mdHeadings ps @ mdHeadings qs"
  by (simp add: mdHeadings_def)

lemma supplierEntries_Nil [simp]: "supplierEntries [] = []"
  by (simp add: supplierEntries_def)

lemma supplierEntries_Cons [simp]: "supplierEntries (p # ps) = pieceSupplier p @ supplierEntries ps"
  by (simp add: supplierEntries_def)

lemma supplierEntries_append [simp]: "supplierEntries (ps @ qs) = supplierEntries ps @ supplierEntries qs"
  by (simp add: supplierEntries_def)

lemma literal_optionalLine: "list_all isLiteral (optionalLine label v)"
  by (simp add: optionalLine_def split: option.splits)

lemma literal_reportHeader: "list_all isLiteral (reportHeader h a)"
  by (simp add: reportHeader_def)

lemma literal_briefSection: "list_all isLiteral (briefSection a)"
  by (simp add: briefSection_def split: option.splits)

lemma literal_locationSection: "list_all isLiteral (locationSection a)"
  by (simp add: locationSection_def literal_optionalLine split: option.splits)

lemma literal_projectSummary: "list_all isLiteral (projectSummary a)"
  by (simp add: projectSummary_def)

lemma literal_tierSummary: "list_all isLiteral (tierSummary title tierN)"
  by (auto simp: tierSummary_def list_all_iff)

lemma literal_summaryByTier: "list_all isLiteral (summaryByTier a)"
  by (simp add: summaryByTier_def literal_tierSummary)

lemma literal_complianceSummary: "list_all isLiteral (complianceSummary a)"
  by (simp add: complianceSummary_def literal_optionalLine split: option.splits)

lemma literal_recommendations: "list_all isLiteral (recommendations a)"
  by (simp add: recommendations_def)

lemma supplierEntries_literal: "list_all isLiteral ps \<Longrightarrow> supplierEntries ps = []"
proof (induction ps)
  case Nil
  then show ?case by simp
next
  case (Cons p ps)
  then show ?case by (cases p) simp_all
qed

lemma supplierEntries_sections: "supplierEntries (map (\<lambda>m. MaterialSection m s al c) xs) = []"
  by (induction xs) simp_all

lemma mdHeadings_sections: "mdHeadings (map (\<lambda>m. MaterialSection m s al c) xs) = []"
  by (induction xs) simp_all

lemma body_tierBlock:
  "supplierEntries (tierBlock s al c b t) = []" "mdHeadings (tierBlock s al c b t) = []"
  by (simp_all add: tierBlock_def Let_def supplierEntries_sections mdHeadings_sections)

lemma body_divisionSection:
  assumes "divisionSection g s al c key = Inr ps"
  shows "supplierEntries ps = []" "mdHeadings ps = []"
proof -
  from assms obtain b n d where
    "ps = DivisionHeading n d # tierBlock s al c b Tier1 @ tierBlock s al c b Tier2 @ tierBlock s al c b Tier3
            @ [Lit ''\<newline>'']"
    by (auto simp: divisionSection_def split: option.splits list.splits)
  then show "supplierEntries ps = []" "mdHeadings ps = []"
    by (simp_all add: body_tierBlock isHeading2_def)
qed

lemma body_divisionSections:
  "divisionSections g s al c keys = Inr body \<Longrightarrow> supplierEntries body = [] \<and> mdHeadings body = []"
proof (induction keys arbitrary: body)
  case Nil
  then show ?case by simp
next
  case (Cons key keys)
  then obtain ps qs where "divisionSection g s al c key = Inr ps" "divisionSections g s al c keys = Inr qs"
    "body = ps @ qs"
    by (auto simp: andThen_def split: sum.splits)
  with Cons.IH [of qs] body_divisionSection [of g s al c key ps] show ?case by simp
qed


lemma mdHeadings_optionalLine:
  "label \<in> {''**Jurisdiction:** '', ''**Building Code:** '', ''**Applicable Codes:** ''} \<Longrightarrow>
   mdHeadings (optionalLine label v) = []"
  by (auto simp: optionalLine_def isHeading2_def split: option.splits)

lemma mdHeadings_reportHeader: "mdHeadings (reportHeader h a) = []"
  by (simp add: reportHeader_def isHeading2_def)

lemma mdHeadings_briefSection:
  "mdHeadings (briefSection a) = (if brief a = None then [] else [''## Project Brief\<newline>\<newline>''])"
  by (simp add: briefSection_def isHeading2_def split: option.splits)

lemma mdHeadings_locationSection: "mdHeadings (locationSection a) = []"
  by (simp add: locationSection_def isHeading2_def mdHeadings_optionalLine split: option.splits)

lemma mdHeadings_projectSummary:
  "mdHeadings (projectSummary a) =
     [''## Project Summary\<newline>\<newline>'', ''## Materials Analysis by CSI MasterFormat Division\<newline>\<newline>'']"
  by (simp add: projectSummary_def isHeading2_def)

lemma mdHeadings_names: "mdHeadings (map (\<lambda>(key, names). Lit (''- '' @ key @ '': '' @ join '', '' names @ ''\<newline>'')) g) = []"
  by (induction g) (auto simp: isHeading2_def)

lemma mdHeadings_tierSummary:
  assumes "title \<in> {''### Tier 1: Readily Available'', ''### Tier 2: Requires Customization'', ''### Tier 3: Custom Development''}"
  shows "mdHeadings (tierSummary title tierN) = []"
proof (cases "length tierN > 0")
  case False
  then show ?thesis by (simp add: tierSummary_def)
next
  case True
  have h: "\<not> isHeading2 (title @ '' ('' @ decimal (length tierN) @ '' materials)\<newline>'')"
    using assms by (auto simp: isHeading2_def)
  have n: "\<not> isHeading2 ''\<newline>''"
    by (simp add: isHeading2_def)
  show ?thesis
    by (simp only: tierSummary_def True if_True mdHeadings_Cons mdHeadings_append mdHeadings_Nil
        pieceHeading.simps h n if_False mdHeadings_names append_Nil)
qed

lemma mdHeadings_summaryByTier: "mdHeadings (summaryByTier a) = [''## Summary by Tier\<newline>\<newline>'']"
  by (simp add: summaryByTier_def mdHeadings_tierSummary) (simp add: isHeading2_def)

lemma mdHeadings_complianceSummary:
  "mdHeadings (complianceSummary a) =
     (if location a = None then [] else [''## Building Code Compliance Summary\<newline>\<newline>''])"
  by (simp add: complianceSummary_def mdHeadings_optionalLine split: option.splits)
     (simp add: isHeading2_def)

lemma mdHeadings_recommendations: "mdHeadings (recommendations a) = [''## Recommendations\<newline>\<newline>'']"
  by (simp add: recommendations_def isHeading2_def)


lemma mdHeadings_consultantEntries: "mdHeadings (map ConsultantEntry cs) = []"
  by (induction cs) simp_all

lemma supplierEntries_consultantEntries: "supplierEntries (map ConsultantEntry cs) = []"
  by (induction cs) simp_all

lemma mdHeadings_supplierEntries: "mdHeadings (map SupplierEntry cs) = []"
  by (induction cs) simp_all

lemma consultantsFor_observed:
  assumes "consultantsFor heading t tierN = Inr ps" and "\<not> isHeading2 heading"
  shows "mdHeadings ps = []" "supplierEntries ps = []"
proof -
  have n: "\<not> isHeading2 ''\<newline>''" by (simp add: isHeading2_def)
  from assms(1) have "ps = [] \<or> (\<exists>cs. ps = Lit heading # map ConsultantEntry cs @ [Lit ''\<newline>''])"
    by (auto simp: consultantsFor_def andThen_def split: if_splits sum.splits)
  then show "mdHeadings ps = []" "supplierEntries ps = []"
    using assms(2) n
    by (auto simp: mdHeadings_consultantEntries supplierEntries_consultantEntries)
qed

lemma consultantsAppendix_observed:
  assumes "consultantsAppendix a = Inr ps"
  shows "mdHeadings ps = [''## Appendix: Elite Consultants by Tier\<newline>\<newline>'']" "supplierEntries ps = []"
proof -
  from assms obtain g y r where
    g: "consultantsFor ''### Green Consultants (Tier 1 Materials)\<newline>\<newline>'' Tier1 (ofTier Tier1 (materials a)) = Inr g"
    and y: "consultantsFor ''### Yellow Consultants (Tier 2 Materials)\<newline>\<newline>'' Tier2 (ofTier Tier2 (materials a)) = Inr y"
    and r: "consultantsFor ''### Red Consultants (Tier 3 Materials)\<newline>\<newline>'' Tier3 (ofTier Tier3 (materials a)) = Inr r"
    and ps: "ps = [Lit ''---\<newline>\<newline>'',
                  Lit ''## Appendix: Elite Consultants by Tier\<newline>\<newline>'',
                  Lit ''The following consultants are recommended for the disciplines governing the identified materials in this analysis.\<newline>\<newline>'']
                 @ g @ y @ r"
    by (auto simp: consultantsAppendix_def andThen_def split: sum.splits)
  have h: "\<not> isHeading2 ''### Green Consultants (Tier 1 Materials)\<newline>\<newline>''"
          "\<not> isHeading2 ''### Yellow Consultants (Tier 2 Materials)\<newline>\<newline>''"
          "\<not> isHeading2 ''### Red Consultants (Tier 3 Materials)\<newline>\<newline>''"
    by (simp_all add: isHeading2_def)
  note o = consultantsFor_observed [OF g h(1)] consultantsFor_observed [OF y h(2)] consultantsFor_observed [OF r h(3)]
  show "mdHeadings ps = [''## Appendix: Elite Consultants by Tier\<newline>\<newline>'']"
    unfolding ps by (simp add: o) (simp add: isHeading2_def)
  show "supplierEntries ps = []"
    unfolding ps by (simp add: o)
qed

lemma suppliersFor_observed:
  assumes "suppliersFor heading t loc tierN = Inr ps" and "\<not> isHeading2 heading"
  shows "mdHeadings ps = []"
proof -
  have n: "\<not> isHeading2 ''\<newline>''"
    "\<not> isHeading2 ''*No local suppliers found. Consider national suppliers listed below.\<newline>\<newline>''"
    by (simp_all add: isHeading2_def)
  from assms(1) have "ps = [] \<or> (\<exists>cs. ps = Lit heading # map SupplierEntry cs @ [Lit ''\<newline>''])
      \<or> ps = [Lit heading, Lit ''*No local suppliers found. Consider national suppliers listed below.\<newline>\<newline>'', Lit ''\<newline>'']"
    by (auto simp: suppliersFor_def andThen_def split: if_splits sum.splits)
  then show "mdHeadings ps = []"
    using assms(2) n by (auto simp: mdHeadings_supplierEntries)
qed

lemma mdHeadings_nationalBlock: "mdHeadings (nationalBlock sups) = []"
proof -
  have n: "\<not> isHeading2 ''\<newline>''"
    "\<not> isHeading2 ''### National Suppliers (High-Quality Options)\<newline>\<newline>''"
    "\<not> isHeading2 ''The following national suppliers offer high-quality products and may provide better options when local suppliers are limited:\<newline>\<newline>''"
    by (simp_all add: isHeading2_def)
  then show ?thesis
    by (simp add: nationalBlock_def Let_def mdHeadings_supplierEntries)
qed

lemma suppliersAppendix_observed:
  assumes "suppliersAppendix a = Inr ps"
  shows "mdHeadings ps = (if location a \<noteq> None \<and> hasTier12 a
                          then [''## Appendix: Material Suppliers by Tier\<newline>\<newline>''] else [])"
    and "\<not> (location a \<noteq> None \<and> hasTier12 a) \<Longrightarrow> ps = []"
proof -
  show "\<not> (location a \<noteq> None \<and> hasTier12 a) \<Longrightarrow> ps = []"
    using assms by (auto simp: suppliersAppendix_def hasTier12_def split: option.splits if_splits)
  show "mdHeadings ps = (if location a \<noteq> None \<and> hasTier12 a
                          then [''## Appendix: Material Suppliers by Tier\<newline>\<newline>''] else [])"
  proof (cases "location a \<noteq> None \<and> hasTier12 a")
    case False
    with assms have "ps = []"
      by (auto simp: suppliersAppendix_def hasTier12_def split: option.splits if_splits)
    with False show ?thesis by simp
  next
    case True
    then obtain loc where loc: "location a = Some loc" by auto
    from True have c: "length (ofTier Tier1 (materials a)) > 0 \<or> length (ofTier Tier2 (materials a)) > 0"
      by (simp add: hasTier12_def)
    from assms loc c obtain g y all1 all2 where
      g: "suppliersFor ''### Green Suppliers (Tier 1 Materials)\<newline>\<newline>'' Tier1 loc (ofTier Tier1 (materials a)) = Inr g"
      and y: "suppliersFor ''### Yellow Suppliers (Tier 2 Materials)\<newline>\<newline>'' Tier2 loc (ofTier Tier2 (materials a)) = Inr y"
      and ps: "ps = [Lit ''---\<newline>\<newline>'',
                            Lit ''## Appendix: Material Suppliers by Tier\<newline>\<newline>'',
                            Lit ''The following suppliers are recommended for Tier 1 and Tier 2 materials. Suppliers are prioritized by proximity to the project location, with national suppliers listed when local options are limited.\<newline>\<newline>'']
                           @ g @ y @ nationalBlock (all1 @ all2)"
      unfolding suppliersAppendix_def andThen_def
      by (simp split: sum.splits) blast
    have h: "\<not> isHeading2 ''### Green Suppliers (Tier 1 Materials)\<newline>\<newline>''"
            "\<not> isHeading2 ''### Yellow Suppliers (Tier 2 Materials)\<newline>\<newline>''"
      by (simp_all add: isHeading2_def)
    have "mdHeadings ps = [''## Appendix: Material Suppliers by Tier\<newline>\<newline>'']"
      unfolding ps
      by (simp add: suppliersFor_observed [OF g h(1)] suppliersFor_observed [OF y h(2)] mdHeadings_nationalBlock)
         (simp add: isHeading2_def)
    with True show ?thesis by simp
  qed
qed


lemma markdown_headings:
  assumes "markdownPieces h a = Inr md"
  shows "mdHeadings md =
           (if brief a = None then [] else [''## Project Brief\<newline>\<newline>''])
           @ [''## Project Summary\<newline>\<newline>'',
              ''## Materials Analysis by CSI MasterFormat Division\<newline>\<newline>'',
              ''## Summary by Tier\<newline>\<newline>'']
           @ (if location a = None then [] else [''## Building Code Compliance Summary\<newline>\<newline>''])
           @ [''## Recommendations\<newline>\<newline>'', ''## Appendix: Elite Consultants by Tier\<newline>\<newline>'']
           @ (if location a \<noteq> None \<and> hasTier12 a
              then [''## Appendix: Material Suppliers by Tier\<newline>\<newline>''] else [])"
    and "\<not> (location a \<noteq> None \<and> hasTier12 a) \<Longrightarrow> supplierEntries md = []"
proof -
  from markdown_structure [OF assms] obtain body consultants suppliers where
    b: "materialsAnalysis h a = Inr body" and c: "consultantsAppendix a = Inr consultants"
    and s: "suppliersAppendix a = Inr suppliers"
    and md: "md = (reportHeader h a @ briefSection a @ locationSection a @ projectSummary a)
                  @ body
                  @ (summaryByTier a @ complianceSummary a @ recommendations a
                     @ consultants @ suppliers @ [Lit ''**Report generated by SpecMate**\<newline>''])"
    by blast
  note bo = body_divisionSections [OF b [unfolded materialsAnalysis_def]]
  have f: "\<not> isHeading2 ''**Report generated by SpecMate**\<newline>''"
    by (simp add: isHeading2_def)
  show "mdHeadings md =
           (if brief a = None then [] else [''## Project Brief\<newline>\<newline>''])
           @ [''## Project Summary\<newline>\<newline>'',
              ''## Materials Analysis by CSI MasterFormat Division\<newline>\<newline>'',
              ''## Summary by Tier\<newline>\<newline>'']
           @ (if location a = None then [] else [''## Building Code Compliance Summary\<newline>\<newline>''])
           @ [''## Recommendations\<newline>\<newline>'', ''## Appendix: Elite Consultants by Tier\<newline>\<newline>'']
           @ (if location a \<noteq> None \<and> hasTier12 a
              then [''## Appendix: Material Suppliers by Tier\<newline>\<newline>''] else [])"
    unfolding md
    by (simp only: mdHeadings_append mdHeadings_reportHeader mdHeadings_briefSection mdHeadings_locationSection
        mdHeadings_projectSummary bo mdHeadings_summaryByTier mdHeadings_complianceSummary
        mdHeadings_recommendations consultantsAppendix_observed(1) [OF c] suppliersAppendix_observed(1) [OF s]
        mdHeadings_Cons mdHeadings_Nil pieceHeading.simps f if_False append_Nil append_Nil2 append_Cons append_assoc)
  show "supplierEntries md = []" if "\<not> (location a \<noteq> None \<and> hasTier12 a)"
  proof -
    from suppliersAppendix_observed(2) [OF s that] have "suppliers = []" .
    then show ?thesis
      unfolding md
      by (simp add: supplierEntries_literal literal_reportHeader literal_briefSection literal_locationSection
          literal_projectSummary literal_summaryByTier literal_complianceSummary literal_recommendations
          bo consultantsAppendix_observed(2) [OF c])
  qed
qed

lemma pdfHeadings_Nil [simp]: "pdfHeadings [] = []"
  by (simp add: pdfHeadings_def)

lemma pdfHeadings_Cons [simp]: "pdfHeadings (b # bs) = blockHeading b @ pdfHeadings bs"
  by (simp add: pdfHeadings_def)

lemma pdfHeadings_append [simp]: "pdfHeadings (ps @ qs) = pdfHeadings ps @ pdfHeadings qs"
  by (simp add: pdfHeadings_def)

lemma supplierCards_Nil [simp]: "supplierCards [] = []"
  by (simp add: supplierCards_def)

lemma supplierCards_Cons [simp]: "supplierCards (b # bs) = blockSupplier b @ supplierCards bs"
  by (simp add: supplierCards_def)

lemma supplierCards_append [simp]: "supplierCards (ps @ qs) = supplierCards ps @ supplierCards qs"
  by (simp add: supplierCards_def)

lemma blockHeading_intentLine: "blockHeading (intentLine l) = []" "blockSupplier (intentLine l) = []"
  by (simp_all add: intentLine_def split: list.splits)

lemma observed_intentLines:
  "pdfHeadings (map intentLine ls) = []" "supplierCards (map intentLine ls) = []"
  by (induction ls) (simp_all add: blockHeading_intentLine)

lemma observed_optionalLabel:
  "pdfHeadings (optionalLabel label v) = []" "supplierCards (optionalLabel label v) = []"
  by (simp_all add: optionalLabel_def split: option.splits)

lemma observed_imageBlocks:
  "pdfHeadings (imageBlocks h a) = []" "supplierCards (imageBlocks h a) = []"
  by (simp_all add: imageBlocks_def split: list.splits)

lemma observed_pdfLocation:
  "pdfHeadings (pdfLocation a) = (if location a = None then [] else [''Location''])"
  "supplierCards (pdfLocation a) = []"
  by (simp_all add: pdfLocation_def observed_optionalLabel split: option.splits)

lemma observed_pdfDate:
  "pdfHeadings (pdfDate h a) = [''Date of Report'']" "supplierCards (pdfDate h a) = []"
  by (simp_all add: pdfDate_def)

lemma observed_pdfBrief:
  "pdfHeadings (pdfBrief a) = [''Notes from the Brief'']" "supplierCards (pdfBrief a) = []"
  by (simp_all add: pdfBrief_def observed_intentLines split: option.splits)

lemma observed_pdfTierSummary:
  "pdfHeadings (pdfTierSummary title t tierN) = [title @ decimal (length tierN) @ '' materials'']"
  "supplierCards (pdfTierSummary title t tierN) = []"
  by (simp_all add: pdfTierSummary_def)

lemma observed_pdfSummary:
  "pdfHeadings (pdfSummary a) =
     [''Summary of Materials Analysis'',
      ''Tier 1 (Green - Readily Available): '' @ decimal (length (ofTier Tier1 (materials a))) @ '' materials'',
      ''Tier 2 (Yellow - Requires Customization): '' @ decimal (length (ofTier Tier2 (materials a))) @ '' materials'',
      ''Tier 3 (Red - Custom Development): '' @ decimal (length (ofTier Tier3 (materials a))) @ '' materials'']"
  "supplierCards (pdfSummary a) = []"
  by (simp_all add: pdfSummary_def observed_pdfTierSummary)

lemma observed_spaced_materials:
  "pdfHeadings (spaced (\<lambda>m. MaterialCard m t s al c) xs) = []"
  "supplierCards (spaced (\<lambda>m. MaterialCard m t s al c) xs) = []"
proof -
  have "pdfHeadings (concat (map (\<lambda>y. [Op (AddSpacing 5), MaterialCard y t s al c]) ys)) = []
      \<and> supplierCards (concat (map (\<lambda>y. [Op (AddSpacing 5), MaterialCard y t s al c]) ys)) = []" for ys
    by (induction ys) simp_all
  then show "pdfHeadings (spaced (\<lambda>m. MaterialCard m t s al c) xs) = []"
    "supplierCards (spaced (\<lambda>m. MaterialCard m t s al c) xs) = []"
    by (cases xs; simp)+
qed

lemma observed_spaced_consultants:
  "pdfHeadings (spaced ConsultantCard xs) = []" "supplierCards (spaced ConsultantCard xs) = []"
proof -
  have "pdfHeadings (concat (map (\<lambda>y. [Op (AddSpacing 5), ConsultantCard y]) ys)) = []
      \<and> supplierCards (concat (map (\<lambda>y. [Op (AddSpacing 5), ConsultantCard y]) ys)) = []" for ys
    by (induction ys) simp_all
  then show "pdfHeadings (spaced ConsultantCard xs) = []" "supplierCards (spaced ConsultantCard xs) = []"
    by (cases xs; simp)+
qed

lemma observed_spaced_suppliers: "pdfHeadings (spaced SupplierCard xs) = []"
proof -
  have "pdfHeadings (concat (map (\<lambda>y. [Op (AddSpacing 5), SupplierCard y]) ys)) = []" for ys
    by (induction ys) simp_all
  then show ?thesis by (cases xs) simp_all
qed

lemma observed_pdfCards:
  "pdfHeadings (pdfCards a heading t) = (if ofTier t (materials a) = [] then [] else [heading])"
  "supplierCards (pdfCards a heading t) = []"
  by (simp_all add: pdfCards_def Let_def observed_spaced_materials del: spaced.simps)

lemma observed_pdfMaterialCards:
  "pdfHeadings (pdfMaterialCards a) =
     (if ofTier Tier1 (materials a) = [] then [] else [''Tier 1: Readily Available Materials''])
     @ (if ofTier Tier2 (materials a) = [] then [] else [''Tier 2: Requires Customization''])
     @ (if ofTier Tier3 (materials a) = [] then [] else [''Tier 3: Custom Development Required''])"
  "supplierCards (pdfMaterialCards a) = []"
  by (simp_all add: pdfMaterialCards_def observed_pdfCards)


lemma pdfConsultantsFor_observed:
  assumes "pdfConsultantsFor heading t tierN = Inr bs"
  shows "pdfHeadings bs = (if tierN = [] then [] else [heading])" "supplierCards bs = []"
proof -
  from assms have "(tierN = [] \<and> bs = []) \<or> (tierN \<noteq> [] \<and> (\<exists>cs. bs =
      [Op (AddSpacing 10), Op (AddText heading 20 True (tierColors t)), Op (AddSpacing 3)]
       @ spaced ConsultantCard cs @ [Op (AddSpacing 5)]))"
    by (auto simp: pdfConsultantsFor_def andThen_def split: if_splits sum.splits)
  then show "pdfHeadings bs = (if tierN = [] then [] else [heading])" "supplierCards bs = []"
    by (auto simp: observed_spaced_consultants simp del: spaced.simps)
qed

lemma pdfConsultantsAppendix_observed:
  assumes "pdfConsultantsAppendix a = Inr bs"
  shows "pdfHeadings bs =
           [''Appendix: Elite Consultants by Tier'']
           @ (if ofTier Tier1 (materials a) = [] then [] else [''Green Consultants (Tier 1 Materials)''])
           @ (if ofTier Tier2 (materials a) = [] then [] else [''Yellow Consultants (Tier 2 Materials)''])
           @ (if ofTier Tier3 (materials a) = [] then [] else [''Red Consultants (Tier 3 Materials)''])"
    and "supplierCards bs = []"
proof -
  from assms obtain g y r where
    g: "pdfConsultantsFor ''Green Consultants (Tier 1 Materials)'' Tier1 (ofTier Tier1 (materials a)) = Inr g"
    and y: "pdfConsultantsFor ''Yellow Consultants (Tier 2 Materials)'' Tier2 (ofTier Tier2 (materials a)) = Inr y"
    and r: "pdfConsultantsFor ''Red Consultants (Tier 3 Materials)'' Tier3 (ofTier Tier3 (materials a)) = Inr r"
    and bs: "bs = [Op (AddSpacing 10),
                  Op (AddText ''Appendix: Elite Consultants by Tier'' 24 True black),
                  Op (AddSpacing 3),
                  Op (AddText ''The following consultants are recommended for the disciplines governing the identified materials in this analysis.'' 11 False black),
                  Op (AddSpacing 5)]
                 @ g @ y @ r"
    by (auto simp: pdfConsultantsAppendix_def andThen_def split: sum.splits)
  note o = pdfConsultantsFor_observed [OF g] pdfConsultantsFor_observed [OF y] pdfConsultantsFor_observed [OF r]
  show "pdfHeadings bs =
           [''Appendix: Elite Consultants by Tier'']
           @ (if ofTier Tier1 (materials a) = [] then [] else [''Green Consultants (Tier 1 Materials)''])
           @ (if ofTier Tier2 (materials a) = [] then [] else [''Yellow Consultants (Tier 2 Materials)''])
           @ (if ofTier Tier3 (materials a) = [] then [] else [''Red Consultants (Tier 3 Materials)''])"
    unfolding bs by (simp add: o)
  show "supplierCards bs = []"
    unfolding bs by (simp add: o)
qed

lemma pdfSuppliersFor_observed:
  assumes "pdfSuppliersFor heading t loc tierN = Inr bs"
  shows "pdfHeadings bs = (if tierN = [] then [] else [heading])"
proof -
  from assms have "(tierN = [] \<and> bs = []) \<or> (tierN \<noteq> [] \<and> (\<exists>mid. bs =
      [Op (AddSpacing 10), Op (AddText heading 20 True (tierColors t)), Op (AddSpacing 3)]
       @ mid @ [Op (AddSpacing 5)] \<and> pdfHeadings mid = []))"
    by (auto simp: pdfSuppliersFor_def andThen_def observed_spaced_suppliers
        simp del: spaced.simps split: if_splits sum.splits)
  then show ?thesis by auto
qed

lemma pdfNationalBlock_observed:
  "pdfHeadings (pdfNationalBlock sups) =
     (if filter (\<lambda>s. rating s = National) sups = [] then [] else [''National Suppliers (High-Quality Options)''])"
  by (simp add: pdfNationalBlock_def Let_def observed_spaced_suppliers del: spaced.simps)

lemma pdfSuppliersAppendix_observed:
  assumes "pdfSuppliersAppendix a = Inr bs"
  shows "\<not> (location a \<noteq> None \<and> hasTier12 a) \<Longrightarrow> bs = []"
    and "location a \<noteq> None \<and> hasTier12 a \<Longrightarrow>
         \<exists>nat. pdfHeadings bs =
           [''Appendix: Material Suppliers by Tier'']
           @ (if ofTier Tier1 (materials a) = [] then [] else [''Green Suppliers (Tier 1 Materials)''])
           @ (if ofTier Tier2 (materials a) = [] then [] else [''Yellow Suppliers (Tier 2 Materials)''])
           @ nat
           \<and> (nat = [] \<or> nat = [''National Suppliers (High-Quality Options)''])"
proof -
  show "\<not> (location a \<noteq> None \<and> hasTier12 a) \<Longrightarrow> bs = []"
    using assms by (auto simp: pdfSuppliersAppendix_def hasTier12_def split: option.splits if_splits)
  assume c: "location a \<noteq> None \<and> hasTier12 a"
  then obtain loc where loc: "location a = Some loc" by auto
  from c have c': "length (ofTier Tier1 (materials a)) > 0 \<or> length (ofTier Tier2 (materials a)) > 0"
    by (simp add: hasTier12_def)
  from assms loc c' obtain g y all1 all2 where
    g: "pdfSuppliersFor ''Green Suppliers (Tier 1 Materials)'' Tier1 loc (ofTier Tier1 (materials a)) = Inr g"
    and y: "pdfSuppliersFor ''Yellow Suppliers (Tier 2 Materials)'' Tier2 loc (ofTier Tier2 (materials a)) = Inr y"
    and bs: "bs = [Op (AddSpacing 10),
                            Op (AddText ''Appendix: Material Suppliers by Tier'' 24 True black),
                            Op (AddSpacing 3),
                            Op (AddText ''The following suppliers are recommended for Tier 1 and Tier 2 materials. Suppliers are prioritized by proximity to the project location, with national suppliers listed when local options are limited.'' 11 False black),
                            Op (AddSpacing 5)]
                           @ g @ y @ pdfNationalBlock (all1 @ all2)"
    unfolding pdfSuppliersAppendix_def andThen_def
    by (simp split: sum.splits) blast
  show "\<exists>nat. pdfHeadings bs =
           [''Appendix: Material Suppliers by Tier'']
           @ (if ofTier Tier1 (materials a) = [] then [] else [''Green Suppliers (Tier 1 Materials)''])
           @ (if ofTier Tier2 (materials a) = [] then [] else [''Yellow Suppliers (Tier 2 Materials)''])
           @ nat
           \<and> (nat = [] \<or> nat = [''National Suppliers (High-Quality Options)''])"
    unfolding bs
    by (rule exI [of _ "pdfHeadings (pdfNationalBlock (all1 @ all2))"])
       (simp add: pdfSuppliersFor_observed [OF g] pdfSuppliersFor_observed [OF y] pdfNationalBlock_observed)
qed


lemma mdHeadings_member: "x \<in> set (mdHeadings md) \<longleftrightarrow> Lit x \<in> set md \<and> isHeading2 x"
proof (induction md)
  case Nil
  then show ?case by simp
next
  case (Cons p md)
  then show ?case by (cases p) auto
qed

lemma blockHeading_member: "x \<in> set (blockHeading b) \<longleftrightarrow> (\<exists>fs c. b = Op (AddText x fs True c))"
  by (induction b rule: blockHeading.induct) auto

lemma pdfHeadings_member:
  "x \<in> set (pdfHeadings pdf) \<longleftrightarrow> (\<exists>fs c. Op (AddText x fs True c) \<in> set pdf)"
  by (induction pdf) (auto simp: blockHeading_member)

lemma pdf_headings:
  assumes "buildPDFDocument h a = Inr pdf"
  shows "\<exists>sup. pdfHeadings pdf =
           (if location a = None then [] else [''Location''])
           @ [''Date of Report'', ''Notes from the Brief'', ''Summary of Materials Analysis'',
              ''Tier 1 (Green - Readily Available): '' @ decimal (length (ofTier Tier1 (materials a))) @ '' materials'',
              ''Tier 2 (Yellow - Requires Customization): '' @ decimal (length (ofTier Tier2 (materials a))) @ '' materials'',
              ''Tier 3 (Red - Custom Development): '' @ decimal (length (ofTier Tier3 (materials a))) @ '' materials'']
           @ (if ofTier Tier1 (materials a) = [] then [] else [''Tier 1: Readily Available Materials''])
           @ (if ofTier Tier2 (materials a) = [] then [] else [''Tier 2: Requires Customization''])
           @ (if ofTier Tier3 (materials a) = [] then [] else [''Tier 3: Custom Development Required''])
           @ [''Appendix: Elite Consultants by Tier'']
           @ (if ofTier Tier1 (materials a) = [] then [] else [''Green Consultants (Tier 1 Materials)''])
           @ (if ofTier Tier2 (materials a) = [] then [] else [''Yellow Consultants (Tier 2 Materials)''])
           @ (if ofTier Tier3 (materials a) = [] then [] else [''Red Consultants (Tier 3 Materials)''])
           @ sup
         \<and> (if location a \<noteq> None \<and> hasTier12 a
            then \<exists>nat. sup = [''Appendix: Material Suppliers by Tier'']
                   @ (if ofTier Tier1 (materials a) = [] then [] else [''Green Suppliers (Tier 1 Materials)''])
                   @ (if ofTier Tier2 (materials a) = [] then [] else [''Yellow Suppliers (Tier 2 Materials)''])
                   @ nat
                   \<and> (nat = [] \<or> nat = [''National Suppliers (High-Quality Options)''])
            else sup = [])"
    and "\<not> (location a \<noteq> None \<and> hasTier12 a) \<Longrightarrow> supplierCards pdf = []"
proof -
  from pdf_structure [OF assms] obtain consultants suppliers where
    c: "pdfConsultantsAppendix a = Inr consultants" and s: "pdfSuppliersAppendix a = Inr suppliers"
    and pdf: "pdf = [Op (DocText ''Material Feasibility Analysis Report'')]
                  @ imageBlocks h a @ pdfLocation a @ pdfDate h a @ pdfBrief a @ pdfSummary a
                  @ pdfMaterialCards a @ consultants @ suppliers"
    by blast
  have sup: "if location a \<noteq> None \<and> hasTier12 a
            then \<exists>nat. pdfHeadings suppliers = [''Appendix: Material Suppliers by Tier'']
                   @ (if ofTier Tier1 (materials a) = [] then [] else [''Green Suppliers (Tier 1 Materials)''])
                   @ (if ofTier Tier2 (materials a) = [] then [] else [''Yellow Suppliers (Tier 2 Materials)''])
                   @ nat
                   \<and> (nat = [] \<or> nat = [''National Suppliers (High-Quality Options)''])
            else pdfHeadings suppliers = []"
  proof (cases "location a \<noteq> None \<and> hasTier12 a")
    case True
    with pdfSuppliersAppendix_observed(2) [OF s True] show ?thesis by simp
  next
    case False
    with pdfSuppliersAppendix_observed(1) [OF s False] show ?thesis by simp
  qed
  have "pdfHeadings pdf =
           (if location a = None then [] else [''Location''])
           @ [''Date of Report'', ''Notes from the Brief'', ''Summary of Materials Analysis'',
              ''Tier 1 (Green - Readily Available): '' @ decimal (length (ofTier Tier1 (materials a))) @ '' materials'',
              ''Tier 2 (Yellow - Requires Customization): '' @ decimal (length (ofTier Tier2 (materials a))) @ '' materials'',
              ''Tier 3 (Red - Custom Development): '' @ decimal (length (ofTier Tier3 (materials a))) @ '' materials'']
           @ (if ofTier Tier1 (materials a) = [] then [] else [''Tier 1: Readily Available Materials''])
           @ (if ofTier Tier2 (materials a) = [] then [] else [''Tier 2: Requires Customization''])
           @ (if ofTier Tier3 (materials a) = [] then [] else [''Tier 3: Custom Development Required''])
           @ [''Appendix: Elite Consultants by Tier'']
           @ (if ofTier Tier1 (materials a) = [] then [] else [''Green Consultants (Tier 1 Materials)''])
           @ (if ofTier Tier2 (materials a) = [] then [] else [''Yellow Consultants (Tier 2 Materials)''])
           @ (if ofTier Tier3 (materials a) = [] then [] else [''Red Consultants (Tier 3 Materials)''])
           @ pdfHeadings suppliers"
    unfolding pdf
    by (simp only: pdfHeadings_append pdfHeadings_Cons pdfHeadings_Nil blockHeading.simps observed_imageBlocks
        observed_pdfLocation observed_pdfDate observed_pdfBrief observed_pdfSummary observed_pdfMaterialCards
        pdfConsultantsAppendix_observed(1) [OF c] append_Nil append_Nil2 append_Cons append_assoc)
  with sup show "\<exists>sup. pdfHeadings pdf =
           (if location a = None then [] else [''Location''])
           @ [''Date of Report'', ''Notes from the Brief'', ''Summary of Materials Analysis'',
              ''Tier 1 (Green - Readily Available): '' @ decimal (length (ofTier Tier1 (materials a))) @ '' materials'',
              ''Tier 2 (Yellow - Requires Customization): '' @ decimal (length (ofTier Tier2 (materials a))) @ '' materials'',
              ''Tier 3 (Red - Custom Development): '' @ decimal (length (ofTier Tier3 (materials a))) @ '' materials'']
           @ (if ofTier Tier1 (materials a) = [] then [] else [''Tier 1: Readily Available Materials''])
           @ (if ofTier Tier2 (materials a) = [] then [] else [''Tier 2: Requires Customization''])
           @ (if ofTier Tier3 (materials a) = [] then [] else [''Tier 3: Custom Development Required''])
           @ [''Appendix: Elite Consultants by Tier'']
           @ (if ofTier Tier1 (materials a) = [] then [] else [''Green Consultants (Tier 1 Materials)''])
           @ (if ofTier Tier2 (materials a) = [] then [] else [''Yellow Consultants (Tier 2 Materials)''])
           @ (if ofTier Tier3 (materials a) = [] then [] else [''Red Consultants (Tier 3 Materials)''])
           @ sup
         \<and> (if location a \<noteq> None \<and> hasTier12 a
            then \<exists>nat. sup = [''Appendix: Material Suppliers by Tier'']
                   @ (if ofTier Tier1 (materials a) = [] then [] else [''Green Suppliers (Tier 1 Materials)''])
                   @ (if ofTier Tier2 (materials a) = [] then [] else [''Yellow Suppliers (Tier 2 Materials)''])
                   @ nat
                   \<and> (nat = [] \<or> nat = [''National Suppliers (High-Quality Options)''])
            else sup = [])"
    by (intro exI [of _ "pdfHeadings suppliers"] conjI)
  show "supplierCards pdf = []" if "\<not> (location a \<noteq> None \<and> hasTier12 a)"
  proof -
    from pdfSuppliersAppendix_observed(1) [OF s that] have "suppliers = []" .
    then show ?thesis
      unfolding pdf
      by (simp add: observed_imageBlocks observed_pdfLocation observed_pdfDate observed_pdfBrief
          observed_pdfSummary observed_pdfMaterialCards pdfConsultantsAppendix_observed(2) [OF c])
  qed
qed


lemma mem_optional: "x \<in> set (if c then [] else [y]) \<longleftrightarrow> \<not> c \<and> x = y"
  by simp

lemma samples_plain: "plainDivisions (materials oneMaterial)" "plainDivisions (materials tier3Only)"
  by code_simp+

lemma samples_tiers: "hasTier12 oneMaterial" "\<not> hasTier12 tier3Only"
  by code_simp+

text \<open>The renderers return exactly when no division name is inherited; what the list of
  consultants looks like when one is returned.\<close>

lemma consultantsFor_inherited:
  assumes "m \<in> set ms" and "\<not> plainDivision (csiDivision m)"
  shows "consultantsFor heading t (ofTier (tier m) ms) = Inl TypeError"
    and "pdfConsultantsFor heading t (ofTier (tier m) ms) = Inl TypeError"
proof -
  have in_t: "m \<in> set (ofTier (tier m) ms)"
    using assms(1) by (simp add: ofTier_def)
  then have "\<not> list_all plainDivision (newSet (map csiDivision (ofTier (tier m) ms)))"
    using assms(2) by (auto simp: list_all_iff set_newSet)
  then have "getConsultantsForDivisions (newSet (map csiDivision (ofTier (tier m) ms))) t = Inl TypeError"
    by (rule getConsultants_inherited)
  moreover have "length (ofTier (tier m) ms) > 0"
    using in_t by (cases "ofTier (tier m) ms") auto
  ultimately show "consultantsFor heading t (ofTier (tier m) ms) = Inl TypeError"
    and "pdfConsultantsFor heading t (ofTier (tier m) ms) = Inl TypeError"
    by (simp_all add: consultantsFor_def pdfConsultantsFor_def andThen_def)
qed

lemma consultants_raise:
  assumes "\<not> plainDivisions (materials a)"
  shows "consultantsAppendix a = Inl TypeError" and "pdfConsultantsAppendix a = Inl TypeError"
proof -
  from assms obtain m where m: "m \<in> set (materials a)" "\<not> plainDivision (csiDivision m)"
    by (auto simp: plainDivisions_def list_all_iff)
  note f = consultantsFor_inherited [OF m]
  show "consultantsAppendix a = Inl TypeError"
  proof (cases "consultantsAppendix a")
    case (Inl e)
    then show ?thesis by (cases e) simp
  next
    case (Inr ps)
    then show ?thesis
      using f(1) [of _ "tier m"]
      by (cases "tier m") (auto simp: consultantsAppendix_def andThen_def split: sum.splits)
  qed
  show "pdfConsultantsAppendix a = Inl TypeError"
  proof (cases "pdfConsultantsAppendix a")
    case (Inl e)
    then show ?thesis by (cases e) simp
  next
    case (Inr ps)
    then show ?thesis
      using f(2) [of _ "tier m"]
      by (cases "tier m") (auto simp: pdfConsultantsAppendix_def andThen_def split: sum.splits)
  qed
qed

lemma consultants_return_plain:
  "consultantsAppendix a = Inr c \<Longrightarrow> plainDivisions (materials a)"
  "pdfConsultantsAppendix a = Inr d \<Longrightarrow> plainDivisions (materials a)"
  using consultants_raise [of a] by auto

lemma renderers_raise:
  assumes "\<not> plainDivisions (materials a)"
  shows "markdownPieces h a = Inl TypeError" and "buildPDFDocument h a = Inl TypeError"
proof -
  obtain body where "materialsAnalysis h a = Inr body"
    using materialsAnalysis_partition [of h a] by blast
  then show "markdownPieces h a = Inl TypeError"
    by (simp add: markdownPieces_def andThen_def consultants_raise(1) [OF assms])
  show "buildPDFDocument h a = Inl TypeError"
    by (simp add: buildPDFDocument_def andThen_def consultants_raise(2) [OF assms])
qed

lemma renderers_return_iff:
  "(\<exists>md. markdownPieces h a = Inr md) \<longleftrightarrow> plainDivisions (materials a)"
  "(\<exists>pdf. buildPDFDocument h a = Inr pdf) \<longleftrightarrow> plainDivisions (materials a)"
proof -
  show "(\<exists>md. markdownPieces h a = Inr md) \<longleftrightarrow> plainDivisions (materials a)"
  proof (cases "plainDivisions (materials a)")
    case True
    then show ?thesis using markdown_returns [of a h] by simp
  next
    case False
    then show ?thesis using renderers_raise(1) [of a h] by simp
  qed
  show "(\<exists>pdf. buildPDFDocument h a = Inr pdf) \<longleftrightarrow> plainDivisions (materials a)"
  proof (cases "plainDivisions (materials a)")
    case True
    then show ?thesis using pdf_returns [of a h] by simp
  next
    case False
    then show ?thesis using renderers_raise(2) [of a h] by simp
  qed
qed

lemma distinct_collectSpecialties:
  "collectSpecialties acc ds = Inr ss \<Longrightarrow> distinct acc \<Longrightarrow> distinct ss"
proof (induction ds arbitrary: acc)
  case Nil
  then show ?case by simp
next
  case (Cons d ds)
  then show ?case
    by (auto simp: andThen_def distinct_foldl_setAdd split: sum.splits)
qed

lemma length_firstIndexed: "length (firstIndexed n xs) \<le> n"
  by (simp add: firstIndexed_def)

lemma consultants_when_returned:
  assumes "getConsultantsForDivisions ds t = Inr cs"
  shows "length cs \<le> (case t of Tier1 \<Rightarrow> 3 | Tier2 \<Rightarrow> 4 | Tier3 \<Rightarrow> 5)"
    and "t = Tier1 \<Longrightarrow> list_all (\<lambda>c. firm c = specialty c @ '' Associates'' \<and> disciplines c = [specialty c]) cs"
    and "t = Tier2 \<Longrightarrow> list_all (\<lambda>c. \<exists>s. firm c = s @ '' Custom Solutions'' \<and> disciplines c = [s, ''Custom Fabrication'']) cs"
    and "t = Tier3 \<Longrightarrow> list_all (\<lambda>c. \<exists>s. firm c = s @ '' Innovation Lab''
            \<and> disciplines c = [s, ''Materials R&D'', ''Innovation Consulting'']) cs"
    and "\<exists>ss. collectSpecialties [] ds = Inr ss \<and> distinct ss \<and> length cs = min (length ss) (case t of Tier1 \<Rightarrow> 3 | Tier2 \<Rightarrow> 4 | Tier3 \<Rightarrow> 5)"
proof -
  from assms obtain ss where ss: "collectSpecialties [] ds = Inr ss"
    by (cases "collectSpecialties [] ds") (auto simp: getConsultantsForDivisions_def andThen_def)
  then have d: "distinct ss" using distinct_collectSpecialties [of "[]" ds ss] by simp
  from assms ss have cs: "cs = (if t = Tier1 then map (\<lambda>(index, spec). tier1Consultant index spec) (firstIndexed 3 ss) else [])
           @ (if t = Tier2 then map (\<lambda>(index, spec). tier2Consultant index spec) (firstIndexed 4 ss) else [])
           @ (if t = Tier3 then map (\<lambda>(index, spec). tier3Consultant index spec) (firstIndexed 5 ss) else [])"
    by (simp add: getConsultantsForDivisions_def andThen_def)
  show "length cs \<le> (case t of Tier1 \<Rightarrow> 3 | Tier2 \<Rightarrow> 4 | Tier3 \<Rightarrow> 5)"
    unfolding cs by (cases t) (simp_all add: length_firstIndexed)
  show "t = Tier1 \<Longrightarrow> list_all (\<lambda>c. firm c = specialty c @ '' Associates'' \<and> disciplines c = [specialty c]) cs"
    unfolding cs by (auto simp: list_all_iff tier1Consultant_def)
  show "t = Tier2 \<Longrightarrow> list_all (\<lambda>c. \<exists>s. firm c = s @ '' Custom Solutions'' \<and> disciplines c = [s, ''Custom Fabrication'']) cs"
    unfolding cs by (auto simp: list_all_iff tier2Consultant_def)
  show "t = Tier3 \<Longrightarrow> list_all (\<lambda>c. \<exists>s. firm c = s @ '' Innovation Lab''
            \<and> disciplines c = [s, ''Materials R&D'', ''Innovation Consulting'']) cs"
    unfolding cs by (auto simp: list_all_iff tier3Consultant_def)
  show "\<exists>ss. collectSpecialties [] ds = Inr ss \<and> distinct ss \<and> length cs = min (length ss) (case t of Tier1 \<Rightarrow> 3 | Tier2 \<Rightarrow> 4 | Tier3 \<Rightarrow> 5)"
    using ss d unfolding cs by (cases t) (auto simp: firstIndexed_def)
qed


text \<open>The division numbers along the markdown body.\<close>

lemma numericKeys_newSet: "numericKeys (newSet xs) = numericKeys xs"
  by (simp add: numericKeys_def list_all_iff set_newSet)





text \<open>What a report takes from the host.\<close>

lemma consultantEntries_Nil [simp]: "consultantEntries [] = []"
  by (simp add: consultantEntries_def)

lemma consultantEntries_Cons [simp]: "consultantEntries (p # ps) = pieceConsultant p @ consultantEntries ps"
  by (simp add: consultantEntries_def)

lemma consultantEntries_append [simp]: "consultantEntries (ps @ qs) = consultantEntries ps @ consultantEntries qs"
  by (simp add: consultantEntries_def)

lemma consultantEntries_literal: "list_all isLiteral ps \<Longrightarrow> consultantEntries ps = []"
proof (induction ps)
  case Nil
  then show ?case by simp
next
  case (Cons p ps)
  then show ?case by (cases p) simp_all
qed

lemma consultantEntries_sections: "consultantEntries (map (\<lambda>m. MaterialSection m s al c) xs) = []"
  by (induction xs) simp_all

lemma consultantEntries_divisionSection:
  assumes "divisionSection g s al c key = Inr ps"
  shows "consultantEntries ps = []"
proof -
  from assms obtain b n d where
    "ps = DivisionHeading n d # tierBlock s al c b Tier1 @ tierBlock s al c b Tier2 @ tierBlock s al c b Tier3
            @ [Lit ''\<newline>'']"
    by (auto simp: divisionSection_def split: option.splits list.splits)
  then show ?thesis
    by (simp add: tierBlock_def Let_def consultantEntries_sections)
qed

lemma consultantEntries_divisionSections:
  "divisionSections g s al c keys = Inr body \<Longrightarrow> consultantEntries body = []"
proof (induction keys arbitrary: body)
  case Nil
  then show ?case by simp
next
  case (Cons key keys)
  then obtain ps qs where "divisionSection g s al c key = Inr ps" "divisionSections g s al c keys = Inr qs"
    "body = ps @ qs"
    by (auto simp: andThen_def split: sum.splits)
  with Cons.IH [of qs] consultantEntries_divisionSection [of g s al c key ps] show ?case by simp
qed

lemma entries_of_report:
  assumes "markdownPieces h a = Inr md"
  shows "\<exists>consultants suppliers. consultantsAppendix a = Inr consultants \<and> suppliersAppendix a = Inr suppliers
           \<and> consultantEntries md = consultantEntries consultants @ consultantEntries suppliers
           \<and> supplierEntries md = supplierEntries suppliers"
proof -
  from markdown_structure [OF assms] obtain body consultants suppliers where
    b: "materialsAnalysis h a = Inr body" and c: "consultantsAppendix a = Inr consultants"
    and s: "suppliersAppendix a = Inr suppliers"
    and md: "md = (reportHeader h a @ briefSection a @ locationSection a @ projectSummary a)
                  @ body
                  @ (summaryByTier a @ complianceSummary a @ recommendations a
                     @ consultants @ suppliers @ [Lit ''**Report generated by SpecMate**\<newline>''])"
    by blast
  note bo = body_divisionSections [OF b [unfolded materialsAnalysis_def]]
  note bc = consultantEntries_divisionSections [OF b [unfolded materialsAnalysis_def]]
  have 1: "consultantEntries md = consultantEntries consultants @ consultantEntries suppliers"
    unfolding md
    by (simp add: consultantEntries_literal literal_reportHeader literal_briefSection literal_locationSection
          literal_projectSummary literal_summaryByTier literal_complianceSummary literal_recommendations bc)
  have 2: "supplierEntries md = supplierEntries suppliers"
    unfolding md
    by (simp add: supplierEntries_literal literal_reportHeader literal_briefSection literal_locationSection
          literal_projectSummary literal_summaryByTier literal_complianceSummary literal_recommendations
          bo consultantsAppendix_observed(2) [OF c])
  from c s 1 2 show ?thesis by blast
qed

lemma entries_host:
  assumes "markdownPieces h1 a = Inr md1" and "markdownPieces h2 a = Inr md2"
  shows "consultantEntries md1 = consultantEntries md2" and "supplierEntries md1 = supplierEntries md2"
  using entries_of_report [OF assms(1)] entries_of_report [OF assms(2)] by auto

lemma divisionKeys_host:
  "numericKeys (newSet (map divisionKey ms)) \<Longrightarrow> divisionKeys h1 ms = divisionKeys h2 ms"
  by (simp add: divisionKeys_numeric)

lemma divisionKeys_agree:
  assumes "numericKeys (map divisionKey ms) \<or> sortKeys h1 = sortKeys h2"
  shows "divisionKeys h1 ms = divisionKeys h2 ms"
  using assms
proof (elim disjE)
  assume "numericKeys (map divisionKey ms)"
  then have "numericKeys (newSet (map divisionKey ms))"
    by (simp add: numericKeys_newSet)
  then show ?thesis
    by (rule divisionKeys_host)
next
  assume "sortKeys h1 = sortKeys h2"
  then show ?thesis
    by (simp add: divisionKeys_def Let_def cong: if_cong)
qed

lemma getSuppliers_arguments:
  "map csiDivision ms = map csiDivision ms' \<Longrightarrow> jurisdiction loc = jurisdiction loc'
   \<Longrightarrow> getSuppliersForMaterials ms loc t = getSuppliersForMaterials ms' loc' t"
  by (simp only: getSuppliersForMaterials_def regionOf_def)

lemma markdownPieces_agree:
  assumes "toLocaleString h1 (timestamp a) = toLocaleString h2 (timestamp a)"
    and "divisionKeys h1 (materials a) = divisionKeys h2 (materials a)"
  shows "markdownPieces h1 a = markdownPieces h2 a"
  using assms by (simp add: markdownPieces_def materialsAnalysis_def reportHeader_def)

lemma markdownPieces_host_error:
  assumes "markdownPieces h1 a = Inl e"
  shows "markdownPieces h2 a = Inl e"
proof -
  obtain b1 where "materialsAnalysis h1 a = Inr b1"
    using materialsAnalysis_partition [of h1 a] by blast
  moreover obtain b2 where "materialsAnalysis h2 a = Inr b2"
    using materialsAnalysis_partition [of h2 a] by blast
  ultimately show ?thesis
    using assms by (auto simp: markdownPieces_def andThen_def split: sum.splits)
qed

section \<open>Claims\<close>

subsection \<open>C1: parity of the two renderings\<close>




subsection \<open>C2: grouping of divisions 03, 07, 07, 21\<close>




subsection \<open>C3: tier order within a division\<close>



subsection \<open>C4: conditional sections\<close>

text \<open>
  C4, as the code has it. Whenever the renderers return a document: the suppliers appendix
  appears, in the markdown and in the PDF alike, if and only if the analysis has a location and
  at least one material of tier 1 or tier 2; without a location, or with tier-3 materials only,
  there is no supplier entry in either output. The building-code compliance summary appears in
  the markdown if and only if a location is present; the PDF has no such section at all, with
  or without a location (it prints the building code in its location block).
\<close>

theorem conditional_sections:
  assumes "markdownPieces h a = Inr md" and "buildPDFDocument h a = Inr pdf"
  shows "(Lit ''## Appendix: Material Suppliers by Tier\<newline>\<newline>'' \<in> set md
            \<longleftrightarrow> location a \<noteq> None \<and> hasTier12 a)
       \<and> ((\<exists>fs c. Op (AddText ''Appendix: Material Suppliers by Tier'' fs True c) \<in> set pdf)
            \<longleftrightarrow> location a \<noteq> None \<and> hasTier12 a)
       \<and> (Lit ''## Building Code Compliance Summary\<newline>\<newline>'' \<in> set md \<longleftrightarrow> location a \<noteq> None)
       \<and> (\<forall>fs c. Op (AddText ''Building Code Compliance Summary'' fs True c) \<notin> set pdf)
       \<and> (\<not> (location a \<noteq> None \<and> hasTier12 a) \<longrightarrow> supplierEntries md = [] \<and> supplierCards pdf = [])"
proof -
  note mh = markdown_headings(1) [OF assms(1)]
  have h2: "isHeading2 ''## Appendix: Material Suppliers by Tier\<newline>\<newline>''"
    "isHeading2 ''## Building Code Compliance Summary\<newline>\<newline>''"
    by (simp_all add: isHeading2_def)
  have m1: "Lit ''## Appendix: Material Suppliers by Tier\<newline>\<newline>'' \<in> set md
            \<longleftrightarrow> location a \<noteq> None \<and> hasTier12 a"
  proof -
    have "Lit ''## Appendix: Material Suppliers by Tier\<newline>\<newline>'' \<in> set md
          \<longleftrightarrow> ''## Appendix: Material Suppliers by Tier\<newline>\<newline>'' \<in> set (mdHeadings md)"
      using h2 by (simp add: mdHeadings_member)
    also have "\<dots> \<longleftrightarrow> location a \<noteq> None \<and> hasTier12 a"
      unfolding mh by (simp add: mem_optional del: set_append)
    finally show ?thesis .
  qed
  have m2: "Lit ''## Building Code Compliance Summary\<newline>\<newline>'' \<in> set md \<longleftrightarrow> location a \<noteq> None"
  proof -
    have "Lit ''## Building Code Compliance Summary\<newline>\<newline>'' \<in> set md
          \<longleftrightarrow> ''## Building Code Compliance Summary\<newline>\<newline>'' \<in> set (mdHeadings md)"
      using h2 by (simp add: mdHeadings_member)
    also have "\<dots> \<longleftrightarrow> location a \<noteq> None"
      unfolding mh by (simp add: mem_optional)
    finally show ?thesis .
  qed
  from pdf_headings(1) [OF assms(2)] obtain sup where
    ph: "pdfHeadings pdf =
           (if location a = None then [] else [''Location''])
           @ [''Date of Report'', ''Notes from the Brief'', ''Summary of Materials Analysis'',
              ''Tier 1 (Green - Readily Available): '' @ decimal (length (ofTier Tier1 (materials a))) @ '' materials'',
              ''Tier 2 (Yellow - Requires Customization): '' @ decimal (length (ofTier Tier2 (materials a))) @ '' materials'',
              ''Tier 3 (Red - Custom Development): '' @ decimal (length (ofTier Tier3 (materials a))) @ '' materials'']
           @ (if ofTier Tier1 (materials a) = [] then [] else [''Tier 1: Readily Available Materials''])
           @ (if ofTier Tier2 (materials a) = [] then [] else [''Tier 2: Requires Customization''])
           @ (if ofTier Tier3 (materials a) = [] then [] else [''Tier 3: Custom Development Required''])
           @ [''Appendix: Elite Consultants by Tier'']
           @ (if ofTier Tier1 (materials a) = [] then [] else [''Green Consultants (Tier 1 Materials)''])
           @ (if ofTier Tier2 (materials a) = [] then [] else [''Yellow Consultants (Tier 2 Materials)''])
           @ (if ofTier Tier3 (materials a) = [] then [] else [''Red Consultants (Tier 3 Materials)''])
           @ sup"
    and sup: "if location a \<noteq> None \<and> hasTier12 a
            then \<exists>nat. sup = [''Appendix: Material Suppliers by Tier'']
                   @ (if ofTier Tier1 (materials a) = [] then [] else [''Green Suppliers (Tier 1 Materials)''])
                   @ (if ofTier Tier2 (materials a) = [] then [] else [''Yellow Suppliers (Tier 2 Materials)''])
                   @ nat
                   \<and> (nat = [] \<or> nat = [''National Suppliers (High-Quality Options)''])
            else sup = []"
    by blast
  have s1: "''Appendix: Material Suppliers by Tier'' \<in> set sup \<longleftrightarrow> location a \<noteq> None \<and> hasTier12 a"
    using sup by (auto split: if_splits)
  have s2: "''Building Code Compliance Summary'' \<notin> set sup"
    using sup by (auto split: if_splits)
  have p1: "''Appendix: Material Suppliers by Tier'' \<in> set (pdfHeadings pdf) \<longleftrightarrow> location a \<noteq> None \<and> hasTier12 a"
    unfolding ph by (simp add: mem_optional s1)
  have p2: "''Building Code Compliance Summary'' \<notin> set (pdfHeadings pdf)"
    unfolding ph by (simp add: mem_optional s2)
  have p1': "(\<exists>fs c. Op (AddText ''Appendix: Material Suppliers by Tier'' fs True c) \<in> set pdf)
            \<longleftrightarrow> location a \<noteq> None \<and> hasTier12 a"
    using p1 by (simp only: pdfHeadings_member)
  have p2': "\<forall>fs c. Op (AddText ''Building Code Compliance Summary'' fs True c) \<notin> set pdf"
    using p2 by (simp only: pdfHeadings_member) blast
  have e: "\<not> (location a \<noteq> None \<and> hasTier12 a) \<longrightarrow> supplierEntries md = [] \<and> supplierCards pdf = []"
    using markdown_headings(2) [OF assms(1)] pdf_headings(2) [OF assms(2)] by blast
  from m1 p1' m2 p2' e show ?thesis by (intro conjI)
qed

theorem conditional_sections_witness:
  "\<exists>md pdf md3 pdf3.
      markdownPieces sampleHost oneMaterial = Inr md \<and> buildPDFDocument sampleHost oneMaterial = Inr pdf
      \<and> markdownPieces sampleHost tier3Only = Inr md3 \<and> buildPDFDocument sampleHost tier3Only = Inr pdf3
      \<and> Lit ''## Appendix: Material Suppliers by Tier\<newline>\<newline>'' \<in> set md
      \<and> (\<exists>fs c. Op (AddText ''Appendix: Material Suppliers by Tier'' fs True c) \<in> set pdf)
      \<and> Lit ''## Building Code Compliance Summary\<newline>\<newline>'' \<in> set md
      \<and> Lit ''## Appendix: Material Suppliers by Tier\<newline>\<newline>'' \<notin> set md3
      \<and> Lit ''## Building Code Compliance Summary\<newline>\<newline>'' \<in> set md3
      \<and> supplierEntries md3 = [] \<and> supplierCards pdf3 = []"
proof -
  obtain md where md: "markdownPieces sampleHost oneMaterial = Inr md"
    using markdown_returns [OF samples_plain(1)] by blast
  obtain pdf where pdf: "buildPDFDocument sampleHost oneMaterial = Inr pdf"
    using pdf_returns [OF samples_plain(1)] by blast
  obtain md3 where md3: "markdownPieces sampleHost tier3Only = Inr md3"
    using markdown_returns [OF samples_plain(2)] by blast
  obtain pdf3 where pdf3: "buildPDFDocument sampleHost tier3Only = Inr pdf3"
    using pdf_returns [OF samples_plain(2)] by blast
  have l: "location oneMaterial \<noteq> None" "location tier3Only \<noteq> None"
    by (simp_all add: oneMaterial_def tier3Only_def)
  from conditional_sections [OF md pdf] conditional_sections [OF md3 pdf3] l samples_tiers md pdf md3 pdf3
  show ?thesis
    by (intro exI [of _ md] exI [of _ pdf] exI [of _ md3] exI [of _ pdf3]) simp
qed

text \<open>C4 as stated fails for the PDF: for an analysis with a location the markdown has the
  compliance summary among its headings and the PDF has no such heading.\<close>

theorem conditional_sections_counterexample:
  "location oneMaterial = Some sampleLocation
   \<and> markdownHeadings sampleHost oneMaterial =
       Inr [''## Project Summary\<newline>\<newline>'',
            ''## Materials Analysis by CSI MasterFormat Division\<newline>\<newline>'',
            ''## Summary by Tier\<newline>\<newline>'',
            ''## Building Code Compliance Summary\<newline>\<newline>'',
            ''## Recommendations\<newline>\<newline>'',
            ''## Appendix: Elite Consultants by Tier\<newline>\<newline>'',
            ''## Appendix: Material Suppliers by Tier\<newline>\<newline>'']
   \<and> pdfDocumentHeadings sampleHost oneMaterial =
       Inr [''Location'', ''Date of Report'', ''Notes from the Brief'', ''Summary of Materials Analysis'',
            ''Tier 1 (Green - Readily Available): 1 materials'',
            ''Tier 2 (Yellow - Requires Customization): 0 materials'',
            ''Tier 3 (Red - Custom Development): 0 materials'',
            ''Tier 1: Readily Available Materials'',
            ''Appendix: Elite Consultants by Tier'',
            ''Green Consultants (Tier 1 Materials)'',
            ''Appendix: Material Suppliers by Tier'',
            ''Green Suppliers (Tier 1 Materials)'']"
  by code_simp

subsection \<open>C5: optional fields behind the two flags\<close>

text \<open>
  C5. When \<open>includeAlternatives\<close> is false, no material section of the markdown output and no
  material card of the PDF contains an alternatives block: the chunk (or text)
  \<open>Alternative Materials:\<close> is absent, and the section or card is the one the material would
  get with its alternatives removed, whatever they are. When \<open>includeSustainability\<close> is
  false the same holds for the sustainability notes. Nothing is raised for it: the sections and
  cards are those of all the materials, in the order of each renderer.
\<close>

theorem flags_off_omit_fields:
  assumes "markdownPieces h a = Inr md" and "buildPDFDocument h a = Inr pdf"
  shows "(\<not> includeAlternatives a \<longrightarrow>
            list_all (\<lambda>(m, s, al, c).
                ''- **Alternative Materials:**\<newline>'' \<notin> set (materialSectionChunks m s al c)
                \<and> generateMaterialSection m s al c = generateMaterialSection (m\<lparr>alternatives := None\<rparr>) s al c)
              (sectionsOf md)
          \<and> list_all (\<lambda>(m, t, s, al, hl).
                DocText ''Alternative Materials:'' \<notin> set (addMaterialCard s al hl m t)
                \<and> addMaterialCard s al hl m t = addMaterialCard s al hl (m\<lparr>alternatives := None\<rparr>) t)
              (cardsOf pdf))
       \<and> (\<not> includeSustainability a \<longrightarrow>
            list_all (\<lambda>(m, s, al, c).
                (\<forall>notes. (''- **Sustainability Notes:** '' @ notes @ ''\<newline>'') \<notin> set (materialSectionChunks m s al c))
                \<and> generateMaterialSection m s al c = generateMaterialSection (m\<lparr>sustainabilityNotes := None\<rparr>) s al c)
              (sectionsOf md)
          \<and> list_all (\<lambda>(m, t, s, al, hl).
                (\<forall>notes. AddLabelValue ''Sustainability Notes: '' notes \<notin> set (addMaterialCard s al hl m t))
                \<and> addMaterialCard s al hl m t = addMaterialCard s al hl (m\<lparr>sustainabilityNotes := None\<rparr>) t)
              (cardsOf pdf))
       \<and> map fst (sectionsOf md) = divisionOrder h (materials a)
       \<and> map fst (cardsOf pdf) = inTierOrder (materials a)"
proof -
  note sec = markdown_sections(1) [OF assms(1)]
  note crd = pdf_cards(1) [OF assms(2)]
  have a1: "list_all (\<lambda>(m, s, al, c).
                ''- **Alternative Materials:**\<newline>'' \<notin> set (materialSectionChunks m s al c)
                \<and> generateMaterialSection m s al c = generateMaterialSection (m\<lparr>alternatives := None\<rparr>) s al c)
              (sectionsOf md)" if "\<not> includeAlternatives a"
    unfolding sec using that chunks_without_alternatives section_ignores_alternatives
    by (simp add: list_all_iff)
  have a2: "list_all (\<lambda>(m, t, s, al, hl).
                DocText ''Alternative Materials:'' \<notin> set (addMaterialCard s al hl m t)
                \<and> addMaterialCard s al hl m t = addMaterialCard s al hl (m\<lparr>alternatives := None\<rparr>) t)
              (cardsOf pdf)" if "\<not> includeAlternatives a"
    unfolding crd using that card_without_alternatives card_ignores_alternatives
    by (simp add: list_all_iff)
  have s1: "list_all (\<lambda>(m, s, al, c).
                (\<forall>notes. (''- **Sustainability Notes:** '' @ notes @ ''\<newline>'') \<notin> set (materialSectionChunks m s al c))
                \<and> generateMaterialSection m s al c = generateMaterialSection (m\<lparr>sustainabilityNotes := None\<rparr>) s al c)
              (sectionsOf md)" if "\<not> includeSustainability a"
    unfolding sec using that chunks_without_sustainability section_ignores_sustainability
    by (simp add: list_all_iff)
  have s2: "list_all (\<lambda>(m, t, s, al, hl).
                (\<forall>notes. AddLabelValue ''Sustainability Notes: '' notes \<notin> set (addMaterialCard s al hl m t))
                \<and> addMaterialCard s al hl m t = addMaterialCard s al hl (m\<lparr>sustainabilityNotes := None\<rparr>) t)
              (cardsOf pdf)" if "\<not> includeSustainability a"
    unfolding crd using that card_without_sustainability card_ignores_sustainability
    by (simp add: list_all_iff)
  have m1: "map fst (sectionsOf md) = divisionOrder h (materials a)"
    unfolding sec by (simp add: comp_def)
  have m2: "map fst (cardsOf pdf) = inTierOrder (materials a)"
    unfolding crd by (simp add: comp_def)
  from a1 a2 s1 s2 m1 m2 show ?thesis by (intro conjI impI)
qed

theorem flags_off_omit_fields_witness:
  "\<exists>md pdf. markdownPieces sampleHost twoDivisions = Inr md \<and> buildPDFDocument sampleHost twoDivisions = Inr pdf
      \<and> list_all (\<lambda>(m, s, al, c).
                ''- **Alternative Materials:**\<newline>'' \<notin> set (materialSectionChunks m s al c)
                \<and> generateMaterialSection m s al c = generateMaterialSection (m\<lparr>alternatives := None\<rparr>) s al c)
              (sectionsOf md)
      \<and> list_all (\<lambda>(m, t, s, al, hl).
                (\<forall>notes. AddLabelValue ''Sustainability Notes: '' notes \<notin> set (addMaterialCard s al hl m t))
                \<and> addMaterialCard s al hl m t = addMaterialCard s al hl (m\<lparr>sustainabilityNotes := None\<rparr>) t)
              (cardsOf pdf)
      \<and> map name (map fst (sectionsOf md)) = [''Slab'', ''Roof Membrane'']
      \<and> map name (map fst (cardsOf pdf)) = [''Roof Membrane'', ''Slab'']"
proof -
  obtain md where md: "markdownPieces sampleHost twoDivisions = Inr md"
    using markdown_returns [OF twoDivisions_plain] by blast
  obtain pdf where pdf: "buildPDFDocument sampleHost twoDivisions = Inr pdf"
    using pdf_returns [OF twoDivisions_plain] by blast
  have f: "\<not> includeAlternatives twoDivisions" "\<not> includeSustainability twoDivisions"
    by (simp_all add: twoDivisions_def)
  from flags_off_omit_fields [OF md pdf] f md pdf show ?thesis
    by (intro exI [of _ md] exI [of _ pdf]) (simp add: twoDivisions_names)
qed

subsection \<open>C6: consultants for a set of divisions\<close>

text \<open>
  C6 says that a division name absent from the taxonomy table contributes the single specialty
  \<open>General Consulting\<close>. The code reads \<^verbatim>\<open>divisionToSpecialty[div] || ['General Consulting']\<close>:
  for the division name \<open>constructor\<close>, which the table does not hold, the read finds the
  inherited \<^verbatim>\<open>Object.prototype.constructor\<close>, the fallback is skipped and \<^verbatim>\<open>forEach\<close>
  raises a \<^verbatim>\<open>TypeError\<close>, which neither renderer catches. An unknown name that is not
  inherited gets the fallback.
\<close>

theorem consultants_inherited_division:
  "map_of divisionToSpecialty ''constructor'' = None
   \<and> getConsultantsForDivisions [''constructor''] Tier1 = Inl TypeError
   \<and> getConsultantsForDivisions [''Glass Art''] Tier1 = Inr [tier1Consultant 0 ''General Consulting'']
   \<and> generateMarkdownReport sampleHost inheritedDivision = Inl TypeError
   \<and> buildPDFDocument sampleHost inheritedDivision = Inl TypeError"
proof -
  have "map_of divisionToSpecialty ''constructor'' = None
   \<and> getConsultantsForDivisions [''constructor''] Tier1 = Inl TypeError
   \<and> getConsultantsForDivisions [''Glass Art''] Tier1 = Inr [tier1Consultant 0 ''General Consulting'']"
    by code_simp
  moreover have "\<not> plainDivisions (materials inheritedDivision)"
    by code_simp
  ultimately show ?thesis
    by (simp add: renderers_raise generateMarkdownReport_def andThen_def)
qed

subsection \<open>C7: national suppliers\<close>

text \<open>
  C7. \<^verbatim>\<open>getSuppliersForMaterials\<close> is private to the report engine. Both renderers call it
  with the materials of one tier, and only when there is at least one; and they call it after
  \<^verbatim>\<open>getConsultantsForDivisions\<close> has returned for the divisions of the same materials, so
  that no division name in the list is inherited from \<^verbatim>\<open>Object.prototype\<close>. On every such
  list the function returns, and the returned list holds a national supplier if and only if the
  tier is 2 or the materials span more than three distinct divisions; at most three entries are
  national; every rating is local or national; and the list is a run of local entries followed
  by a run of national entries, each of these with the location label
  \<open>National Distribution\<close> and a phone number that starts with \<open>+1 (800)\<close>.
\<close>

theorem suppliers_national_rule:
  assumes "ms \<noteq> []" and "plainDivisions ms"
  shows "(\<exists>sups. getSuppliersForMaterials ms loc t = Inr sups
          \<and> ((\<exists>s \<in> set sups. rating s = National)
               \<longleftrightarrow> t = Tier2 \<or> length (newSet (map csiDivision ms)) > 3)
          \<and> length (filter (\<lambda>s. rating s = National) sups) \<le> 3
          \<and> list_all (\<lambda>s. rating s = Local \<or> rating s = National) sups
          \<and> (\<exists>locals nationals. sups = locals @ nationals
                \<and> list_all (\<lambda>s. rating s = Local) locals
                \<and> list_all (\<lambda>s. rating s = National \<and> supplierLocation s = ''National Distribution''
                                  \<and> take 8 (supplierPhone s) = ''+1 (800)'') nationals))
       \<and> (consultantsAppendix a = Inr c \<or> pdfConsultantsAppendix a = Inr d
            \<longrightarrow> plainDivisions (ofTier u (materials a)))"
proof -
  let ?types = "newSet (map csiDivision ms)"
  have e: "plainDivisions (ofTier u (materials a))"
    if "consultantsAppendix a = Inr c \<or> pdfConsultantsAppendix a = Inr d"
    using that consultants_return_plain [of a] by (auto intro: plainDivisions_ofTier)
  from getSuppliers_plain [OF assms(2)] obtain sups where
    r: "getSuppliersForMaterials ms loc t = Inr sups" by blast
  from getSuppliers_parts [OF r] obtain locals nationals where
    s: "sups = locals @ nationals"
    and lr: "list_all (\<lambda>s. rating s = Local) locals"
    and nn: "list_all (\<lambda>s. rating s = National \<and> supplierLocation s = ''National Distribution''
                               \<and> take 8 (supplierPhone s) = ''+1 (800)'') nationals"
    and len: "length nationals = (if t = Tier2 \<or> length ?types > 3 then min (length ?types) 3 else 0)"
    by (elim exE conjE)
  have nr: "list_all (\<lambda>s. rating s = National) nationals"
    using nn by (simp add: list_all_iff)
  have f: "filter (\<lambda>s. rating s = National) sups = nationals"
    using s lr nr by (rule national_filter)
  have "(\<exists>s \<in> set sups. rating s = National) \<longleftrightarrow> filter (\<lambda>s. rating s = National) sups \<noteq> []"
    by (simp add: filter_empty_conv)
  also have "\<dots> \<longleftrightarrow> ms \<noteq> [] \<and> (t = Tier2 \<or> length ?types > 3)"
    unfolding f using len by (rule national_nonempty)
  finally have a: "(\<exists>s \<in> set sups. rating s = National) \<longleftrightarrow> t = Tier2 \<or> length ?types > 3"
    using assms(1) by simp
  have b: "length (filter (\<lambda>s. rating s = National) sups) \<le> 3"
    unfolding f using len by (simp split: if_splits)
  have "rating x = Local \<or> rating x = National" for x :: Supplier
    by (cases "rating x") simp_all
  then have c: "list_all (\<lambda>s. rating s = Local \<or> rating s = National) sups"
    by (simp add: list_all_iff)
  have d: "\<exists>locals nationals. sups = locals @ nationals
             \<and> list_all (\<lambda>s. rating s = Local) locals
             \<and> list_all (\<lambda>s. rating s = National \<and> supplierLocation s = ''National Distribution''
                               \<and> take 8 (supplierPhone s) = ''+1 (800)'') nationals"
    using s lr nn by (intro exI [of _ locals] exI [of _ nationals] conjI)
  from r a b c d have "\<exists>sups. getSuppliersForMaterials ms loc t = Inr sups
       \<and> ((\<exists>s \<in> set sups. rating s = National)
            \<longleftrightarrow> t = Tier2 \<or> length (newSet (map csiDivision ms)) > 3)
       \<and> length (filter (\<lambda>s. rating s = National) sups) \<le> 3
       \<and> list_all (\<lambda>s. rating s = Local \<or> rating s = National) sups
       \<and> (\<exists>locals nationals. sups = locals @ nationals
             \<and> list_all (\<lambda>s. rating s = Local) locals
             \<and> list_all (\<lambda>s. rating s = National \<and> supplierLocation s = ''National Distribution''
                               \<and> take 8 (supplierPhone s) = ''+1 (800)'') nationals)"
    by (intro exI [of _ sups]) (intro conjI)
  with e show ?thesis by (intro conjI impI)
qed

theorem suppliers_national_rule_witness:
  "(\<exists>sups. getSuppliersForMaterials tier2Openings sampleLocation Tier2 = Inr sups
      \<and> (\<exists>s \<in> set sups. rating s = National)
      \<and> length (filter (\<lambda>s. rating s = National) sups) \<le> 3)
   \<and> (\<exists>sups. getSuppliersForMaterials fourMaterials sampleLocation Tier1 = Inr sups
      \<and> (\<forall>s \<in> set sups. rating s \<noteq> National))
   \<and> (\<exists>sups. getSuppliersForMaterials unsortedMaterials sampleLocation Tier1 = Inr sups
      \<and> (\<exists>s \<in> set sups. rating s = National))"
proof -
  have p: "plainDivisions tier2Openings" "plainDivisions fourMaterials" "plainDivisions unsortedMaterials"
    by code_simp+
  have n: "tier2Openings \<noteq> []" "fourMaterials \<noteq> []" "unsortedMaterials \<noteq> []"
    by (simp_all add: tier2Openings_def fourMaterials_def unsortedMaterials_def)
  have d: "length (newSet (map csiDivision fourMaterials)) = 3" "length (newSet (map csiDivision unsortedMaterials)) = 4"
    by code_simp+
  from suppliers_national_rule [OF n(1) p(1), of sampleLocation Tier2, THEN conjunct1]
  obtain s1 where s1: "getSuppliersForMaterials tier2Openings sampleLocation Tier2 = Inr s1"
    "\<exists>s \<in> set s1. rating s = National" "length (filter (\<lambda>s. rating s = National) s1) \<le> 3"
    by (elim exE conjE) simp
  then have 1: "\<exists>sups. getSuppliersForMaterials tier2Openings sampleLocation Tier2 = Inr sups
      \<and> (\<exists>s \<in> set sups. rating s = National)
      \<and> length (filter (\<lambda>s. rating s = National) sups) \<le> 3"
    by (intro exI [of _ s1]) simp
  from suppliers_national_rule [OF n(2) p(2), of sampleLocation Tier1, THEN conjunct1]
  obtain s2 where s2: "getSuppliersForMaterials fourMaterials sampleLocation Tier1 = Inr s2"
    "\<forall>s \<in> set s2. rating s \<noteq> National"
    by (elim exE conjE) (simp add: d)
  then have 2: "\<exists>sups. getSuppliersForMaterials fourMaterials sampleLocation Tier1 = Inr sups
      \<and> (\<forall>s \<in> set sups. rating s \<noteq> National)"
    by (intro exI [of _ s2]) simp
  from suppliers_national_rule [OF n(3) p(3), of sampleLocation Tier1, THEN conjunct1]
  obtain s3 where s3: "getSuppliersForMaterials unsortedMaterials sampleLocation Tier1 = Inr s3"
    "\<exists>s \<in> set s3. rating s = National"
    by (elim exE conjE) (simp add: d)
  then have 3: "\<exists>sups. getSuppliersForMaterials unsortedMaterials sampleLocation Tier1 = Inr sups
      \<and> (\<exists>s \<in> set sups. rating s = National)"
    by (intro exI [of _ s3]) simp
  from 1 2 3 show ?thesis by (intro conjI)
qed

subsection \<open>C8: the brief section\<close>

text \<open>
  C8, as the code has it. The brief section follows the report header. It shows the extracted
  intent when that is present and not empty and, independently of the intent, the raw brief
  text when that is not empty and shorter than 500 characters. So a brief with both a non-empty
  intent and a short raw text is rendered with both, the intent first; with only one of them,
  that one; with neither, the heading and the rule alone.
\<close>

theorem brief_section_shows_both:
  assumes "markdownPieces h a = Inr md" and "brief a = Some b"
  shows "(\<exists>rest. md = reportHeader h a @ briefSection a @ rest)
       \<and> (\<forall>i. intent b = Some i \<and> i \<noteq> [] \<and> briefText b \<noteq> [] \<and> length (briefText b) < 500 \<longrightarrow>
              briefSection a =
                [Lit ''## Project Brief\<newline>\<newline>'',
                 Lit (''**Project Intent & Constraints:**\<newline>'' @ i @ ''\<newline>\<newline>''),
                 Lit (''**Brief Summary:**\<newline>'' @ briefText b @ ''\<newline>\<newline>''),
                 Lit ''---\<newline>\<newline>''])
       \<and> (\<forall>i. intent b = Some i \<and> i \<noteq> [] \<and> (briefText b = [] \<or> length (briefText b) \<ge> 500) \<longrightarrow>
              briefSection a =
                [Lit ''## Project Brief\<newline>\<newline>'',
                 Lit (''**Project Intent & Constraints:**\<newline>'' @ i @ ''\<newline>\<newline>''),
                 Lit ''---\<newline>\<newline>''])
       \<and> (\<not> truthy (intent b) \<and> briefText b \<noteq> [] \<and> length (briefText b) < 500 \<longrightarrow>
              briefSection a =
                [Lit ''## Project Brief\<newline>\<newline>'',
                 Lit (''**Brief Summary:**\<newline>'' @ briefText b @ ''\<newline>\<newline>''),
                 Lit ''---\<newline>\<newline>''])
       \<and> (\<not> truthy (intent b) \<and> (briefText b = [] \<or> length (briefText b) \<ge> 500) \<longrightarrow>
              briefSection a = [Lit ''## Project Brief\<newline>\<newline>'', Lit ''---\<newline>\<newline>''])"
proof -
  from markdown_structure [OF assms(1)] have "\<exists>rest. md = reportHeader h a @ briefSection a @ rest"
    by auto
  moreover have "\<not> truthy x \<longleftrightarrow> x = None \<or> x = Some []" for x :: "string option"
    by (cases x) auto
  ultimately show ?thesis
    using assms(2) by (auto simp: briefSection_def split: option.splits)
qed

theorem brief_section_witness:
  "\<exists>md rest. markdownPieces sampleHost briefBoth = Inr md
      \<and> md = reportHeader sampleHost briefBoth @
             [Lit ''## Project Brief\<newline>\<newline>'',
              Lit ''**Project Intent & Constraints:**\<newline>Low-carbon timber\<newline>\<newline>'',
              Lit ''**Brief Summary:**\<newline>Lakeside pavilion\<newline>\<newline>'',
              Lit ''---\<newline>\<newline>''] @ rest"
proof -
  have "plainDivisions (materials briefBoth)"
    by (simp add: briefBoth_def plainDivisions_def)
  then obtain md where md: "markdownPieces sampleHost briefBoth = Inr md"
    using markdown_returns by blast
  have b: "brief briefBoth = Some \<lparr> briefText = ''Lakeside pavilion'', intent = Some ''Low-carbon timber'' \<rparr>"
    by (simp add: briefBoth_def)
  from brief_section_shows_both [OF md b] obtain rest where
    "md = reportHeader sampleHost briefBoth @ briefSection briefBoth @ rest"
    "briefSection briefBoth =
       [Lit ''## Project Brief\<newline>\<newline>'',
        Lit (''**Project Intent & Constraints:**\<newline>'' @ ''Low-carbon timber'' @ ''\<newline>\<newline>''),
        Lit (''**Brief Summary:**\<newline>'' @ ''Lakeside pavilion'' @ ''\<newline>\<newline>''),
        Lit ''---\<newline>\<newline>'']"
    by (elim conjE exE) simp
  with md show ?thesis
    by (intro exI [of _ md] exI [of _ rest]) simp
qed

text \<open>C8 as stated fails: for a brief with the intent \<open>Low-carbon timber\<close> and the raw text
  \<open>Lakeside pavilion\<close> the report contains both.\<close>

theorem brief_section_counterexample:
  "generateMarkdownReport sampleHost briefBoth =
     Inr ''# Material Feasibility Analysis Report\<newline>\<newline>**Generated:** 1/15/2025, 9:30:00 AM\<newline>\<newline>## Project Brief\<newline>\<newline>**Project Intent & Constraints:**\<newline>Low-carbon timber\<newline>\<newline>**Brief Summary:**\<newline>Lakeside pavilion\<newline>\<newline>---\<newline>\<newline>## Project Summary\<newline>\<newline>- **Total materials identified:** 0\<newline>- **Tier 1 (Readily Available):** 0 materials\<newline>- **Tier 2 (Requires Customization):** 0 materials\<newline>- **Tier 3 (Custom Development):** 0 materials\<newline>\<newline>---\<newline>\<newline>## Materials Analysis by CSI MasterFormat Division\<newline>\<newline>---\<newline>\<newline>## Summary by Tier\<newline>\<newline>---\<newline>\<newline>## Recommendations\<newline>\<newline>**Next Steps:**\<newline>- Tier 1 materials can proceed to specification immediately\<newline>- Tier 2 materials require consultation with manufacturers/fabricators\<newline>- Tier 3 materials need R&D phase or alternative solutions\<newline>\<newline>---\<newline>\<newline>## Appendix: Elite Consultants by Tier\<newline>\<newline>The following consultants are recommended for the disciplines governing the identified materials in this analysis.\<newline>\<newline>**Report generated by SpecMate**\<newline>''"
  by code_simp

subsection \<open>C9: determinism\<close>

text \<open>
  C9. The renderer reads neither a clock nor a random number generator. Of its host it reads
  the format of the time stamp (\<^verbatim>\<open>new Date(timestamp).toLocaleString()\<close>) and, when some
  division key has no finite number, the order in which \<^verbatim>\<open>Array.prototype.sort\<close> leaves the
  keys; both are fixed for a host. So two invocations on the same analysis, on hosts that agree
  on these two readings and may differ in everything else, return the same string or the same
  error; and when every division key has a finite number, or the two hosts sort alike, the two
  key orders agree. The generators take no host. The consultant entries and the supplier
  entries of two reports on the same analysis are the same lists, whatever the two hosts; and
  the supplier list depends on the division names of the materials, on the jurisdiction and on
  the tier, and on nothing else.
\<close>

theorem report_deterministic:
  "(toLocaleString h1 (timestamp a) = toLocaleString h2 (timestamp a)
      \<and> divisionKeys h1 (materials a) = divisionKeys h2 (materials a)
      \<longrightarrow> generateMarkdownReport h1 a = generateMarkdownReport h2 a)
   \<and> (numericKeys (map divisionKey (materials a)) \<or> sortKeys h1 = sortKeys h2
        \<longrightarrow> divisionKeys h1 (materials a) = divisionKeys h2 (materials a))
   \<and> (\<forall>md1 md2. markdownPieces h1 a = Inr md1 \<and> markdownPieces h2 a = Inr md2 \<longrightarrow>
          consultantEntries md1 = consultantEntries md2 \<and> supplierEntries md1 = supplierEntries md2)
   \<and> (\<forall>e. markdownPieces h1 a = Inl e \<longrightarrow> markdownPieces h2 a = Inl e)
   \<and> (map csiDivision ms = map csiDivision ms' \<and> jurisdiction loc = jurisdiction loc'
        \<longrightarrow> getSuppliersForMaterials ms loc t = getSuppliersForMaterials ms' loc' t)"
proof -
  have i1: "toLocaleString h1 (timestamp a) = toLocaleString h2 (timestamp a)
      \<and> divisionKeys h1 (materials a) = divisionKeys h2 (materials a)
      \<longrightarrow> generateMarkdownReport h1 a = generateMarkdownReport h2 a"
  proof (intro impI, elim conjE)
    assume "toLocaleString h1 (timestamp a) = toLocaleString h2 (timestamp a)"
      and "divisionKeys h1 (materials a) = divisionKeys h2 (materials a)"
    then have "markdownPieces h1 a = markdownPieces h2 a"
      by (rule markdownPieces_agree)
    then show "generateMarkdownReport h1 a = generateMarkdownReport h2 a"
      by (simp only: generateMarkdownReport_def)
  qed
  have i2: "numericKeys (map divisionKey (materials a)) \<or> sortKeys h1 = sortKeys h2
        \<longrightarrow> divisionKeys h1 (materials a) = divisionKeys h2 (materials a)"
    by (intro impI) (rule divisionKeys_agree)
  have i3: "\<forall>md1 md2. markdownPieces h1 a = Inr md1 \<and> markdownPieces h2 a = Inr md2 \<longrightarrow>
          consultantEntries md1 = consultantEntries md2 \<and> supplierEntries md1 = supplierEntries md2"
    using entries_host by blast
  have i4: "\<forall>e. markdownPieces h1 a = Inl e \<longrightarrow> markdownPieces h2 a = Inl e"
    using markdownPieces_host_error by blast
  have i5: "map csiDivision ms = map csiDivision ms' \<and> jurisdiction loc = jurisdiction loc'
        \<longrightarrow> getSuppliersForMaterials ms loc t = getSuppliersForMaterials ms' loc' t"
    by (intro impI, elim conjE) (rule getSuppliers_arguments)
  from i1 i2 i3 i4 i5 show ?thesis by (intro conjI)
qed

theorem report_deterministic_witness:
  "generateMarkdownReport sampleHost twoDivisions = generateMarkdownReport offlineHost twoDivisions
   \<and> sortKeys sampleHost \<noteq> sortKeys offlineHost
   \<and> imageLoads sampleHost \<noteq> imageLoads offlineHost
   \<and> (\<exists>md1 md2. markdownPieces sampleHost twoDivisions = Inr md1 \<and> markdownPieces berlinHost twoDivisions = Inr md2
          \<and> consultantEntries md1 = consultantEntries md2 \<and> supplierEntries md1 = supplierEntries md2)
   \<and> markdownPieces sampleHost inheritedDivision = Inl TypeError
   \<and> markdownPieces offlineHost inheritedDivision = Inl TypeError
   \<and> tier2Openings \<noteq> otherOpenings \<and> sampleLocation \<noteq> otherLocation
   \<and> getSuppliersForMaterials tier2Openings sampleLocation Tier2 = getSuppliersForMaterials otherOpenings otherLocation Tier2"
proof -
  have ne: "\<not> plainDivisions (materials inheritedDivision)"
    by code_simp
  then have e1: "markdownPieces sampleHost inheritedDivision = Inl TypeError"
    by (rule renderers_raise(1))
  from report_deterministic [of sampleHost inheritedDivision offlineHost] e1
  have e2: "markdownPieces offlineHost inheritedDivision = Inl TypeError"
    by blast
  have g0: "tier2Openings \<noteq> otherOpenings" "sampleLocation \<noteq> otherLocation"
    "map csiDivision tier2Openings = map csiDivision otherOpenings"
    "jurisdiction sampleLocation = jurisdiction otherLocation"
    by (simp_all add: tier2Openings_def otherOpenings_def sampleLocation_def otherLocation_def sampleMaterial_def)
  from report_deterministic [of _ _ _ tier2Openings otherOpenings sampleLocation otherLocation Tier2] g0(3,4)
  have g: "getSuppliersForMaterials tier2Openings sampleLocation Tier2 = getSuppliersForMaterials otherOpenings otherLocation Tier2"
    by blast
  have d: "toLocaleString sampleHost (timestamp twoDivisions) = toLocaleString offlineHost (timestamp twoDivisions)"
    by (simp add: sampleHost_def offlineHost_def)
  have n: "numericKeys (map divisionKey (materials twoDivisions))"
    by code_simp
  have "applySort keepOrder [''a'', ''b''] \<noteq> applySort reverseOrder [''a'', ''b'']"
    by (simp add: keepOrder.rep_eq reverseOrder.rep_eq)
  then have e: "sortKeys sampleHost \<noteq> sortKeys offlineHost"
    by (auto simp: sampleHost_def offlineHost_def)
  have i: "imageLoads sampleHost \<noteq> imageLoads offlineHost"
    by (auto simp: sampleHost_def offlineHost_def fun_eq_iff)
  obtain md1 where md1: "markdownPieces sampleHost twoDivisions = Inr md1"
    using markdown_returns [OF twoDivisions_plain] by blast
  obtain md2 where md2: "markdownPieces berlinHost twoDivisions = Inr md2"
    using markdown_returns [OF twoDivisions_plain] by blast
  note r = report_deterministic [of sampleHost twoDivisions offlineHost]
  from r n have k: "divisionKeys sampleHost (materials twoDivisions) = divisionKeys offlineHost (materials twoDivisions)"
    by blast
  from r d k
  have 1: "generateMarkdownReport sampleHost twoDivisions = generateMarkdownReport offlineHost twoDivisions"
    by blast
  from report_deterministic [of sampleHost twoDivisions berlinHost] md1 md2
  have 2: "consultantEntries md1 = consultantEntries md2 \<and> supplierEntries md1 = supplierEntries md2"
    by blast
  from 2 md1 md2 have 3: "\<exists>md1 md2. markdownPieces sampleHost twoDivisions = Inr md1 \<and> markdownPieces berlinHost twoDivisions = Inr md2
          \<and> consultantEntries md1 = consultantEntries md2 \<and> supplierEntries md1 = supplierEntries md2"
    by (intro exI [of _ md1] exI [of _ md2]) simp
  from 1 e i 3 e1 e2 g0(1,2) g show ?thesis
    by (intro conjI)
qed

subsection \<open>C10: the grouping is a partition\<close>


end
